theory Spec2Isabelle
  imports Main "HOL-Library.Sublist" "HOL-Library.Monad_Syntax"
begin

section \<open>Strings and characters\<close>

text \<open>
  The converter of \<^verbatim>\<open>relational-algebra-converter.tsx\<close> works on JavaScript strings, which
  are sequences of 16-bit code units (UTF-16). A code unit is modelled by its two bytes,
  the high one first: \<^verbatim>\<open>U+03C0\<close> is \<open>CU (CHR 0x03) (CHR 0xC0)\<close>, and a character beyond
  \<^verbatim>\<open>U+FFFF\<close> is a pair of surrogate code units, as in JavaScript. \<open>str\<close> turns a text written
  with the characters \<^verbatim>\<open>U+0000\<close> to \<^verbatim>\<open>U+00FF\<close> into its code units.
\<close>

datatype cu = CU char char

type_synonym jstring = "cu list"

definition str :: "string \<Rightarrow> jstring" where
  "str s = map (CU (CHR 0x00)) s"

definition semi :: cu where
  "semi = CU (CHR 0x00) CHR '';''"

text \<open>The line feed, as a string of one code unit.\<close>

definition lf :: jstring where
  "lf = [CU (CHR 0x00) (CHR 0x0A)]"

text \<open>
  The line terminators of ECMAScript (\<^verbatim>\<open>LF\<close>, \<^verbatim>\<open>CR\<close>, \<^verbatim>\<open>U+2028\<close>, \<^verbatim>\<open>U+2029\<close>), which \<^verbatim>\<open>.\<close> does
  not match, and its white space, which \<^verbatim>\<open>\s\<close> matches and \<^verbatim>\<open>trim\<close> removes: the line
  terminators, \<^verbatim>\<open>TAB\<close>, \<^verbatim>\<open>VT\<close>, \<^verbatim>\<open>FF\<close>, \<^verbatim>\<open>U+FEFF\<close> and the space separators of Unicode
  (\<^verbatim>\<open>U+0020\<close>, \<^verbatim>\<open>U+00A0\<close>, \<^verbatim>\<open>U+1680\<close>, \<^verbatim>\<open>U+2000\<close> to \<^verbatim>\<open>U+200A\<close>, \<^verbatim>\<open>U+202F\<close>, \<^verbatim>\<open>U+205F\<close>, \<^verbatim>\<open>U+3000\<close>).
  The word characters of \<^verbatim>\<open>\w\<close> are the ASCII letters, the digits and the underscore.
\<close>

definition is_line_terminator :: "cu \<Rightarrow> bool" where
  "is_line_terminator c =
     (c \<in> set [CU (CHR 0x00) (CHR 0x0A), CU (CHR 0x00) (CHR 0x0D),
               CU (CHR 0x20) (CHR 0x28), CU (CHR 0x20) (CHR 0x29)])"

definition is_space :: "cu \<Rightarrow> bool" where
  "is_space c =
     (is_line_terminator c
      \<or> c \<in> set [CU (CHR 0x00) (CHR 0x09), CU (CHR 0x00) (CHR 0x0B), CU (CHR 0x00) (CHR 0x0C),
                 CU (CHR 0x00) (CHR 0x20), CU (CHR 0x00) (CHR 0xA0), CU (CHR 0x16) (CHR 0x80),
                 CU (CHR 0x20) (CHR 0x00), CU (CHR 0x20) (CHR 0x01), CU (CHR 0x20) (CHR 0x02),
                 CU (CHR 0x20) (CHR 0x03), CU (CHR 0x20) (CHR 0x04), CU (CHR 0x20) (CHR 0x05),
                 CU (CHR 0x20) (CHR 0x06), CU (CHR 0x20) (CHR 0x07), CU (CHR 0x20) (CHR 0x08),
                 CU (CHR 0x20) (CHR 0x09), CU (CHR 0x20) (CHR 0x0A), CU (CHR 0x20) (CHR 0x2F),
                 CU (CHR 0x20) (CHR 0x5F), CU (CHR 0x30) (CHR 0x00), CU (CHR 0xFE) (CHR 0xFF)])"

definition is_word :: "cu \<Rightarrow> bool" where
  "is_word c =
     (c \<in> set (str ''ABCDEFGHIJKLMNOPQRSTUVWXYZabcdefghijklmnopqrstuvwxyz0123456789_''))"

text \<open>
  \<^verbatim>\<open>String.prototype.toUpperCase\<close> replaces every code point by its upper-case mapping in the
  Unicode Character Database, which can be several code points long (\<^verbatim>\<open>U+00DF\<close> becomes
  \<^verbatim>\<open>SS\<close>) and which lets a few characters outside ASCII become ASCII letters (\<^verbatim>\<open>U+017F\<close>
  becomes \<^verbatim>\<open>S\<close>, \<^verbatim>\<open>U+0131\<close> becomes \<^verbatim>\<open>I\<close>). The mapping is independent of the locale and of
  the context. Below it is given in three parts: the letters \<^verbatim>\<open>a\<close> to \<^verbatim>\<open>z\<close>; for every
  high byte, the page \<open>upper_bmp\<close> of the code units from \<^verbatim>\<open>U+0080\<close> on that change, by
  their low byte; and for every high surrogate, the list \<open>upper_astral\<close> of the low
  surrogates with which it forms a character that changes. The tables are those of
  Unicode 14.0 (\<^verbatim>\<open>UnicodeData.txt\<close> and the unconditional entries of \<^verbatim>\<open>SpecialCasing.txt\<close>).
  A surrogate code unit that is not part of a pair is left as it is.
\<close>

definition ascii_upper :: "char \<Rightarrow> char" where
  "ascii_upper c =
     (case map_of (zip ''abcdefghijklmnopqrstuvwxyz'' ''ABCDEFGHIJKLMNOPQRSTUVWXYZ'') c of
        Some u \<Rightarrow> u
      | None \<Rightarrow> c)"

definition upper_page_00 :: "(char \<times> jstring) list" where
  "upper_page_00 =
     [(CHR 0xB5, [CU (CHR 0x03) (CHR 0x9C)]), (CHR 0xDF, [CU (CHR 0x00) (CHR 0x53), CU (CHR 0x00) (CHR 0x53)]),
      (CHR 0xE0, [CU (CHR 0x00) (CHR 0xC0)]), (CHR 0xE1, [CU (CHR 0x00) (CHR 0xC1)]),
      (CHR 0xE2, [CU (CHR 0x00) (CHR 0xC2)]), (CHR 0xE3, [CU (CHR 0x00) (CHR 0xC3)]),
      (CHR 0xE4, [CU (CHR 0x00) (CHR 0xC4)]), (CHR 0xE5, [CU (CHR 0x00) (CHR 0xC5)]),
      (CHR 0xE6, [CU (CHR 0x00) (CHR 0xC6)]), (CHR 0xE7, [CU (CHR 0x00) (CHR 0xC7)]),
      (CHR 0xE8, [CU (CHR 0x00) (CHR 0xC8)]), (CHR 0xE9, [CU (CHR 0x00) (CHR 0xC9)]),
      (CHR 0xEA, [CU (CHR 0x00) (CHR 0xCA)]), (CHR 0xEB, [CU (CHR 0x00) (CHR 0xCB)]),
      (CHR 0xEC, [CU (CHR 0x00) (CHR 0xCC)]), (CHR 0xED, [CU (CHR 0x00) (CHR 0xCD)]),
      (CHR 0xEE, [CU (CHR 0x00) (CHR 0xCE)]), (CHR 0xEF, [CU (CHR 0x00) (CHR 0xCF)]),
      (CHR 0xF0, [CU (CHR 0x00) (CHR 0xD0)]), (CHR 0xF1, [CU (CHR 0x00) (CHR 0xD1)]),
      (CHR 0xF2, [CU (CHR 0x00) (CHR 0xD2)]), (CHR 0xF3, [CU (CHR 0x00) (CHR 0xD3)]),
      (CHR 0xF4, [CU (CHR 0x00) (CHR 0xD4)]), (CHR 0xF5, [CU (CHR 0x00) (CHR 0xD5)]),
      (CHR 0xF6, [CU (CHR 0x00) (CHR 0xD6)]), (CHR 0xF8, [CU (CHR 0x00) (CHR 0xD8)]),
      (CHR 0xF9, [CU (CHR 0x00) (CHR 0xD9)]), (CHR 0xFA, [CU (CHR 0x00) (CHR 0xDA)]),
      (CHR 0xFB, [CU (CHR 0x00) (CHR 0xDB)]), (CHR 0xFC, [CU (CHR 0x00) (CHR 0xDC)]),
      (CHR 0xFD, [CU (CHR 0x00) (CHR 0xDD)]), (CHR 0xFE, [CU (CHR 0x00) (CHR 0xDE)]),
      (CHR 0xFF, [CU (CHR 0x01) (CHR 0x78)])]"

definition upper_page_01 :: "(char \<times> jstring) list" where
  "upper_page_01 =
     [(CHR 0x01, [CU (CHR 0x01) (CHR 0x00)]), (CHR 0x03, [CU (CHR 0x01) (CHR 0x02)]),
      (CHR 0x05, [CU (CHR 0x01) (CHR 0x04)]), (CHR 0x07, [CU (CHR 0x01) (CHR 0x06)]),
      (CHR 0x09, [CU (CHR 0x01) (CHR 0x08)]), (CHR 0x0B, [CU (CHR 0x01) (CHR 0x0A)]),
      (CHR 0x0D, [CU (CHR 0x01) (CHR 0x0C)]), (CHR 0x0F, [CU (CHR 0x01) (CHR 0x0E)]),
      (CHR 0x11, [CU (CHR 0x01) (CHR 0x10)]), (CHR 0x13, [CU (CHR 0x01) (CHR 0x12)]),
      (CHR 0x15, [CU (CHR 0x01) (CHR 0x14)]), (CHR 0x17, [CU (CHR 0x01) (CHR 0x16)]),
      (CHR 0x19, [CU (CHR 0x01) (CHR 0x18)]), (CHR 0x1B, [CU (CHR 0x01) (CHR 0x1A)]),
      (CHR 0x1D, [CU (CHR 0x01) (CHR 0x1C)]), (CHR 0x1F, [CU (CHR 0x01) (CHR 0x1E)]),
      (CHR 0x21, [CU (CHR 0x01) (CHR 0x20)]), (CHR 0x23, [CU (CHR 0x01) (CHR 0x22)]),
      (CHR 0x25, [CU (CHR 0x01) (CHR 0x24)]), (CHR 0x27, [CU (CHR 0x01) (CHR 0x26)]),
      (CHR 0x29, [CU (CHR 0x01) (CHR 0x28)]), (CHR 0x2B, [CU (CHR 0x01) (CHR 0x2A)]),
      (CHR 0x2D, [CU (CHR 0x01) (CHR 0x2C)]), (CHR 0x2F, [CU (CHR 0x01) (CHR 0x2E)]),
      (CHR 0x31, [CU (CHR 0x00) (CHR 0x49)]), (CHR 0x33, [CU (CHR 0x01) (CHR 0x32)]),
      (CHR 0x35, [CU (CHR 0x01) (CHR 0x34)]), (CHR 0x37, [CU (CHR 0x01) (CHR 0x36)]),
      (CHR 0x3A, [CU (CHR 0x01) (CHR 0x39)]), (CHR 0x3C, [CU (CHR 0x01) (CHR 0x3B)]),
      (CHR 0x3E, [CU (CHR 0x01) (CHR 0x3D)]), (CHR 0x40, [CU (CHR 0x01) (CHR 0x3F)]),
      (CHR 0x42, [CU (CHR 0x01) (CHR 0x41)]), (CHR 0x44, [CU (CHR 0x01) (CHR 0x43)]),
      (CHR 0x46, [CU (CHR 0x01) (CHR 0x45)]), (CHR 0x48, [CU (CHR 0x01) (CHR 0x47)]),
      (CHR 0x49, [CU (CHR 0x02) (CHR 0xBC), CU (CHR 0x00) (CHR 0x4E)]), (CHR 0x4B, [CU (CHR 0x01) (CHR 0x4A)]),
      (CHR 0x4D, [CU (CHR 0x01) (CHR 0x4C)]), (CHR 0x4F, [CU (CHR 0x01) (CHR 0x4E)]),
      (CHR 0x51, [CU (CHR 0x01) (CHR 0x50)]), (CHR 0x53, [CU (CHR 0x01) (CHR 0x52)]),
      (CHR 0x55, [CU (CHR 0x01) (CHR 0x54)]), (CHR 0x57, [CU (CHR 0x01) (CHR 0x56)]),
      (CHR 0x59, [CU (CHR 0x01) (CHR 0x58)]), (CHR 0x5B, [CU (CHR 0x01) (CHR 0x5A)]),
      (CHR 0x5D, [CU (CHR 0x01) (CHR 0x5C)]), (CHR 0x5F, [CU (CHR 0x01) (CHR 0x5E)]),
      (CHR 0x61, [CU (CHR 0x01) (CHR 0x60)]), (CHR 0x63, [CU (CHR 0x01) (CHR 0x62)]),
      (CHR 0x65, [CU (CHR 0x01) (CHR 0x64)]), (CHR 0x67, [CU (CHR 0x01) (CHR 0x66)]),
      (CHR 0x69, [CU (CHR 0x01) (CHR 0x68)]), (CHR 0x6B, [CU (CHR 0x01) (CHR 0x6A)]),
      (CHR 0x6D, [CU (CHR 0x01) (CHR 0x6C)]), (CHR 0x6F, [CU (CHR 0x01) (CHR 0x6E)]),
      (CHR 0x71, [CU (CHR 0x01) (CHR 0x70)]), (CHR 0x73, [CU (CHR 0x01) (CHR 0x72)]),
      (CHR 0x75, [CU (CHR 0x01) (CHR 0x74)]), (CHR 0x77, [CU (CHR 0x01) (CHR 0x76)]),
      (CHR 0x7A, [CU (CHR 0x01) (CHR 0x79)]), (CHR 0x7C, [CU (CHR 0x01) (CHR 0x7B)]),
      (CHR 0x7E, [CU (CHR 0x01) (CHR 0x7D)]), (CHR 0x7F, [CU (CHR 0x00) (CHR 0x53)]),
      (CHR 0x80, [CU (CHR 0x02) (CHR 0x43)]), (CHR 0x83, [CU (CHR 0x01) (CHR 0x82)]),
      (CHR 0x85, [CU (CHR 0x01) (CHR 0x84)]), (CHR 0x88, [CU (CHR 0x01) (CHR 0x87)]),
      (CHR 0x8C, [CU (CHR 0x01) (CHR 0x8B)]), (CHR 0x92, [CU (CHR 0x01) (CHR 0x91)]),
      (CHR 0x95, [CU (CHR 0x01) (CHR 0xF6)]), (CHR 0x99, [CU (CHR 0x01) (CHR 0x98)]),
      (CHR 0x9A, [CU (CHR 0x02) (CHR 0x3D)]), (CHR 0x9E, [CU (CHR 0x02) (CHR 0x20)]),
      (CHR 0xA1, [CU (CHR 0x01) (CHR 0xA0)]), (CHR 0xA3, [CU (CHR 0x01) (CHR 0xA2)]),
      (CHR 0xA5, [CU (CHR 0x01) (CHR 0xA4)]), (CHR 0xA8, [CU (CHR 0x01) (CHR 0xA7)]),
      (CHR 0xAD, [CU (CHR 0x01) (CHR 0xAC)]), (CHR 0xB0, [CU (CHR 0x01) (CHR 0xAF)]),
      (CHR 0xB4, [CU (CHR 0x01) (CHR 0xB3)]), (CHR 0xB6, [CU (CHR 0x01) (CHR 0xB5)]),
      (CHR 0xB9, [CU (CHR 0x01) (CHR 0xB8)]), (CHR 0xBD, [CU (CHR 0x01) (CHR 0xBC)]),
      (CHR 0xBF, [CU (CHR 0x01) (CHR 0xF7)]), (CHR 0xC5, [CU (CHR 0x01) (CHR 0xC4)]),
      (CHR 0xC6, [CU (CHR 0x01) (CHR 0xC4)]), (CHR 0xC8, [CU (CHR 0x01) (CHR 0xC7)]),
      (CHR 0xC9, [CU (CHR 0x01) (CHR 0xC7)]), (CHR 0xCB, [CU (CHR 0x01) (CHR 0xCA)]),
      (CHR 0xCC, [CU (CHR 0x01) (CHR 0xCA)]), (CHR 0xCE, [CU (CHR 0x01) (CHR 0xCD)]),
      (CHR 0xD0, [CU (CHR 0x01) (CHR 0xCF)]), (CHR 0xD2, [CU (CHR 0x01) (CHR 0xD1)]),
      (CHR 0xD4, [CU (CHR 0x01) (CHR 0xD3)]), (CHR 0xD6, [CU (CHR 0x01) (CHR 0xD5)]),
      (CHR 0xD8, [CU (CHR 0x01) (CHR 0xD7)]), (CHR 0xDA, [CU (CHR 0x01) (CHR 0xD9)]),
      (CHR 0xDC, [CU (CHR 0x01) (CHR 0xDB)]), (CHR 0xDD, [CU (CHR 0x01) (CHR 0x8E)]),
      (CHR 0xDF, [CU (CHR 0x01) (CHR 0xDE)]), (CHR 0xE1, [CU (CHR 0x01) (CHR 0xE0)]),
      (CHR 0xE3, [CU (CHR 0x01) (CHR 0xE2)]), (CHR 0xE5, [CU (CHR 0x01) (CHR 0xE4)]),
      (CHR 0xE7, [CU (CHR 0x01) (CHR 0xE6)]), (CHR 0xE9, [CU (CHR 0x01) (CHR 0xE8)]),
      (CHR 0xEB, [CU (CHR 0x01) (CHR 0xEA)]), (CHR 0xED, [CU (CHR 0x01) (CHR 0xEC)]),
      (CHR 0xEF, [CU (CHR 0x01) (CHR 0xEE)]), (CHR 0xF0, [CU (CHR 0x00) (CHR 0x4A), CU (CHR 0x03) (CHR 0x0C)]),
      (CHR 0xF2, [CU (CHR 0x01) (CHR 0xF1)]), (CHR 0xF3, [CU (CHR 0x01) (CHR 0xF1)]),
      (CHR 0xF5, [CU (CHR 0x01) (CHR 0xF4)]), (CHR 0xF9, [CU (CHR 0x01) (CHR 0xF8)]),
      (CHR 0xFB, [CU (CHR 0x01) (CHR 0xFA)]), (CHR 0xFD, [CU (CHR 0x01) (CHR 0xFC)]),
      (CHR 0xFF, [CU (CHR 0x01) (CHR 0xFE)])]"

definition upper_page_02 :: "(char \<times> jstring) list" where
  "upper_page_02 =
     [(CHR 0x01, [CU (CHR 0x02) (CHR 0x00)]), (CHR 0x03, [CU (CHR 0x02) (CHR 0x02)]),
      (CHR 0x05, [CU (CHR 0x02) (CHR 0x04)]), (CHR 0x07, [CU (CHR 0x02) (CHR 0x06)]),
      (CHR 0x09, [CU (CHR 0x02) (CHR 0x08)]), (CHR 0x0B, [CU (CHR 0x02) (CHR 0x0A)]),
      (CHR 0x0D, [CU (CHR 0x02) (CHR 0x0C)]), (CHR 0x0F, [CU (CHR 0x02) (CHR 0x0E)]),
      (CHR 0x11, [CU (CHR 0x02) (CHR 0x10)]), (CHR 0x13, [CU (CHR 0x02) (CHR 0x12)]),
      (CHR 0x15, [CU (CHR 0x02) (CHR 0x14)]), (CHR 0x17, [CU (CHR 0x02) (CHR 0x16)]),
      (CHR 0x19, [CU (CHR 0x02) (CHR 0x18)]), (CHR 0x1B, [CU (CHR 0x02) (CHR 0x1A)]),
      (CHR 0x1D, [CU (CHR 0x02) (CHR 0x1C)]), (CHR 0x1F, [CU (CHR 0x02) (CHR 0x1E)]),
      (CHR 0x23, [CU (CHR 0x02) (CHR 0x22)]), (CHR 0x25, [CU (CHR 0x02) (CHR 0x24)]),
      (CHR 0x27, [CU (CHR 0x02) (CHR 0x26)]), (CHR 0x29, [CU (CHR 0x02) (CHR 0x28)]),
      (CHR 0x2B, [CU (CHR 0x02) (CHR 0x2A)]), (CHR 0x2D, [CU (CHR 0x02) (CHR 0x2C)]),
      (CHR 0x2F, [CU (CHR 0x02) (CHR 0x2E)]), (CHR 0x31, [CU (CHR 0x02) (CHR 0x30)]),
      (CHR 0x33, [CU (CHR 0x02) (CHR 0x32)]), (CHR 0x3C, [CU (CHR 0x02) (CHR 0x3B)]),
      (CHR 0x3F, [CU (CHR 0x2C) (CHR 0x7E)]), (CHR 0x40, [CU (CHR 0x2C) (CHR 0x7F)]),
      (CHR 0x42, [CU (CHR 0x02) (CHR 0x41)]), (CHR 0x47, [CU (CHR 0x02) (CHR 0x46)]),
      (CHR 0x49, [CU (CHR 0x02) (CHR 0x48)]), (CHR 0x4B, [CU (CHR 0x02) (CHR 0x4A)]),
      (CHR 0x4D, [CU (CHR 0x02) (CHR 0x4C)]), (CHR 0x4F, [CU (CHR 0x02) (CHR 0x4E)]),
      (CHR 0x50, [CU (CHR 0x2C) (CHR 0x6F)]), (CHR 0x51, [CU (CHR 0x2C) (CHR 0x6D)]),
      (CHR 0x52, [CU (CHR 0x2C) (CHR 0x70)]), (CHR 0x53, [CU (CHR 0x01) (CHR 0x81)]),
      (CHR 0x54, [CU (CHR 0x01) (CHR 0x86)]), (CHR 0x56, [CU (CHR 0x01) (CHR 0x89)]),
      (CHR 0x57, [CU (CHR 0x01) (CHR 0x8A)]), (CHR 0x59, [CU (CHR 0x01) (CHR 0x8F)]),
      (CHR 0x5B, [CU (CHR 0x01) (CHR 0x90)]), (CHR 0x5C, [CU (CHR 0xA7) (CHR 0xAB)]),
      (CHR 0x60, [CU (CHR 0x01) (CHR 0x93)]), (CHR 0x61, [CU (CHR 0xA7) (CHR 0xAC)]),
      (CHR 0x63, [CU (CHR 0x01) (CHR 0x94)]), (CHR 0x65, [CU (CHR 0xA7) (CHR 0x8D)]),
      (CHR 0x66, [CU (CHR 0xA7) (CHR 0xAA)]), (CHR 0x68, [CU (CHR 0x01) (CHR 0x97)]),
      (CHR 0x69, [CU (CHR 0x01) (CHR 0x96)]), (CHR 0x6A, [CU (CHR 0xA7) (CHR 0xAE)]),
      (CHR 0x6B, [CU (CHR 0x2C) (CHR 0x62)]), (CHR 0x6C, [CU (CHR 0xA7) (CHR 0xAD)]),
      (CHR 0x6F, [CU (CHR 0x01) (CHR 0x9C)]), (CHR 0x71, [CU (CHR 0x2C) (CHR 0x6E)]),
      (CHR 0x72, [CU (CHR 0x01) (CHR 0x9D)]), (CHR 0x75, [CU (CHR 0x01) (CHR 0x9F)]),
      (CHR 0x7D, [CU (CHR 0x2C) (CHR 0x64)]), (CHR 0x80, [CU (CHR 0x01) (CHR 0xA6)]),
      (CHR 0x82, [CU (CHR 0xA7) (CHR 0xC5)]), (CHR 0x83, [CU (CHR 0x01) (CHR 0xA9)]),
      (CHR 0x87, [CU (CHR 0xA7) (CHR 0xB1)]), (CHR 0x88, [CU (CHR 0x01) (CHR 0xAE)]),
      (CHR 0x89, [CU (CHR 0x02) (CHR 0x44)]), (CHR 0x8A, [CU (CHR 0x01) (CHR 0xB1)]),
      (CHR 0x8B, [CU (CHR 0x01) (CHR 0xB2)]), (CHR 0x8C, [CU (CHR 0x02) (CHR 0x45)]),
      (CHR 0x92, [CU (CHR 0x01) (CHR 0xB7)]), (CHR 0x9D, [CU (CHR 0xA7) (CHR 0xB2)]),
      (CHR 0x9E, [CU (CHR 0xA7) (CHR 0xB0)])]"

definition upper_page_03 :: "(char \<times> jstring) list" where
  "upper_page_03 =
     [(CHR 0x45, [CU (CHR 0x03) (CHR 0x99)]), (CHR 0x71, [CU (CHR 0x03) (CHR 0x70)]),
      (CHR 0x73, [CU (CHR 0x03) (CHR 0x72)]), (CHR 0x77, [CU (CHR 0x03) (CHR 0x76)]),
      (CHR 0x7B, [CU (CHR 0x03) (CHR 0xFD)]), (CHR 0x7C, [CU (CHR 0x03) (CHR 0xFE)]),
      (CHR 0x7D, [CU (CHR 0x03) (CHR 0xFF)]), (CHR 0x90, [CU (CHR 0x03) (CHR 0x99), CU (CHR 0x03) (CHR 0x08), CU (CHR 0x03) (CHR 0x01)]),
      (CHR 0xAC, [CU (CHR 0x03) (CHR 0x86)]), (CHR 0xAD, [CU (CHR 0x03) (CHR 0x88)]),
      (CHR 0xAE, [CU (CHR 0x03) (CHR 0x89)]), (CHR 0xAF, [CU (CHR 0x03) (CHR 0x8A)]),
      (CHR 0xB0, [CU (CHR 0x03) (CHR 0xA5), CU (CHR 0x03) (CHR 0x08), CU (CHR 0x03) (CHR 0x01)]), (CHR 0xB1, [CU (CHR 0x03) (CHR 0x91)]),
      (CHR 0xB2, [CU (CHR 0x03) (CHR 0x92)]), (CHR 0xB3, [CU (CHR 0x03) (CHR 0x93)]),
      (CHR 0xB4, [CU (CHR 0x03) (CHR 0x94)]), (CHR 0xB5, [CU (CHR 0x03) (CHR 0x95)]),
      (CHR 0xB6, [CU (CHR 0x03) (CHR 0x96)]), (CHR 0xB7, [CU (CHR 0x03) (CHR 0x97)]),
      (CHR 0xB8, [CU (CHR 0x03) (CHR 0x98)]), (CHR 0xB9, [CU (CHR 0x03) (CHR 0x99)]),
      (CHR 0xBA, [CU (CHR 0x03) (CHR 0x9A)]), (CHR 0xBB, [CU (CHR 0x03) (CHR 0x9B)]),
      (CHR 0xBC, [CU (CHR 0x03) (CHR 0x9C)]), (CHR 0xBD, [CU (CHR 0x03) (CHR 0x9D)]),
      (CHR 0xBE, [CU (CHR 0x03) (CHR 0x9E)]), (CHR 0xBF, [CU (CHR 0x03) (CHR 0x9F)]),
      (CHR 0xC0, [CU (CHR 0x03) (CHR 0xA0)]), (CHR 0xC1, [CU (CHR 0x03) (CHR 0xA1)]),
      (CHR 0xC2, [CU (CHR 0x03) (CHR 0xA3)]), (CHR 0xC3, [CU (CHR 0x03) (CHR 0xA3)]),
      (CHR 0xC4, [CU (CHR 0x03) (CHR 0xA4)]), (CHR 0xC5, [CU (CHR 0x03) (CHR 0xA5)]),
      (CHR 0xC6, [CU (CHR 0x03) (CHR 0xA6)]), (CHR 0xC7, [CU (CHR 0x03) (CHR 0xA7)]),
      (CHR 0xC8, [CU (CHR 0x03) (CHR 0xA8)]), (CHR 0xC9, [CU (CHR 0x03) (CHR 0xA9)]),
      (CHR 0xCA, [CU (CHR 0x03) (CHR 0xAA)]), (CHR 0xCB, [CU (CHR 0x03) (CHR 0xAB)]),
      (CHR 0xCC, [CU (CHR 0x03) (CHR 0x8C)]), (CHR 0xCD, [CU (CHR 0x03) (CHR 0x8E)]),
      (CHR 0xCE, [CU (CHR 0x03) (CHR 0x8F)]), (CHR 0xD0, [CU (CHR 0x03) (CHR 0x92)]),
      (CHR 0xD1, [CU (CHR 0x03) (CHR 0x98)]), (CHR 0xD5, [CU (CHR 0x03) (CHR 0xA6)]),
      (CHR 0xD6, [CU (CHR 0x03) (CHR 0xA0)]), (CHR 0xD7, [CU (CHR 0x03) (CHR 0xCF)]),
      (CHR 0xD9, [CU (CHR 0x03) (CHR 0xD8)]), (CHR 0xDB, [CU (CHR 0x03) (CHR 0xDA)]),
      (CHR 0xDD, [CU (CHR 0x03) (CHR 0xDC)]), (CHR 0xDF, [CU (CHR 0x03) (CHR 0xDE)]),
      (CHR 0xE1, [CU (CHR 0x03) (CHR 0xE0)]), (CHR 0xE3, [CU (CHR 0x03) (CHR 0xE2)]),
      (CHR 0xE5, [CU (CHR 0x03) (CHR 0xE4)]), (CHR 0xE7, [CU (CHR 0x03) (CHR 0xE6)]),
      (CHR 0xE9, [CU (CHR 0x03) (CHR 0xE8)]), (CHR 0xEB, [CU (CHR 0x03) (CHR 0xEA)]),
      (CHR 0xED, [CU (CHR 0x03) (CHR 0xEC)]), (CHR 0xEF, [CU (CHR 0x03) (CHR 0xEE)]),
      (CHR 0xF0, [CU (CHR 0x03) (CHR 0x9A)]), (CHR 0xF1, [CU (CHR 0x03) (CHR 0xA1)]),
      (CHR 0xF2, [CU (CHR 0x03) (CHR 0xF9)]), (CHR 0xF3, [CU (CHR 0x03) (CHR 0x7F)]),
      (CHR 0xF5, [CU (CHR 0x03) (CHR 0x95)]), (CHR 0xF8, [CU (CHR 0x03) (CHR 0xF7)]),
      (CHR 0xFB, [CU (CHR 0x03) (CHR 0xFA)])]"

definition upper_page_04 :: "(char \<times> jstring) list" where
  "upper_page_04 =
     [(CHR 0x30, [CU (CHR 0x04) (CHR 0x10)]), (CHR 0x31, [CU (CHR 0x04) (CHR 0x11)]),
      (CHR 0x32, [CU (CHR 0x04) (CHR 0x12)]), (CHR 0x33, [CU (CHR 0x04) (CHR 0x13)]),
      (CHR 0x34, [CU (CHR 0x04) (CHR 0x14)]), (CHR 0x35, [CU (CHR 0x04) (CHR 0x15)]),
      (CHR 0x36, [CU (CHR 0x04) (CHR 0x16)]), (CHR 0x37, [CU (CHR 0x04) (CHR 0x17)]),
      (CHR 0x38, [CU (CHR 0x04) (CHR 0x18)]), (CHR 0x39, [CU (CHR 0x04) (CHR 0x19)]),
      (CHR 0x3A, [CU (CHR 0x04) (CHR 0x1A)]), (CHR 0x3B, [CU (CHR 0x04) (CHR 0x1B)]),
      (CHR 0x3C, [CU (CHR 0x04) (CHR 0x1C)]), (CHR 0x3D, [CU (CHR 0x04) (CHR 0x1D)]),
      (CHR 0x3E, [CU (CHR 0x04) (CHR 0x1E)]), (CHR 0x3F, [CU (CHR 0x04) (CHR 0x1F)]),
      (CHR 0x40, [CU (CHR 0x04) (CHR 0x20)]), (CHR 0x41, [CU (CHR 0x04) (CHR 0x21)]),
      (CHR 0x42, [CU (CHR 0x04) (CHR 0x22)]), (CHR 0x43, [CU (CHR 0x04) (CHR 0x23)]),
      (CHR 0x44, [CU (CHR 0x04) (CHR 0x24)]), (CHR 0x45, [CU (CHR 0x04) (CHR 0x25)]),
      (CHR 0x46, [CU (CHR 0x04) (CHR 0x26)]), (CHR 0x47, [CU (CHR 0x04) (CHR 0x27)]),
      (CHR 0x48, [CU (CHR 0x04) (CHR 0x28)]), (CHR 0x49, [CU (CHR 0x04) (CHR 0x29)]),
      (CHR 0x4A, [CU (CHR 0x04) (CHR 0x2A)]), (CHR 0x4B, [CU (CHR 0x04) (CHR 0x2B)]),
      (CHR 0x4C, [CU (CHR 0x04) (CHR 0x2C)]), (CHR 0x4D, [CU (CHR 0x04) (CHR 0x2D)]),
      (CHR 0x4E, [CU (CHR 0x04) (CHR 0x2E)]), (CHR 0x4F, [CU (CHR 0x04) (CHR 0x2F)]),
      (CHR 0x50, [CU (CHR 0x04) (CHR 0x00)]), (CHR 0x51, [CU (CHR 0x04) (CHR 0x01)]),
      (CHR 0x52, [CU (CHR 0x04) (CHR 0x02)]), (CHR 0x53, [CU (CHR 0x04) (CHR 0x03)]),
      (CHR 0x54, [CU (CHR 0x04) (CHR 0x04)]), (CHR 0x55, [CU (CHR 0x04) (CHR 0x05)]),
      (CHR 0x56, [CU (CHR 0x04) (CHR 0x06)]), (CHR 0x57, [CU (CHR 0x04) (CHR 0x07)]),
      (CHR 0x58, [CU (CHR 0x04) (CHR 0x08)]), (CHR 0x59, [CU (CHR 0x04) (CHR 0x09)]),
      (CHR 0x5A, [CU (CHR 0x04) (CHR 0x0A)]), (CHR 0x5B, [CU (CHR 0x04) (CHR 0x0B)]),
      (CHR 0x5C, [CU (CHR 0x04) (CHR 0x0C)]), (CHR 0x5D, [CU (CHR 0x04) (CHR 0x0D)]),
      (CHR 0x5E, [CU (CHR 0x04) (CHR 0x0E)]), (CHR 0x5F, [CU (CHR 0x04) (CHR 0x0F)]),
      (CHR 0x61, [CU (CHR 0x04) (CHR 0x60)]), (CHR 0x63, [CU (CHR 0x04) (CHR 0x62)]),
      (CHR 0x65, [CU (CHR 0x04) (CHR 0x64)]), (CHR 0x67, [CU (CHR 0x04) (CHR 0x66)]),
      (CHR 0x69, [CU (CHR 0x04) (CHR 0x68)]), (CHR 0x6B, [CU (CHR 0x04) (CHR 0x6A)]),
      (CHR 0x6D, [CU (CHR 0x04) (CHR 0x6C)]), (CHR 0x6F, [CU (CHR 0x04) (CHR 0x6E)]),
      (CHR 0x71, [CU (CHR 0x04) (CHR 0x70)]), (CHR 0x73, [CU (CHR 0x04) (CHR 0x72)]),
      (CHR 0x75, [CU (CHR 0x04) (CHR 0x74)]), (CHR 0x77, [CU (CHR 0x04) (CHR 0x76)]),
      (CHR 0x79, [CU (CHR 0x04) (CHR 0x78)]), (CHR 0x7B, [CU (CHR 0x04) (CHR 0x7A)]),
      (CHR 0x7D, [CU (CHR 0x04) (CHR 0x7C)]), (CHR 0x7F, [CU (CHR 0x04) (CHR 0x7E)]),
      (CHR 0x81, [CU (CHR 0x04) (CHR 0x80)]), (CHR 0x8B, [CU (CHR 0x04) (CHR 0x8A)]),
      (CHR 0x8D, [CU (CHR 0x04) (CHR 0x8C)]), (CHR 0x8F, [CU (CHR 0x04) (CHR 0x8E)]),
      (CHR 0x91, [CU (CHR 0x04) (CHR 0x90)]), (CHR 0x93, [CU (CHR 0x04) (CHR 0x92)]),
      (CHR 0x95, [CU (CHR 0x04) (CHR 0x94)]), (CHR 0x97, [CU (CHR 0x04) (CHR 0x96)]),
      (CHR 0x99, [CU (CHR 0x04) (CHR 0x98)]), (CHR 0x9B, [CU (CHR 0x04) (CHR 0x9A)]),
      (CHR 0x9D, [CU (CHR 0x04) (CHR 0x9C)]), (CHR 0x9F, [CU (CHR 0x04) (CHR 0x9E)]),
      (CHR 0xA1, [CU (CHR 0x04) (CHR 0xA0)]), (CHR 0xA3, [CU (CHR 0x04) (CHR 0xA2)]),
      (CHR 0xA5, [CU (CHR 0x04) (CHR 0xA4)]), (CHR 0xA7, [CU (CHR 0x04) (CHR 0xA6)]),
      (CHR 0xA9, [CU (CHR 0x04) (CHR 0xA8)]), (CHR 0xAB, [CU (CHR 0x04) (CHR 0xAA)]),
      (CHR 0xAD, [CU (CHR 0x04) (CHR 0xAC)]), (CHR 0xAF, [CU (CHR 0x04) (CHR 0xAE)]),
      (CHR 0xB1, [CU (CHR 0x04) (CHR 0xB0)]), (CHR 0xB3, [CU (CHR 0x04) (CHR 0xB2)]),
      (CHR 0xB5, [CU (CHR 0x04) (CHR 0xB4)]), (CHR 0xB7, [CU (CHR 0x04) (CHR 0xB6)]),
      (CHR 0xB9, [CU (CHR 0x04) (CHR 0xB8)]), (CHR 0xBB, [CU (CHR 0x04) (CHR 0xBA)]),
      (CHR 0xBD, [CU (CHR 0x04) (CHR 0xBC)]), (CHR 0xBF, [CU (CHR 0x04) (CHR 0xBE)]),
      (CHR 0xC2, [CU (CHR 0x04) (CHR 0xC1)]), (CHR 0xC4, [CU (CHR 0x04) (CHR 0xC3)]),
      (CHR 0xC6, [CU (CHR 0x04) (CHR 0xC5)]), (CHR 0xC8, [CU (CHR 0x04) (CHR 0xC7)]),
      (CHR 0xCA, [CU (CHR 0x04) (CHR 0xC9)]), (CHR 0xCC, [CU (CHR 0x04) (CHR 0xCB)]),
      (CHR 0xCE, [CU (CHR 0x04) (CHR 0xCD)]), (CHR 0xCF, [CU (CHR 0x04) (CHR 0xC0)]),
      (CHR 0xD1, [CU (CHR 0x04) (CHR 0xD0)]), (CHR 0xD3, [CU (CHR 0x04) (CHR 0xD2)]),
      (CHR 0xD5, [CU (CHR 0x04) (CHR 0xD4)]), (CHR 0xD7, [CU (CHR 0x04) (CHR 0xD6)]),
      (CHR 0xD9, [CU (CHR 0x04) (CHR 0xD8)]), (CHR 0xDB, [CU (CHR 0x04) (CHR 0xDA)]),
      (CHR 0xDD, [CU (CHR 0x04) (CHR 0xDC)]), (CHR 0xDF, [CU (CHR 0x04) (CHR 0xDE)]),
      (CHR 0xE1, [CU (CHR 0x04) (CHR 0xE0)]), (CHR 0xE3, [CU (CHR 0x04) (CHR 0xE2)]),
      (CHR 0xE5, [CU (CHR 0x04) (CHR 0xE4)]), (CHR 0xE7, [CU (CHR 0x04) (CHR 0xE6)]),
      (CHR 0xE9, [CU (CHR 0x04) (CHR 0xE8)]), (CHR 0xEB, [CU (CHR 0x04) (CHR 0xEA)]),
      (CHR 0xED, [CU (CHR 0x04) (CHR 0xEC)]), (CHR 0xEF, [CU (CHR 0x04) (CHR 0xEE)]),
      (CHR 0xF1, [CU (CHR 0x04) (CHR 0xF0)]), (CHR 0xF3, [CU (CHR 0x04) (CHR 0xF2)]),
      (CHR 0xF5, [CU (CHR 0x04) (CHR 0xF4)]), (CHR 0xF7, [CU (CHR 0x04) (CHR 0xF6)]),
      (CHR 0xF9, [CU (CHR 0x04) (CHR 0xF8)]), (CHR 0xFB, [CU (CHR 0x04) (CHR 0xFA)]),
      (CHR 0xFD, [CU (CHR 0x04) (CHR 0xFC)]), (CHR 0xFF, [CU (CHR 0x04) (CHR 0xFE)])]"

definition upper_page_05 :: "(char \<times> jstring) list" where
  "upper_page_05 =
     [(CHR 0x01, [CU (CHR 0x05) (CHR 0x00)]), (CHR 0x03, [CU (CHR 0x05) (CHR 0x02)]),
      (CHR 0x05, [CU (CHR 0x05) (CHR 0x04)]), (CHR 0x07, [CU (CHR 0x05) (CHR 0x06)]),
      (CHR 0x09, [CU (CHR 0x05) (CHR 0x08)]), (CHR 0x0B, [CU (CHR 0x05) (CHR 0x0A)]),
      (CHR 0x0D, [CU (CHR 0x05) (CHR 0x0C)]), (CHR 0x0F, [CU (CHR 0x05) (CHR 0x0E)]),
      (CHR 0x11, [CU (CHR 0x05) (CHR 0x10)]), (CHR 0x13, [CU (CHR 0x05) (CHR 0x12)]),
      (CHR 0x15, [CU (CHR 0x05) (CHR 0x14)]), (CHR 0x17, [CU (CHR 0x05) (CHR 0x16)]),
      (CHR 0x19, [CU (CHR 0x05) (CHR 0x18)]), (CHR 0x1B, [CU (CHR 0x05) (CHR 0x1A)]),
      (CHR 0x1D, [CU (CHR 0x05) (CHR 0x1C)]), (CHR 0x1F, [CU (CHR 0x05) (CHR 0x1E)]),
      (CHR 0x21, [CU (CHR 0x05) (CHR 0x20)]), (CHR 0x23, [CU (CHR 0x05) (CHR 0x22)]),
      (CHR 0x25, [CU (CHR 0x05) (CHR 0x24)]), (CHR 0x27, [CU (CHR 0x05) (CHR 0x26)]),
      (CHR 0x29, [CU (CHR 0x05) (CHR 0x28)]), (CHR 0x2B, [CU (CHR 0x05) (CHR 0x2A)]),
      (CHR 0x2D, [CU (CHR 0x05) (CHR 0x2C)]), (CHR 0x2F, [CU (CHR 0x05) (CHR 0x2E)]),
      (CHR 0x61, [CU (CHR 0x05) (CHR 0x31)]), (CHR 0x62, [CU (CHR 0x05) (CHR 0x32)]),
      (CHR 0x63, [CU (CHR 0x05) (CHR 0x33)]), (CHR 0x64, [CU (CHR 0x05) (CHR 0x34)]),
      (CHR 0x65, [CU (CHR 0x05) (CHR 0x35)]), (CHR 0x66, [CU (CHR 0x05) (CHR 0x36)]),
      (CHR 0x67, [CU (CHR 0x05) (CHR 0x37)]), (CHR 0x68, [CU (CHR 0x05) (CHR 0x38)]),
      (CHR 0x69, [CU (CHR 0x05) (CHR 0x39)]), (CHR 0x6A, [CU (CHR 0x05) (CHR 0x3A)]),
      (CHR 0x6B, [CU (CHR 0x05) (CHR 0x3B)]), (CHR 0x6C, [CU (CHR 0x05) (CHR 0x3C)]),
      (CHR 0x6D, [CU (CHR 0x05) (CHR 0x3D)]), (CHR 0x6E, [CU (CHR 0x05) (CHR 0x3E)]),
      (CHR 0x6F, [CU (CHR 0x05) (CHR 0x3F)]), (CHR 0x70, [CU (CHR 0x05) (CHR 0x40)]),
      (CHR 0x71, [CU (CHR 0x05) (CHR 0x41)]), (CHR 0x72, [CU (CHR 0x05) (CHR 0x42)]),
      (CHR 0x73, [CU (CHR 0x05) (CHR 0x43)]), (CHR 0x74, [CU (CHR 0x05) (CHR 0x44)]),
      (CHR 0x75, [CU (CHR 0x05) (CHR 0x45)]), (CHR 0x76, [CU (CHR 0x05) (CHR 0x46)]),
      (CHR 0x77, [CU (CHR 0x05) (CHR 0x47)]), (CHR 0x78, [CU (CHR 0x05) (CHR 0x48)]),
      (CHR 0x79, [CU (CHR 0x05) (CHR 0x49)]), (CHR 0x7A, [CU (CHR 0x05) (CHR 0x4A)]),
      (CHR 0x7B, [CU (CHR 0x05) (CHR 0x4B)]), (CHR 0x7C, [CU (CHR 0x05) (CHR 0x4C)]),
      (CHR 0x7D, [CU (CHR 0x05) (CHR 0x4D)]), (CHR 0x7E, [CU (CHR 0x05) (CHR 0x4E)]),
      (CHR 0x7F, [CU (CHR 0x05) (CHR 0x4F)]), (CHR 0x80, [CU (CHR 0x05) (CHR 0x50)]),
      (CHR 0x81, [CU (CHR 0x05) (CHR 0x51)]), (CHR 0x82, [CU (CHR 0x05) (CHR 0x52)]),
      (CHR 0x83, [CU (CHR 0x05) (CHR 0x53)]), (CHR 0x84, [CU (CHR 0x05) (CHR 0x54)]),
      (CHR 0x85, [CU (CHR 0x05) (CHR 0x55)]), (CHR 0x86, [CU (CHR 0x05) (CHR 0x56)]),
      (CHR 0x87, [CU (CHR 0x05) (CHR 0x35), CU (CHR 0x05) (CHR 0x52)])]"

definition upper_page_10 :: "(char \<times> jstring) list" where
  "upper_page_10 =
     [(CHR 0xD0, [CU (CHR 0x1C) (CHR 0x90)]), (CHR 0xD1, [CU (CHR 0x1C) (CHR 0x91)]),
      (CHR 0xD2, [CU (CHR 0x1C) (CHR 0x92)]), (CHR 0xD3, [CU (CHR 0x1C) (CHR 0x93)]),
      (CHR 0xD4, [CU (CHR 0x1C) (CHR 0x94)]), (CHR 0xD5, [CU (CHR 0x1C) (CHR 0x95)]),
      (CHR 0xD6, [CU (CHR 0x1C) (CHR 0x96)]), (CHR 0xD7, [CU (CHR 0x1C) (CHR 0x97)]),
      (CHR 0xD8, [CU (CHR 0x1C) (CHR 0x98)]), (CHR 0xD9, [CU (CHR 0x1C) (CHR 0x99)]),
      (CHR 0xDA, [CU (CHR 0x1C) (CHR 0x9A)]), (CHR 0xDB, [CU (CHR 0x1C) (CHR 0x9B)]),
      (CHR 0xDC, [CU (CHR 0x1C) (CHR 0x9C)]), (CHR 0xDD, [CU (CHR 0x1C) (CHR 0x9D)]),
      (CHR 0xDE, [CU (CHR 0x1C) (CHR 0x9E)]), (CHR 0xDF, [CU (CHR 0x1C) (CHR 0x9F)]),
      (CHR 0xE0, [CU (CHR 0x1C) (CHR 0xA0)]), (CHR 0xE1, [CU (CHR 0x1C) (CHR 0xA1)]),
      (CHR 0xE2, [CU (CHR 0x1C) (CHR 0xA2)]), (CHR 0xE3, [CU (CHR 0x1C) (CHR 0xA3)]),
      (CHR 0xE4, [CU (CHR 0x1C) (CHR 0xA4)]), (CHR 0xE5, [CU (CHR 0x1C) (CHR 0xA5)]),
      (CHR 0xE6, [CU (CHR 0x1C) (CHR 0xA6)]), (CHR 0xE7, [CU (CHR 0x1C) (CHR 0xA7)]),
      (CHR 0xE8, [CU (CHR 0x1C) (CHR 0xA8)]), (CHR 0xE9, [CU (CHR 0x1C) (CHR 0xA9)]),
      (CHR 0xEA, [CU (CHR 0x1C) (CHR 0xAA)]), (CHR 0xEB, [CU (CHR 0x1C) (CHR 0xAB)]),
      (CHR 0xEC, [CU (CHR 0x1C) (CHR 0xAC)]), (CHR 0xED, [CU (CHR 0x1C) (CHR 0xAD)]),
      (CHR 0xEE, [CU (CHR 0x1C) (CHR 0xAE)]), (CHR 0xEF, [CU (CHR 0x1C) (CHR 0xAF)]),
      (CHR 0xF0, [CU (CHR 0x1C) (CHR 0xB0)]), (CHR 0xF1, [CU (CHR 0x1C) (CHR 0xB1)]),
      (CHR 0xF2, [CU (CHR 0x1C) (CHR 0xB2)]), (CHR 0xF3, [CU (CHR 0x1C) (CHR 0xB3)]),
      (CHR 0xF4, [CU (CHR 0x1C) (CHR 0xB4)]), (CHR 0xF5, [CU (CHR 0x1C) (CHR 0xB5)]),
      (CHR 0xF6, [CU (CHR 0x1C) (CHR 0xB6)]), (CHR 0xF7, [CU (CHR 0x1C) (CHR 0xB7)]),
      (CHR 0xF8, [CU (CHR 0x1C) (CHR 0xB8)]), (CHR 0xF9, [CU (CHR 0x1C) (CHR 0xB9)]),
      (CHR 0xFA, [CU (CHR 0x1C) (CHR 0xBA)]), (CHR 0xFD, [CU (CHR 0x1C) (CHR 0xBD)]),
      (CHR 0xFE, [CU (CHR 0x1C) (CHR 0xBE)]), (CHR 0xFF, [CU (CHR 0x1C) (CHR 0xBF)])]"

definition upper_page_13 :: "(char \<times> jstring) list" where
  "upper_page_13 =
     [(CHR 0xF8, [CU (CHR 0x13) (CHR 0xF0)]), (CHR 0xF9, [CU (CHR 0x13) (CHR 0xF1)]),
      (CHR 0xFA, [CU (CHR 0x13) (CHR 0xF2)]), (CHR 0xFB, [CU (CHR 0x13) (CHR 0xF3)]),
      (CHR 0xFC, [CU (CHR 0x13) (CHR 0xF4)]), (CHR 0xFD, [CU (CHR 0x13) (CHR 0xF5)])]"

definition upper_page_1C :: "(char \<times> jstring) list" where
  "upper_page_1C =
     [(CHR 0x80, [CU (CHR 0x04) (CHR 0x12)]), (CHR 0x81, [CU (CHR 0x04) (CHR 0x14)]),
      (CHR 0x82, [CU (CHR 0x04) (CHR 0x1E)]), (CHR 0x83, [CU (CHR 0x04) (CHR 0x21)]),
      (CHR 0x84, [CU (CHR 0x04) (CHR 0x22)]), (CHR 0x85, [CU (CHR 0x04) (CHR 0x22)]),
      (CHR 0x86, [CU (CHR 0x04) (CHR 0x2A)]), (CHR 0x87, [CU (CHR 0x04) (CHR 0x62)]),
      (CHR 0x88, [CU (CHR 0xA6) (CHR 0x4A)])]"

definition upper_page_1D :: "(char \<times> jstring) list" where
  "upper_page_1D =
     [(CHR 0x79, [CU (CHR 0xA7) (CHR 0x7D)]), (CHR 0x7D, [CU (CHR 0x2C) (CHR 0x63)]),
      (CHR 0x8E, [CU (CHR 0xA7) (CHR 0xC6)])]"

definition upper_page_1E :: "(char \<times> jstring) list" where
  "upper_page_1E =
     [(CHR 0x01, [CU (CHR 0x1E) (CHR 0x00)]), (CHR 0x03, [CU (CHR 0x1E) (CHR 0x02)]),
      (CHR 0x05, [CU (CHR 0x1E) (CHR 0x04)]), (CHR 0x07, [CU (CHR 0x1E) (CHR 0x06)]),
      (CHR 0x09, [CU (CHR 0x1E) (CHR 0x08)]), (CHR 0x0B, [CU (CHR 0x1E) (CHR 0x0A)]),
      (CHR 0x0D, [CU (CHR 0x1E) (CHR 0x0C)]), (CHR 0x0F, [CU (CHR 0x1E) (CHR 0x0E)]),
      (CHR 0x11, [CU (CHR 0x1E) (CHR 0x10)]), (CHR 0x13, [CU (CHR 0x1E) (CHR 0x12)]),
      (CHR 0x15, [CU (CHR 0x1E) (CHR 0x14)]), (CHR 0x17, [CU (CHR 0x1E) (CHR 0x16)]),
      (CHR 0x19, [CU (CHR 0x1E) (CHR 0x18)]), (CHR 0x1B, [CU (CHR 0x1E) (CHR 0x1A)]),
      (CHR 0x1D, [CU (CHR 0x1E) (CHR 0x1C)]), (CHR 0x1F, [CU (CHR 0x1E) (CHR 0x1E)]),
      (CHR 0x21, [CU (CHR 0x1E) (CHR 0x20)]), (CHR 0x23, [CU (CHR 0x1E) (CHR 0x22)]),
      (CHR 0x25, [CU (CHR 0x1E) (CHR 0x24)]), (CHR 0x27, [CU (CHR 0x1E) (CHR 0x26)]),
      (CHR 0x29, [CU (CHR 0x1E) (CHR 0x28)]), (CHR 0x2B, [CU (CHR 0x1E) (CHR 0x2A)]),
      (CHR 0x2D, [CU (CHR 0x1E) (CHR 0x2C)]), (CHR 0x2F, [CU (CHR 0x1E) (CHR 0x2E)]),
      (CHR 0x31, [CU (CHR 0x1E) (CHR 0x30)]), (CHR 0x33, [CU (CHR 0x1E) (CHR 0x32)]),
      (CHR 0x35, [CU (CHR 0x1E) (CHR 0x34)]), (CHR 0x37, [CU (CHR 0x1E) (CHR 0x36)]),
      (CHR 0x39, [CU (CHR 0x1E) (CHR 0x38)]), (CHR 0x3B, [CU (CHR 0x1E) (CHR 0x3A)]),
      (CHR 0x3D, [CU (CHR 0x1E) (CHR 0x3C)]), (CHR 0x3F, [CU (CHR 0x1E) (CHR 0x3E)]),
      (CHR 0x41, [CU (CHR 0x1E) (CHR 0x40)]), (CHR 0x43, [CU (CHR 0x1E) (CHR 0x42)]),
      (CHR 0x45, [CU (CHR 0x1E) (CHR 0x44)]), (CHR 0x47, [CU (CHR 0x1E) (CHR 0x46)]),
      (CHR 0x49, [CU (CHR 0x1E) (CHR 0x48)]), (CHR 0x4B, [CU (CHR 0x1E) (CHR 0x4A)]),
      (CHR 0x4D, [CU (CHR 0x1E) (CHR 0x4C)]), (CHR 0x4F, [CU (CHR 0x1E) (CHR 0x4E)]),
      (CHR 0x51, [CU (CHR 0x1E) (CHR 0x50)]), (CHR 0x53, [CU (CHR 0x1E) (CHR 0x52)]),
      (CHR 0x55, [CU (CHR 0x1E) (CHR 0x54)]), (CHR 0x57, [CU (CHR 0x1E) (CHR 0x56)]),
      (CHR 0x59, [CU (CHR 0x1E) (CHR 0x58)]), (CHR 0x5B, [CU (CHR 0x1E) (CHR 0x5A)]),
      (CHR 0x5D, [CU (CHR 0x1E) (CHR 0x5C)]), (CHR 0x5F, [CU (CHR 0x1E) (CHR 0x5E)]),
      (CHR 0x61, [CU (CHR 0x1E) (CHR 0x60)]), (CHR 0x63, [CU (CHR 0x1E) (CHR 0x62)]),
      (CHR 0x65, [CU (CHR 0x1E) (CHR 0x64)]), (CHR 0x67, [CU (CHR 0x1E) (CHR 0x66)]),
      (CHR 0x69, [CU (CHR 0x1E) (CHR 0x68)]), (CHR 0x6B, [CU (CHR 0x1E) (CHR 0x6A)]),
      (CHR 0x6D, [CU (CHR 0x1E) (CHR 0x6C)]), (CHR 0x6F, [CU (CHR 0x1E) (CHR 0x6E)]),
      (CHR 0x71, [CU (CHR 0x1E) (CHR 0x70)]), (CHR 0x73, [CU (CHR 0x1E) (CHR 0x72)]),
      (CHR 0x75, [CU (CHR 0x1E) (CHR 0x74)]), (CHR 0x77, [CU (CHR 0x1E) (CHR 0x76)]),
      (CHR 0x79, [CU (CHR 0x1E) (CHR 0x78)]), (CHR 0x7B, [CU (CHR 0x1E) (CHR 0x7A)]),
      (CHR 0x7D, [CU (CHR 0x1E) (CHR 0x7C)]), (CHR 0x7F, [CU (CHR 0x1E) (CHR 0x7E)]),
      (CHR 0x81, [CU (CHR 0x1E) (CHR 0x80)]), (CHR 0x83, [CU (CHR 0x1E) (CHR 0x82)]),
      (CHR 0x85, [CU (CHR 0x1E) (CHR 0x84)]), (CHR 0x87, [CU (CHR 0x1E) (CHR 0x86)]),
      (CHR 0x89, [CU (CHR 0x1E) (CHR 0x88)]), (CHR 0x8B, [CU (CHR 0x1E) (CHR 0x8A)]),
      (CHR 0x8D, [CU (CHR 0x1E) (CHR 0x8C)]), (CHR 0x8F, [CU (CHR 0x1E) (CHR 0x8E)]),
      (CHR 0x91, [CU (CHR 0x1E) (CHR 0x90)]), (CHR 0x93, [CU (CHR 0x1E) (CHR 0x92)]),
      (CHR 0x95, [CU (CHR 0x1E) (CHR 0x94)]), (CHR 0x96, [CU (CHR 0x00) (CHR 0x48), CU (CHR 0x03) (CHR 0x31)]),
      (CHR 0x97, [CU (CHR 0x00) (CHR 0x54), CU (CHR 0x03) (CHR 0x08)]), (CHR 0x98, [CU (CHR 0x00) (CHR 0x57), CU (CHR 0x03) (CHR 0x0A)]),
      (CHR 0x99, [CU (CHR 0x00) (CHR 0x59), CU (CHR 0x03) (CHR 0x0A)]), (CHR 0x9A, [CU (CHR 0x00) (CHR 0x41), CU (CHR 0x02) (CHR 0xBE)]),
      (CHR 0x9B, [CU (CHR 0x1E) (CHR 0x60)]), (CHR 0xA1, [CU (CHR 0x1E) (CHR 0xA0)]),
      (CHR 0xA3, [CU (CHR 0x1E) (CHR 0xA2)]), (CHR 0xA5, [CU (CHR 0x1E) (CHR 0xA4)]),
      (CHR 0xA7, [CU (CHR 0x1E) (CHR 0xA6)]), (CHR 0xA9, [CU (CHR 0x1E) (CHR 0xA8)]),
      (CHR 0xAB, [CU (CHR 0x1E) (CHR 0xAA)]), (CHR 0xAD, [CU (CHR 0x1E) (CHR 0xAC)]),
      (CHR 0xAF, [CU (CHR 0x1E) (CHR 0xAE)]), (CHR 0xB1, [CU (CHR 0x1E) (CHR 0xB0)]),
      (CHR 0xB3, [CU (CHR 0x1E) (CHR 0xB2)]), (CHR 0xB5, [CU (CHR 0x1E) (CHR 0xB4)]),
      (CHR 0xB7, [CU (CHR 0x1E) (CHR 0xB6)]), (CHR 0xB9, [CU (CHR 0x1E) (CHR 0xB8)]),
      (CHR 0xBB, [CU (CHR 0x1E) (CHR 0xBA)]), (CHR 0xBD, [CU (CHR 0x1E) (CHR 0xBC)]),
      (CHR 0xBF, [CU (CHR 0x1E) (CHR 0xBE)]), (CHR 0xC1, [CU (CHR 0x1E) (CHR 0xC0)]),
      (CHR 0xC3, [CU (CHR 0x1E) (CHR 0xC2)]), (CHR 0xC5, [CU (CHR 0x1E) (CHR 0xC4)]),
      (CHR 0xC7, [CU (CHR 0x1E) (CHR 0xC6)]), (CHR 0xC9, [CU (CHR 0x1E) (CHR 0xC8)]),
      (CHR 0xCB, [CU (CHR 0x1E) (CHR 0xCA)]), (CHR 0xCD, [CU (CHR 0x1E) (CHR 0xCC)]),
      (CHR 0xCF, [CU (CHR 0x1E) (CHR 0xCE)]), (CHR 0xD1, [CU (CHR 0x1E) (CHR 0xD0)]),
      (CHR 0xD3, [CU (CHR 0x1E) (CHR 0xD2)]), (CHR 0xD5, [CU (CHR 0x1E) (CHR 0xD4)]),
      (CHR 0xD7, [CU (CHR 0x1E) (CHR 0xD6)]), (CHR 0xD9, [CU (CHR 0x1E) (CHR 0xD8)]),
      (CHR 0xDB, [CU (CHR 0x1E) (CHR 0xDA)]), (CHR 0xDD, [CU (CHR 0x1E) (CHR 0xDC)]),
      (CHR 0xDF, [CU (CHR 0x1E) (CHR 0xDE)]), (CHR 0xE1, [CU (CHR 0x1E) (CHR 0xE0)]),
      (CHR 0xE3, [CU (CHR 0x1E) (CHR 0xE2)]), (CHR 0xE5, [CU (CHR 0x1E) (CHR 0xE4)]),
      (CHR 0xE7, [CU (CHR 0x1E) (CHR 0xE6)]), (CHR 0xE9, [CU (CHR 0x1E) (CHR 0xE8)]),
      (CHR 0xEB, [CU (CHR 0x1E) (CHR 0xEA)]), (CHR 0xED, [CU (CHR 0x1E) (CHR 0xEC)]),
      (CHR 0xEF, [CU (CHR 0x1E) (CHR 0xEE)]), (CHR 0xF1, [CU (CHR 0x1E) (CHR 0xF0)]),
      (CHR 0xF3, [CU (CHR 0x1E) (CHR 0xF2)]), (CHR 0xF5, [CU (CHR 0x1E) (CHR 0xF4)]),
      (CHR 0xF7, [CU (CHR 0x1E) (CHR 0xF6)]), (CHR 0xF9, [CU (CHR 0x1E) (CHR 0xF8)]),
      (CHR 0xFB, [CU (CHR 0x1E) (CHR 0xFA)]), (CHR 0xFD, [CU (CHR 0x1E) (CHR 0xFC)]),
      (CHR 0xFF, [CU (CHR 0x1E) (CHR 0xFE)])]"

definition upper_page_1F :: "(char \<times> jstring) list" where
  "upper_page_1F =
     [(CHR 0x00, [CU (CHR 0x1F) (CHR 0x08)]), (CHR 0x01, [CU (CHR 0x1F) (CHR 0x09)]),
      (CHR 0x02, [CU (CHR 0x1F) (CHR 0x0A)]), (CHR 0x03, [CU (CHR 0x1F) (CHR 0x0B)]),
      (CHR 0x04, [CU (CHR 0x1F) (CHR 0x0C)]), (CHR 0x05, [CU (CHR 0x1F) (CHR 0x0D)]),
      (CHR 0x06, [CU (CHR 0x1F) (CHR 0x0E)]), (CHR 0x07, [CU (CHR 0x1F) (CHR 0x0F)]),
      (CHR 0x10, [CU (CHR 0x1F) (CHR 0x18)]), (CHR 0x11, [CU (CHR 0x1F) (CHR 0x19)]),
      (CHR 0x12, [CU (CHR 0x1F) (CHR 0x1A)]), (CHR 0x13, [CU (CHR 0x1F) (CHR 0x1B)]),
      (CHR 0x14, [CU (CHR 0x1F) (CHR 0x1C)]), (CHR 0x15, [CU (CHR 0x1F) (CHR 0x1D)]),
      (CHR 0x20, [CU (CHR 0x1F) (CHR 0x28)]), (CHR 0x21, [CU (CHR 0x1F) (CHR 0x29)]),
      (CHR 0x22, [CU (CHR 0x1F) (CHR 0x2A)]), (CHR 0x23, [CU (CHR 0x1F) (CHR 0x2B)]),
      (CHR 0x24, [CU (CHR 0x1F) (CHR 0x2C)]), (CHR 0x25, [CU (CHR 0x1F) (CHR 0x2D)]),
      (CHR 0x26, [CU (CHR 0x1F) (CHR 0x2E)]), (CHR 0x27, [CU (CHR 0x1F) (CHR 0x2F)]),
      (CHR 0x30, [CU (CHR 0x1F) (CHR 0x38)]), (CHR 0x31, [CU (CHR 0x1F) (CHR 0x39)]),
      (CHR 0x32, [CU (CHR 0x1F) (CHR 0x3A)]), (CHR 0x33, [CU (CHR 0x1F) (CHR 0x3B)]),
      (CHR 0x34, [CU (CHR 0x1F) (CHR 0x3C)]), (CHR 0x35, [CU (CHR 0x1F) (CHR 0x3D)]),
      (CHR 0x36, [CU (CHR 0x1F) (CHR 0x3E)]), (CHR 0x37, [CU (CHR 0x1F) (CHR 0x3F)]),
      (CHR 0x40, [CU (CHR 0x1F) (CHR 0x48)]), (CHR 0x41, [CU (CHR 0x1F) (CHR 0x49)]),
      (CHR 0x42, [CU (CHR 0x1F) (CHR 0x4A)]), (CHR 0x43, [CU (CHR 0x1F) (CHR 0x4B)]),
      (CHR 0x44, [CU (CHR 0x1F) (CHR 0x4C)]), (CHR 0x45, [CU (CHR 0x1F) (CHR 0x4D)]),
      (CHR 0x50, [CU (CHR 0x03) (CHR 0xA5), CU (CHR 0x03) (CHR 0x13)]), (CHR 0x51, [CU (CHR 0x1F) (CHR 0x59)]),
      (CHR 0x52, [CU (CHR 0x03) (CHR 0xA5), CU (CHR 0x03) (CHR 0x13), CU (CHR 0x03) (CHR 0x00)]), (CHR 0x53, [CU (CHR 0x1F) (CHR 0x5B)]),
      (CHR 0x54, [CU (CHR 0x03) (CHR 0xA5), CU (CHR 0x03) (CHR 0x13), CU (CHR 0x03) (CHR 0x01)]), (CHR 0x55, [CU (CHR 0x1F) (CHR 0x5D)]),
      (CHR 0x56, [CU (CHR 0x03) (CHR 0xA5), CU (CHR 0x03) (CHR 0x13), CU (CHR 0x03) (CHR 0x42)]), (CHR 0x57, [CU (CHR 0x1F) (CHR 0x5F)]),
      (CHR 0x60, [CU (CHR 0x1F) (CHR 0x68)]), (CHR 0x61, [CU (CHR 0x1F) (CHR 0x69)]),
      (CHR 0x62, [CU (CHR 0x1F) (CHR 0x6A)]), (CHR 0x63, [CU (CHR 0x1F) (CHR 0x6B)]),
      (CHR 0x64, [CU (CHR 0x1F) (CHR 0x6C)]), (CHR 0x65, [CU (CHR 0x1F) (CHR 0x6D)]),
      (CHR 0x66, [CU (CHR 0x1F) (CHR 0x6E)]), (CHR 0x67, [CU (CHR 0x1F) (CHR 0x6F)]),
      (CHR 0x70, [CU (CHR 0x1F) (CHR 0xBA)]), (CHR 0x71, [CU (CHR 0x1F) (CHR 0xBB)]),
      (CHR 0x72, [CU (CHR 0x1F) (CHR 0xC8)]), (CHR 0x73, [CU (CHR 0x1F) (CHR 0xC9)]),
      (CHR 0x74, [CU (CHR 0x1F) (CHR 0xCA)]), (CHR 0x75, [CU (CHR 0x1F) (CHR 0xCB)]),
      (CHR 0x76, [CU (CHR 0x1F) (CHR 0xDA)]), (CHR 0x77, [CU (CHR 0x1F) (CHR 0xDB)]),
      (CHR 0x78, [CU (CHR 0x1F) (CHR 0xF8)]), (CHR 0x79, [CU (CHR 0x1F) (CHR 0xF9)]),
      (CHR 0x7A, [CU (CHR 0x1F) (CHR 0xEA)]), (CHR 0x7B, [CU (CHR 0x1F) (CHR 0xEB)]),
      (CHR 0x7C, [CU (CHR 0x1F) (CHR 0xFA)]), (CHR 0x7D, [CU (CHR 0x1F) (CHR 0xFB)]),
      (CHR 0x80, [CU (CHR 0x1F) (CHR 0x08), CU (CHR 0x03) (CHR 0x99)]), (CHR 0x81, [CU (CHR 0x1F) (CHR 0x09), CU (CHR 0x03) (CHR 0x99)]),
      (CHR 0x82, [CU (CHR 0x1F) (CHR 0x0A), CU (CHR 0x03) (CHR 0x99)]), (CHR 0x83, [CU (CHR 0x1F) (CHR 0x0B), CU (CHR 0x03) (CHR 0x99)]),
      (CHR 0x84, [CU (CHR 0x1F) (CHR 0x0C), CU (CHR 0x03) (CHR 0x99)]), (CHR 0x85, [CU (CHR 0x1F) (CHR 0x0D), CU (CHR 0x03) (CHR 0x99)]),
      (CHR 0x86, [CU (CHR 0x1F) (CHR 0x0E), CU (CHR 0x03) (CHR 0x99)]), (CHR 0x87, [CU (CHR 0x1F) (CHR 0x0F), CU (CHR 0x03) (CHR 0x99)]),
      (CHR 0x88, [CU (CHR 0x1F) (CHR 0x08), CU (CHR 0x03) (CHR 0x99)]), (CHR 0x89, [CU (CHR 0x1F) (CHR 0x09), CU (CHR 0x03) (CHR 0x99)]),
      (CHR 0x8A, [CU (CHR 0x1F) (CHR 0x0A), CU (CHR 0x03) (CHR 0x99)]), (CHR 0x8B, [CU (CHR 0x1F) (CHR 0x0B), CU (CHR 0x03) (CHR 0x99)]),
      (CHR 0x8C, [CU (CHR 0x1F) (CHR 0x0C), CU (CHR 0x03) (CHR 0x99)]), (CHR 0x8D, [CU (CHR 0x1F) (CHR 0x0D), CU (CHR 0x03) (CHR 0x99)]),
      (CHR 0x8E, [CU (CHR 0x1F) (CHR 0x0E), CU (CHR 0x03) (CHR 0x99)]), (CHR 0x8F, [CU (CHR 0x1F) (CHR 0x0F), CU (CHR 0x03) (CHR 0x99)]),
      (CHR 0x90, [CU (CHR 0x1F) (CHR 0x28), CU (CHR 0x03) (CHR 0x99)]), (CHR 0x91, [CU (CHR 0x1F) (CHR 0x29), CU (CHR 0x03) (CHR 0x99)]),
      (CHR 0x92, [CU (CHR 0x1F) (CHR 0x2A), CU (CHR 0x03) (CHR 0x99)]), (CHR 0x93, [CU (CHR 0x1F) (CHR 0x2B), CU (CHR 0x03) (CHR 0x99)]),
      (CHR 0x94, [CU (CHR 0x1F) (CHR 0x2C), CU (CHR 0x03) (CHR 0x99)]), (CHR 0x95, [CU (CHR 0x1F) (CHR 0x2D), CU (CHR 0x03) (CHR 0x99)]),
      (CHR 0x96, [CU (CHR 0x1F) (CHR 0x2E), CU (CHR 0x03) (CHR 0x99)]), (CHR 0x97, [CU (CHR 0x1F) (CHR 0x2F), CU (CHR 0x03) (CHR 0x99)]),
      (CHR 0x98, [CU (CHR 0x1F) (CHR 0x28), CU (CHR 0x03) (CHR 0x99)]), (CHR 0x99, [CU (CHR 0x1F) (CHR 0x29), CU (CHR 0x03) (CHR 0x99)]),
      (CHR 0x9A, [CU (CHR 0x1F) (CHR 0x2A), CU (CHR 0x03) (CHR 0x99)]), (CHR 0x9B, [CU (CHR 0x1F) (CHR 0x2B), CU (CHR 0x03) (CHR 0x99)]),
      (CHR 0x9C, [CU (CHR 0x1F) (CHR 0x2C), CU (CHR 0x03) (CHR 0x99)]), (CHR 0x9D, [CU (CHR 0x1F) (CHR 0x2D), CU (CHR 0x03) (CHR 0x99)]),
      (CHR 0x9E, [CU (CHR 0x1F) (CHR 0x2E), CU (CHR 0x03) (CHR 0x99)]), (CHR 0x9F, [CU (CHR 0x1F) (CHR 0x2F), CU (CHR 0x03) (CHR 0x99)]),
      (CHR 0xA0, [CU (CHR 0x1F) (CHR 0x68), CU (CHR 0x03) (CHR 0x99)]), (CHR 0xA1, [CU (CHR 0x1F) (CHR 0x69), CU (CHR 0x03) (CHR 0x99)]),
      (CHR 0xA2, [CU (CHR 0x1F) (CHR 0x6A), CU (CHR 0x03) (CHR 0x99)]), (CHR 0xA3, [CU (CHR 0x1F) (CHR 0x6B), CU (CHR 0x03) (CHR 0x99)]),
      (CHR 0xA4, [CU (CHR 0x1F) (CHR 0x6C), CU (CHR 0x03) (CHR 0x99)]), (CHR 0xA5, [CU (CHR 0x1F) (CHR 0x6D), CU (CHR 0x03) (CHR 0x99)]),
      (CHR 0xA6, [CU (CHR 0x1F) (CHR 0x6E), CU (CHR 0x03) (CHR 0x99)]), (CHR 0xA7, [CU (CHR 0x1F) (CHR 0x6F), CU (CHR 0x03) (CHR 0x99)]),
      (CHR 0xA8, [CU (CHR 0x1F) (CHR 0x68), CU (CHR 0x03) (CHR 0x99)]), (CHR 0xA9, [CU (CHR 0x1F) (CHR 0x69), CU (CHR 0x03) (CHR 0x99)]),
      (CHR 0xAA, [CU (CHR 0x1F) (CHR 0x6A), CU (CHR 0x03) (CHR 0x99)]), (CHR 0xAB, [CU (CHR 0x1F) (CHR 0x6B), CU (CHR 0x03) (CHR 0x99)]),
      (CHR 0xAC, [CU (CHR 0x1F) (CHR 0x6C), CU (CHR 0x03) (CHR 0x99)]), (CHR 0xAD, [CU (CHR 0x1F) (CHR 0x6D), CU (CHR 0x03) (CHR 0x99)]),
      (CHR 0xAE, [CU (CHR 0x1F) (CHR 0x6E), CU (CHR 0x03) (CHR 0x99)]), (CHR 0xAF, [CU (CHR 0x1F) (CHR 0x6F), CU (CHR 0x03) (CHR 0x99)]),
      (CHR 0xB0, [CU (CHR 0x1F) (CHR 0xB8)]), (CHR 0xB1, [CU (CHR 0x1F) (CHR 0xB9)]),
      (CHR 0xB2, [CU (CHR 0x1F) (CHR 0xBA), CU (CHR 0x03) (CHR 0x99)]), (CHR 0xB3, [CU (CHR 0x03) (CHR 0x91), CU (CHR 0x03) (CHR 0x99)]),
      (CHR 0xB4, [CU (CHR 0x03) (CHR 0x86), CU (CHR 0x03) (CHR 0x99)]), (CHR 0xB6, [CU (CHR 0x03) (CHR 0x91), CU (CHR 0x03) (CHR 0x42)]),
      (CHR 0xB7, [CU (CHR 0x03) (CHR 0x91), CU (CHR 0x03) (CHR 0x42), CU (CHR 0x03) (CHR 0x99)]), (CHR 0xBC, [CU (CHR 0x03) (CHR 0x91), CU (CHR 0x03) (CHR 0x99)]),
      (CHR 0xBE, [CU (CHR 0x03) (CHR 0x99)]), (CHR 0xC2, [CU (CHR 0x1F) (CHR 0xCA), CU (CHR 0x03) (CHR 0x99)]),
      (CHR 0xC3, [CU (CHR 0x03) (CHR 0x97), CU (CHR 0x03) (CHR 0x99)]), (CHR 0xC4, [CU (CHR 0x03) (CHR 0x89), CU (CHR 0x03) (CHR 0x99)]),
      (CHR 0xC6, [CU (CHR 0x03) (CHR 0x97), CU (CHR 0x03) (CHR 0x42)]), (CHR 0xC7, [CU (CHR 0x03) (CHR 0x97), CU (CHR 0x03) (CHR 0x42), CU (CHR 0x03) (CHR 0x99)]),
      (CHR 0xCC, [CU (CHR 0x03) (CHR 0x97), CU (CHR 0x03) (CHR 0x99)]), (CHR 0xD0, [CU (CHR 0x1F) (CHR 0xD8)]),
      (CHR 0xD1, [CU (CHR 0x1F) (CHR 0xD9)]), (CHR 0xD2, [CU (CHR 0x03) (CHR 0x99), CU (CHR 0x03) (CHR 0x08), CU (CHR 0x03) (CHR 0x00)]),
      (CHR 0xD3, [CU (CHR 0x03) (CHR 0x99), CU (CHR 0x03) (CHR 0x08), CU (CHR 0x03) (CHR 0x01)]), (CHR 0xD6, [CU (CHR 0x03) (CHR 0x99), CU (CHR 0x03) (CHR 0x42)]),
      (CHR 0xD7, [CU (CHR 0x03) (CHR 0x99), CU (CHR 0x03) (CHR 0x08), CU (CHR 0x03) (CHR 0x42)]), (CHR 0xE0, [CU (CHR 0x1F) (CHR 0xE8)]),
      (CHR 0xE1, [CU (CHR 0x1F) (CHR 0xE9)]), (CHR 0xE2, [CU (CHR 0x03) (CHR 0xA5), CU (CHR 0x03) (CHR 0x08), CU (CHR 0x03) (CHR 0x00)]),
      (CHR 0xE3, [CU (CHR 0x03) (CHR 0xA5), CU (CHR 0x03) (CHR 0x08), CU (CHR 0x03) (CHR 0x01)]), (CHR 0xE4, [CU (CHR 0x03) (CHR 0xA1), CU (CHR 0x03) (CHR 0x13)]),
      (CHR 0xE5, [CU (CHR 0x1F) (CHR 0xEC)]), (CHR 0xE6, [CU (CHR 0x03) (CHR 0xA5), CU (CHR 0x03) (CHR 0x42)]),
      (CHR 0xE7, [CU (CHR 0x03) (CHR 0xA5), CU (CHR 0x03) (CHR 0x08), CU (CHR 0x03) (CHR 0x42)]), (CHR 0xF2, [CU (CHR 0x1F) (CHR 0xFA), CU (CHR 0x03) (CHR 0x99)]),
      (CHR 0xF3, [CU (CHR 0x03) (CHR 0xA9), CU (CHR 0x03) (CHR 0x99)]), (CHR 0xF4, [CU (CHR 0x03) (CHR 0x8F), CU (CHR 0x03) (CHR 0x99)]),
      (CHR 0xF6, [CU (CHR 0x03) (CHR 0xA9), CU (CHR 0x03) (CHR 0x42)]), (CHR 0xF7, [CU (CHR 0x03) (CHR 0xA9), CU (CHR 0x03) (CHR 0x42), CU (CHR 0x03) (CHR 0x99)]),
      (CHR 0xFC, [CU (CHR 0x03) (CHR 0xA9), CU (CHR 0x03) (CHR 0x99)])]"

definition upper_page_21 :: "(char \<times> jstring) list" where
  "upper_page_21 =
     [(CHR 0x4E, [CU (CHR 0x21) (CHR 0x32)]), (CHR 0x70, [CU (CHR 0x21) (CHR 0x60)]),
      (CHR 0x71, [CU (CHR 0x21) (CHR 0x61)]), (CHR 0x72, [CU (CHR 0x21) (CHR 0x62)]),
      (CHR 0x73, [CU (CHR 0x21) (CHR 0x63)]), (CHR 0x74, [CU (CHR 0x21) (CHR 0x64)]),
      (CHR 0x75, [CU (CHR 0x21) (CHR 0x65)]), (CHR 0x76, [CU (CHR 0x21) (CHR 0x66)]),
      (CHR 0x77, [CU (CHR 0x21) (CHR 0x67)]), (CHR 0x78, [CU (CHR 0x21) (CHR 0x68)]),
      (CHR 0x79, [CU (CHR 0x21) (CHR 0x69)]), (CHR 0x7A, [CU (CHR 0x21) (CHR 0x6A)]),
      (CHR 0x7B, [CU (CHR 0x21) (CHR 0x6B)]), (CHR 0x7C, [CU (CHR 0x21) (CHR 0x6C)]),
      (CHR 0x7D, [CU (CHR 0x21) (CHR 0x6D)]), (CHR 0x7E, [CU (CHR 0x21) (CHR 0x6E)]),
      (CHR 0x7F, [CU (CHR 0x21) (CHR 0x6F)]), (CHR 0x84, [CU (CHR 0x21) (CHR 0x83)])]"

definition upper_page_24 :: "(char \<times> jstring) list" where
  "upper_page_24 =
     [(CHR 0xD0, [CU (CHR 0x24) (CHR 0xB6)]), (CHR 0xD1, [CU (CHR 0x24) (CHR 0xB7)]),
      (CHR 0xD2, [CU (CHR 0x24) (CHR 0xB8)]), (CHR 0xD3, [CU (CHR 0x24) (CHR 0xB9)]),
      (CHR 0xD4, [CU (CHR 0x24) (CHR 0xBA)]), (CHR 0xD5, [CU (CHR 0x24) (CHR 0xBB)]),
      (CHR 0xD6, [CU (CHR 0x24) (CHR 0xBC)]), (CHR 0xD7, [CU (CHR 0x24) (CHR 0xBD)]),
      (CHR 0xD8, [CU (CHR 0x24) (CHR 0xBE)]), (CHR 0xD9, [CU (CHR 0x24) (CHR 0xBF)]),
      (CHR 0xDA, [CU (CHR 0x24) (CHR 0xC0)]), (CHR 0xDB, [CU (CHR 0x24) (CHR 0xC1)]),
      (CHR 0xDC, [CU (CHR 0x24) (CHR 0xC2)]), (CHR 0xDD, [CU (CHR 0x24) (CHR 0xC3)]),
      (CHR 0xDE, [CU (CHR 0x24) (CHR 0xC4)]), (CHR 0xDF, [CU (CHR 0x24) (CHR 0xC5)]),
      (CHR 0xE0, [CU (CHR 0x24) (CHR 0xC6)]), (CHR 0xE1, [CU (CHR 0x24) (CHR 0xC7)]),
      (CHR 0xE2, [CU (CHR 0x24) (CHR 0xC8)]), (CHR 0xE3, [CU (CHR 0x24) (CHR 0xC9)]),
      (CHR 0xE4, [CU (CHR 0x24) (CHR 0xCA)]), (CHR 0xE5, [CU (CHR 0x24) (CHR 0xCB)]),
      (CHR 0xE6, [CU (CHR 0x24) (CHR 0xCC)]), (CHR 0xE7, [CU (CHR 0x24) (CHR 0xCD)]),
      (CHR 0xE8, [CU (CHR 0x24) (CHR 0xCE)]), (CHR 0xE9, [CU (CHR 0x24) (CHR 0xCF)])]"

definition upper_page_2C :: "(char \<times> jstring) list" where
  "upper_page_2C =
     [(CHR 0x30, [CU (CHR 0x2C) (CHR 0x00)]), (CHR 0x31, [CU (CHR 0x2C) (CHR 0x01)]),
      (CHR 0x32, [CU (CHR 0x2C) (CHR 0x02)]), (CHR 0x33, [CU (CHR 0x2C) (CHR 0x03)]),
      (CHR 0x34, [CU (CHR 0x2C) (CHR 0x04)]), (CHR 0x35, [CU (CHR 0x2C) (CHR 0x05)]),
      (CHR 0x36, [CU (CHR 0x2C) (CHR 0x06)]), (CHR 0x37, [CU (CHR 0x2C) (CHR 0x07)]),
      (CHR 0x38, [CU (CHR 0x2C) (CHR 0x08)]), (CHR 0x39, [CU (CHR 0x2C) (CHR 0x09)]),
      (CHR 0x3A, [CU (CHR 0x2C) (CHR 0x0A)]), (CHR 0x3B, [CU (CHR 0x2C) (CHR 0x0B)]),
      (CHR 0x3C, [CU (CHR 0x2C) (CHR 0x0C)]), (CHR 0x3D, [CU (CHR 0x2C) (CHR 0x0D)]),
      (CHR 0x3E, [CU (CHR 0x2C) (CHR 0x0E)]), (CHR 0x3F, [CU (CHR 0x2C) (CHR 0x0F)]),
      (CHR 0x40, [CU (CHR 0x2C) (CHR 0x10)]), (CHR 0x41, [CU (CHR 0x2C) (CHR 0x11)]),
      (CHR 0x42, [CU (CHR 0x2C) (CHR 0x12)]), (CHR 0x43, [CU (CHR 0x2C) (CHR 0x13)]),
      (CHR 0x44, [CU (CHR 0x2C) (CHR 0x14)]), (CHR 0x45, [CU (CHR 0x2C) (CHR 0x15)]),
      (CHR 0x46, [CU (CHR 0x2C) (CHR 0x16)]), (CHR 0x47, [CU (CHR 0x2C) (CHR 0x17)]),
      (CHR 0x48, [CU (CHR 0x2C) (CHR 0x18)]), (CHR 0x49, [CU (CHR 0x2C) (CHR 0x19)]),
      (CHR 0x4A, [CU (CHR 0x2C) (CHR 0x1A)]), (CHR 0x4B, [CU (CHR 0x2C) (CHR 0x1B)]),
      (CHR 0x4C, [CU (CHR 0x2C) (CHR 0x1C)]), (CHR 0x4D, [CU (CHR 0x2C) (CHR 0x1D)]),
      (CHR 0x4E, [CU (CHR 0x2C) (CHR 0x1E)]), (CHR 0x4F, [CU (CHR 0x2C) (CHR 0x1F)]),
      (CHR 0x50, [CU (CHR 0x2C) (CHR 0x20)]), (CHR 0x51, [CU (CHR 0x2C) (CHR 0x21)]),
      (CHR 0x52, [CU (CHR 0x2C) (CHR 0x22)]), (CHR 0x53, [CU (CHR 0x2C) (CHR 0x23)]),
      (CHR 0x54, [CU (CHR 0x2C) (CHR 0x24)]), (CHR 0x55, [CU (CHR 0x2C) (CHR 0x25)]),
      (CHR 0x56, [CU (CHR 0x2C) (CHR 0x26)]), (CHR 0x57, [CU (CHR 0x2C) (CHR 0x27)]),
      (CHR 0x58, [CU (CHR 0x2C) (CHR 0x28)]), (CHR 0x59, [CU (CHR 0x2C) (CHR 0x29)]),
      (CHR 0x5A, [CU (CHR 0x2C) (CHR 0x2A)]), (CHR 0x5B, [CU (CHR 0x2C) (CHR 0x2B)]),
      (CHR 0x5C, [CU (CHR 0x2C) (CHR 0x2C)]), (CHR 0x5D, [CU (CHR 0x2C) (CHR 0x2D)]),
      (CHR 0x5E, [CU (CHR 0x2C) (CHR 0x2E)]), (CHR 0x5F, [CU (CHR 0x2C) (CHR 0x2F)]),
      (CHR 0x61, [CU (CHR 0x2C) (CHR 0x60)]), (CHR 0x65, [CU (CHR 0x02) (CHR 0x3A)]),
      (CHR 0x66, [CU (CHR 0x02) (CHR 0x3E)]), (CHR 0x68, [CU (CHR 0x2C) (CHR 0x67)]),
      (CHR 0x6A, [CU (CHR 0x2C) (CHR 0x69)]), (CHR 0x6C, [CU (CHR 0x2C) (CHR 0x6B)]),
      (CHR 0x73, [CU (CHR 0x2C) (CHR 0x72)]), (CHR 0x76, [CU (CHR 0x2C) (CHR 0x75)]),
      (CHR 0x81, [CU (CHR 0x2C) (CHR 0x80)]), (CHR 0x83, [CU (CHR 0x2C) (CHR 0x82)]),
      (CHR 0x85, [CU (CHR 0x2C) (CHR 0x84)]), (CHR 0x87, [CU (CHR 0x2C) (CHR 0x86)]),
      (CHR 0x89, [CU (CHR 0x2C) (CHR 0x88)]), (CHR 0x8B, [CU (CHR 0x2C) (CHR 0x8A)]),
      (CHR 0x8D, [CU (CHR 0x2C) (CHR 0x8C)]), (CHR 0x8F, [CU (CHR 0x2C) (CHR 0x8E)]),
      (CHR 0x91, [CU (CHR 0x2C) (CHR 0x90)]), (CHR 0x93, [CU (CHR 0x2C) (CHR 0x92)]),
      (CHR 0x95, [CU (CHR 0x2C) (CHR 0x94)]), (CHR 0x97, [CU (CHR 0x2C) (CHR 0x96)]),
      (CHR 0x99, [CU (CHR 0x2C) (CHR 0x98)]), (CHR 0x9B, [CU (CHR 0x2C) (CHR 0x9A)]),
      (CHR 0x9D, [CU (CHR 0x2C) (CHR 0x9C)]), (CHR 0x9F, [CU (CHR 0x2C) (CHR 0x9E)]),
      (CHR 0xA1, [CU (CHR 0x2C) (CHR 0xA0)]), (CHR 0xA3, [CU (CHR 0x2C) (CHR 0xA2)]),
      (CHR 0xA5, [CU (CHR 0x2C) (CHR 0xA4)]), (CHR 0xA7, [CU (CHR 0x2C) (CHR 0xA6)]),
      (CHR 0xA9, [CU (CHR 0x2C) (CHR 0xA8)]), (CHR 0xAB, [CU (CHR 0x2C) (CHR 0xAA)]),
      (CHR 0xAD, [CU (CHR 0x2C) (CHR 0xAC)]), (CHR 0xAF, [CU (CHR 0x2C) (CHR 0xAE)]),
      (CHR 0xB1, [CU (CHR 0x2C) (CHR 0xB0)]), (CHR 0xB3, [CU (CHR 0x2C) (CHR 0xB2)]),
      (CHR 0xB5, [CU (CHR 0x2C) (CHR 0xB4)]), (CHR 0xB7, [CU (CHR 0x2C) (CHR 0xB6)]),
      (CHR 0xB9, [CU (CHR 0x2C) (CHR 0xB8)]), (CHR 0xBB, [CU (CHR 0x2C) (CHR 0xBA)]),
      (CHR 0xBD, [CU (CHR 0x2C) (CHR 0xBC)]), (CHR 0xBF, [CU (CHR 0x2C) (CHR 0xBE)]),
      (CHR 0xC1, [CU (CHR 0x2C) (CHR 0xC0)]), (CHR 0xC3, [CU (CHR 0x2C) (CHR 0xC2)]),
      (CHR 0xC5, [CU (CHR 0x2C) (CHR 0xC4)]), (CHR 0xC7, [CU (CHR 0x2C) (CHR 0xC6)]),
      (CHR 0xC9, [CU (CHR 0x2C) (CHR 0xC8)]), (CHR 0xCB, [CU (CHR 0x2C) (CHR 0xCA)]),
      (CHR 0xCD, [CU (CHR 0x2C) (CHR 0xCC)]), (CHR 0xCF, [CU (CHR 0x2C) (CHR 0xCE)]),
      (CHR 0xD1, [CU (CHR 0x2C) (CHR 0xD0)]), (CHR 0xD3, [CU (CHR 0x2C) (CHR 0xD2)]),
      (CHR 0xD5, [CU (CHR 0x2C) (CHR 0xD4)]), (CHR 0xD7, [CU (CHR 0x2C) (CHR 0xD6)]),
      (CHR 0xD9, [CU (CHR 0x2C) (CHR 0xD8)]), (CHR 0xDB, [CU (CHR 0x2C) (CHR 0xDA)]),
      (CHR 0xDD, [CU (CHR 0x2C) (CHR 0xDC)]), (CHR 0xDF, [CU (CHR 0x2C) (CHR 0xDE)]),
      (CHR 0xE1, [CU (CHR 0x2C) (CHR 0xE0)]), (CHR 0xE3, [CU (CHR 0x2C) (CHR 0xE2)]),
      (CHR 0xEC, [CU (CHR 0x2C) (CHR 0xEB)]), (CHR 0xEE, [CU (CHR 0x2C) (CHR 0xED)]),
      (CHR 0xF3, [CU (CHR 0x2C) (CHR 0xF2)])]"

definition upper_page_2D :: "(char \<times> jstring) list" where
  "upper_page_2D =
     [(CHR 0x00, [CU (CHR 0x10) (CHR 0xA0)]), (CHR 0x01, [CU (CHR 0x10) (CHR 0xA1)]),
      (CHR 0x02, [CU (CHR 0x10) (CHR 0xA2)]), (CHR 0x03, [CU (CHR 0x10) (CHR 0xA3)]),
      (CHR 0x04, [CU (CHR 0x10) (CHR 0xA4)]), (CHR 0x05, [CU (CHR 0x10) (CHR 0xA5)]),
      (CHR 0x06, [CU (CHR 0x10) (CHR 0xA6)]), (CHR 0x07, [CU (CHR 0x10) (CHR 0xA7)]),
      (CHR 0x08, [CU (CHR 0x10) (CHR 0xA8)]), (CHR 0x09, [CU (CHR 0x10) (CHR 0xA9)]),
      (CHR 0x0A, [CU (CHR 0x10) (CHR 0xAA)]), (CHR 0x0B, [CU (CHR 0x10) (CHR 0xAB)]),
      (CHR 0x0C, [CU (CHR 0x10) (CHR 0xAC)]), (CHR 0x0D, [CU (CHR 0x10) (CHR 0xAD)]),
      (CHR 0x0E, [CU (CHR 0x10) (CHR 0xAE)]), (CHR 0x0F, [CU (CHR 0x10) (CHR 0xAF)]),
      (CHR 0x10, [CU (CHR 0x10) (CHR 0xB0)]), (CHR 0x11, [CU (CHR 0x10) (CHR 0xB1)]),
      (CHR 0x12, [CU (CHR 0x10) (CHR 0xB2)]), (CHR 0x13, [CU (CHR 0x10) (CHR 0xB3)]),
      (CHR 0x14, [CU (CHR 0x10) (CHR 0xB4)]), (CHR 0x15, [CU (CHR 0x10) (CHR 0xB5)]),
      (CHR 0x16, [CU (CHR 0x10) (CHR 0xB6)]), (CHR 0x17, [CU (CHR 0x10) (CHR 0xB7)]),
      (CHR 0x18, [CU (CHR 0x10) (CHR 0xB8)]), (CHR 0x19, [CU (CHR 0x10) (CHR 0xB9)]),
      (CHR 0x1A, [CU (CHR 0x10) (CHR 0xBA)]), (CHR 0x1B, [CU (CHR 0x10) (CHR 0xBB)]),
      (CHR 0x1C, [CU (CHR 0x10) (CHR 0xBC)]), (CHR 0x1D, [CU (CHR 0x10) (CHR 0xBD)]),
      (CHR 0x1E, [CU (CHR 0x10) (CHR 0xBE)]), (CHR 0x1F, [CU (CHR 0x10) (CHR 0xBF)]),
      (CHR 0x20, [CU (CHR 0x10) (CHR 0xC0)]), (CHR 0x21, [CU (CHR 0x10) (CHR 0xC1)]),
      (CHR 0x22, [CU (CHR 0x10) (CHR 0xC2)]), (CHR 0x23, [CU (CHR 0x10) (CHR 0xC3)]),
      (CHR 0x24, [CU (CHR 0x10) (CHR 0xC4)]), (CHR 0x25, [CU (CHR 0x10) (CHR 0xC5)]),
      (CHR 0x27, [CU (CHR 0x10) (CHR 0xC7)]), (CHR 0x2D, [CU (CHR 0x10) (CHR 0xCD)])]"

definition upper_page_A6 :: "(char \<times> jstring) list" where
  "upper_page_A6 =
     [(CHR 0x41, [CU (CHR 0xA6) (CHR 0x40)]), (CHR 0x43, [CU (CHR 0xA6) (CHR 0x42)]),
      (CHR 0x45, [CU (CHR 0xA6) (CHR 0x44)]), (CHR 0x47, [CU (CHR 0xA6) (CHR 0x46)]),
      (CHR 0x49, [CU (CHR 0xA6) (CHR 0x48)]), (CHR 0x4B, [CU (CHR 0xA6) (CHR 0x4A)]),
      (CHR 0x4D, [CU (CHR 0xA6) (CHR 0x4C)]), (CHR 0x4F, [CU (CHR 0xA6) (CHR 0x4E)]),
      (CHR 0x51, [CU (CHR 0xA6) (CHR 0x50)]), (CHR 0x53, [CU (CHR 0xA6) (CHR 0x52)]),
      (CHR 0x55, [CU (CHR 0xA6) (CHR 0x54)]), (CHR 0x57, [CU (CHR 0xA6) (CHR 0x56)]),
      (CHR 0x59, [CU (CHR 0xA6) (CHR 0x58)]), (CHR 0x5B, [CU (CHR 0xA6) (CHR 0x5A)]),
      (CHR 0x5D, [CU (CHR 0xA6) (CHR 0x5C)]), (CHR 0x5F, [CU (CHR 0xA6) (CHR 0x5E)]),
      (CHR 0x61, [CU (CHR 0xA6) (CHR 0x60)]), (CHR 0x63, [CU (CHR 0xA6) (CHR 0x62)]),
      (CHR 0x65, [CU (CHR 0xA6) (CHR 0x64)]), (CHR 0x67, [CU (CHR 0xA6) (CHR 0x66)]),
      (CHR 0x69, [CU (CHR 0xA6) (CHR 0x68)]), (CHR 0x6B, [CU (CHR 0xA6) (CHR 0x6A)]),
      (CHR 0x6D, [CU (CHR 0xA6) (CHR 0x6C)]), (CHR 0x81, [CU (CHR 0xA6) (CHR 0x80)]),
      (CHR 0x83, [CU (CHR 0xA6) (CHR 0x82)]), (CHR 0x85, [CU (CHR 0xA6) (CHR 0x84)]),
      (CHR 0x87, [CU (CHR 0xA6) (CHR 0x86)]), (CHR 0x89, [CU (CHR 0xA6) (CHR 0x88)]),
      (CHR 0x8B, [CU (CHR 0xA6) (CHR 0x8A)]), (CHR 0x8D, [CU (CHR 0xA6) (CHR 0x8C)]),
      (CHR 0x8F, [CU (CHR 0xA6) (CHR 0x8E)]), (CHR 0x91, [CU (CHR 0xA6) (CHR 0x90)]),
      (CHR 0x93, [CU (CHR 0xA6) (CHR 0x92)]), (CHR 0x95, [CU (CHR 0xA6) (CHR 0x94)]),
      (CHR 0x97, [CU (CHR 0xA6) (CHR 0x96)]), (CHR 0x99, [CU (CHR 0xA6) (CHR 0x98)]),
      (CHR 0x9B, [CU (CHR 0xA6) (CHR 0x9A)])]"

definition upper_page_A7 :: "(char \<times> jstring) list" where
  "upper_page_A7 =
     [(CHR 0x23, [CU (CHR 0xA7) (CHR 0x22)]), (CHR 0x25, [CU (CHR 0xA7) (CHR 0x24)]),
      (CHR 0x27, [CU (CHR 0xA7) (CHR 0x26)]), (CHR 0x29, [CU (CHR 0xA7) (CHR 0x28)]),
      (CHR 0x2B, [CU (CHR 0xA7) (CHR 0x2A)]), (CHR 0x2D, [CU (CHR 0xA7) (CHR 0x2C)]),
      (CHR 0x2F, [CU (CHR 0xA7) (CHR 0x2E)]), (CHR 0x33, [CU (CHR 0xA7) (CHR 0x32)]),
      (CHR 0x35, [CU (CHR 0xA7) (CHR 0x34)]), (CHR 0x37, [CU (CHR 0xA7) (CHR 0x36)]),
      (CHR 0x39, [CU (CHR 0xA7) (CHR 0x38)]), (CHR 0x3B, [CU (CHR 0xA7) (CHR 0x3A)]),
      (CHR 0x3D, [CU (CHR 0xA7) (CHR 0x3C)]), (CHR 0x3F, [CU (CHR 0xA7) (CHR 0x3E)]),
      (CHR 0x41, [CU (CHR 0xA7) (CHR 0x40)]), (CHR 0x43, [CU (CHR 0xA7) (CHR 0x42)]),
      (CHR 0x45, [CU (CHR 0xA7) (CHR 0x44)]), (CHR 0x47, [CU (CHR 0xA7) (CHR 0x46)]),
      (CHR 0x49, [CU (CHR 0xA7) (CHR 0x48)]), (CHR 0x4B, [CU (CHR 0xA7) (CHR 0x4A)]),
      (CHR 0x4D, [CU (CHR 0xA7) (CHR 0x4C)]), (CHR 0x4F, [CU (CHR 0xA7) (CHR 0x4E)]),
      (CHR 0x51, [CU (CHR 0xA7) (CHR 0x50)]), (CHR 0x53, [CU (CHR 0xA7) (CHR 0x52)]),
      (CHR 0x55, [CU (CHR 0xA7) (CHR 0x54)]), (CHR 0x57, [CU (CHR 0xA7) (CHR 0x56)]),
      (CHR 0x59, [CU (CHR 0xA7) (CHR 0x58)]), (CHR 0x5B, [CU (CHR 0xA7) (CHR 0x5A)]),
      (CHR 0x5D, [CU (CHR 0xA7) (CHR 0x5C)]), (CHR 0x5F, [CU (CHR 0xA7) (CHR 0x5E)]),
      (CHR 0x61, [CU (CHR 0xA7) (CHR 0x60)]), (CHR 0x63, [CU (CHR 0xA7) (CHR 0x62)]),
      (CHR 0x65, [CU (CHR 0xA7) (CHR 0x64)]), (CHR 0x67, [CU (CHR 0xA7) (CHR 0x66)]),
      (CHR 0x69, [CU (CHR 0xA7) (CHR 0x68)]), (CHR 0x6B, [CU (CHR 0xA7) (CHR 0x6A)]),
      (CHR 0x6D, [CU (CHR 0xA7) (CHR 0x6C)]), (CHR 0x6F, [CU (CHR 0xA7) (CHR 0x6E)]),
      (CHR 0x7A, [CU (CHR 0xA7) (CHR 0x79)]), (CHR 0x7C, [CU (CHR 0xA7) (CHR 0x7B)]),
      (CHR 0x7F, [CU (CHR 0xA7) (CHR 0x7E)]), (CHR 0x81, [CU (CHR 0xA7) (CHR 0x80)]),
      (CHR 0x83, [CU (CHR 0xA7) (CHR 0x82)]), (CHR 0x85, [CU (CHR 0xA7) (CHR 0x84)]),
      (CHR 0x87, [CU (CHR 0xA7) (CHR 0x86)]), (CHR 0x8C, [CU (CHR 0xA7) (CHR 0x8B)]),
      (CHR 0x91, [CU (CHR 0xA7) (CHR 0x90)]), (CHR 0x93, [CU (CHR 0xA7) (CHR 0x92)]),
      (CHR 0x94, [CU (CHR 0xA7) (CHR 0xC4)]), (CHR 0x97, [CU (CHR 0xA7) (CHR 0x96)]),
      (CHR 0x99, [CU (CHR 0xA7) (CHR 0x98)]), (CHR 0x9B, [CU (CHR 0xA7) (CHR 0x9A)]),
      (CHR 0x9D, [CU (CHR 0xA7) (CHR 0x9C)]), (CHR 0x9F, [CU (CHR 0xA7) (CHR 0x9E)]),
      (CHR 0xA1, [CU (CHR 0xA7) (CHR 0xA0)]), (CHR 0xA3, [CU (CHR 0xA7) (CHR 0xA2)]),
      (CHR 0xA5, [CU (CHR 0xA7) (CHR 0xA4)]), (CHR 0xA7, [CU (CHR 0xA7) (CHR 0xA6)]),
      (CHR 0xA9, [CU (CHR 0xA7) (CHR 0xA8)]), (CHR 0xB5, [CU (CHR 0xA7) (CHR 0xB4)]),
      (CHR 0xB7, [CU (CHR 0xA7) (CHR 0xB6)]), (CHR 0xB9, [CU (CHR 0xA7) (CHR 0xB8)]),
      (CHR 0xBB, [CU (CHR 0xA7) (CHR 0xBA)]), (CHR 0xBD, [CU (CHR 0xA7) (CHR 0xBC)]),
      (CHR 0xBF, [CU (CHR 0xA7) (CHR 0xBE)]), (CHR 0xC1, [CU (CHR 0xA7) (CHR 0xC0)]),
      (CHR 0xC3, [CU (CHR 0xA7) (CHR 0xC2)]), (CHR 0xC8, [CU (CHR 0xA7) (CHR 0xC7)]),
      (CHR 0xCA, [CU (CHR 0xA7) (CHR 0xC9)]), (CHR 0xD1, [CU (CHR 0xA7) (CHR 0xD0)]),
      (CHR 0xD7, [CU (CHR 0xA7) (CHR 0xD6)]), (CHR 0xD9, [CU (CHR 0xA7) (CHR 0xD8)]),
      (CHR 0xF6, [CU (CHR 0xA7) (CHR 0xF5)])]"

definition upper_page_AB :: "(char \<times> jstring) list" where
  "upper_page_AB =
     [(CHR 0x53, [CU (CHR 0xA7) (CHR 0xB3)]), (CHR 0x70, [CU (CHR 0x13) (CHR 0xA0)]),
      (CHR 0x71, [CU (CHR 0x13) (CHR 0xA1)]), (CHR 0x72, [CU (CHR 0x13) (CHR 0xA2)]),
      (CHR 0x73, [CU (CHR 0x13) (CHR 0xA3)]), (CHR 0x74, [CU (CHR 0x13) (CHR 0xA4)]),
      (CHR 0x75, [CU (CHR 0x13) (CHR 0xA5)]), (CHR 0x76, [CU (CHR 0x13) (CHR 0xA6)]),
      (CHR 0x77, [CU (CHR 0x13) (CHR 0xA7)]), (CHR 0x78, [CU (CHR 0x13) (CHR 0xA8)]),
      (CHR 0x79, [CU (CHR 0x13) (CHR 0xA9)]), (CHR 0x7A, [CU (CHR 0x13) (CHR 0xAA)]),
      (CHR 0x7B, [CU (CHR 0x13) (CHR 0xAB)]), (CHR 0x7C, [CU (CHR 0x13) (CHR 0xAC)]),
      (CHR 0x7D, [CU (CHR 0x13) (CHR 0xAD)]), (CHR 0x7E, [CU (CHR 0x13) (CHR 0xAE)]),
      (CHR 0x7F, [CU (CHR 0x13) (CHR 0xAF)]), (CHR 0x80, [CU (CHR 0x13) (CHR 0xB0)]),
      (CHR 0x81, [CU (CHR 0x13) (CHR 0xB1)]), (CHR 0x82, [CU (CHR 0x13) (CHR 0xB2)]),
      (CHR 0x83, [CU (CHR 0x13) (CHR 0xB3)]), (CHR 0x84, [CU (CHR 0x13) (CHR 0xB4)]),
      (CHR 0x85, [CU (CHR 0x13) (CHR 0xB5)]), (CHR 0x86, [CU (CHR 0x13) (CHR 0xB6)]),
      (CHR 0x87, [CU (CHR 0x13) (CHR 0xB7)]), (CHR 0x88, [CU (CHR 0x13) (CHR 0xB8)]),
      (CHR 0x89, [CU (CHR 0x13) (CHR 0xB9)]), (CHR 0x8A, [CU (CHR 0x13) (CHR 0xBA)]),
      (CHR 0x8B, [CU (CHR 0x13) (CHR 0xBB)]), (CHR 0x8C, [CU (CHR 0x13) (CHR 0xBC)]),
      (CHR 0x8D, [CU (CHR 0x13) (CHR 0xBD)]), (CHR 0x8E, [CU (CHR 0x13) (CHR 0xBE)]),
      (CHR 0x8F, [CU (CHR 0x13) (CHR 0xBF)]), (CHR 0x90, [CU (CHR 0x13) (CHR 0xC0)]),
      (CHR 0x91, [CU (CHR 0x13) (CHR 0xC1)]), (CHR 0x92, [CU (CHR 0x13) (CHR 0xC2)]),
      (CHR 0x93, [CU (CHR 0x13) (CHR 0xC3)]), (CHR 0x94, [CU (CHR 0x13) (CHR 0xC4)]),
      (CHR 0x95, [CU (CHR 0x13) (CHR 0xC5)]), (CHR 0x96, [CU (CHR 0x13) (CHR 0xC6)]),
      (CHR 0x97, [CU (CHR 0x13) (CHR 0xC7)]), (CHR 0x98, [CU (CHR 0x13) (CHR 0xC8)]),
      (CHR 0x99, [CU (CHR 0x13) (CHR 0xC9)]), (CHR 0x9A, [CU (CHR 0x13) (CHR 0xCA)]),
      (CHR 0x9B, [CU (CHR 0x13) (CHR 0xCB)]), (CHR 0x9C, [CU (CHR 0x13) (CHR 0xCC)]),
      (CHR 0x9D, [CU (CHR 0x13) (CHR 0xCD)]), (CHR 0x9E, [CU (CHR 0x13) (CHR 0xCE)]),
      (CHR 0x9F, [CU (CHR 0x13) (CHR 0xCF)]), (CHR 0xA0, [CU (CHR 0x13) (CHR 0xD0)]),
      (CHR 0xA1, [CU (CHR 0x13) (CHR 0xD1)]), (CHR 0xA2, [CU (CHR 0x13) (CHR 0xD2)]),
      (CHR 0xA3, [CU (CHR 0x13) (CHR 0xD3)]), (CHR 0xA4, [CU (CHR 0x13) (CHR 0xD4)]),
      (CHR 0xA5, [CU (CHR 0x13) (CHR 0xD5)]), (CHR 0xA6, [CU (CHR 0x13) (CHR 0xD6)]),
      (CHR 0xA7, [CU (CHR 0x13) (CHR 0xD7)]), (CHR 0xA8, [CU (CHR 0x13) (CHR 0xD8)]),
      (CHR 0xA9, [CU (CHR 0x13) (CHR 0xD9)]), (CHR 0xAA, [CU (CHR 0x13) (CHR 0xDA)]),
      (CHR 0xAB, [CU (CHR 0x13) (CHR 0xDB)]), (CHR 0xAC, [CU (CHR 0x13) (CHR 0xDC)]),
      (CHR 0xAD, [CU (CHR 0x13) (CHR 0xDD)]), (CHR 0xAE, [CU (CHR 0x13) (CHR 0xDE)]),
      (CHR 0xAF, [CU (CHR 0x13) (CHR 0xDF)]), (CHR 0xB0, [CU (CHR 0x13) (CHR 0xE0)]),
      (CHR 0xB1, [CU (CHR 0x13) (CHR 0xE1)]), (CHR 0xB2, [CU (CHR 0x13) (CHR 0xE2)]),
      (CHR 0xB3, [CU (CHR 0x13) (CHR 0xE3)]), (CHR 0xB4, [CU (CHR 0x13) (CHR 0xE4)]),
      (CHR 0xB5, [CU (CHR 0x13) (CHR 0xE5)]), (CHR 0xB6, [CU (CHR 0x13) (CHR 0xE6)]),
      (CHR 0xB7, [CU (CHR 0x13) (CHR 0xE7)]), (CHR 0xB8, [CU (CHR 0x13) (CHR 0xE8)]),
      (CHR 0xB9, [CU (CHR 0x13) (CHR 0xE9)]), (CHR 0xBA, [CU (CHR 0x13) (CHR 0xEA)]),
      (CHR 0xBB, [CU (CHR 0x13) (CHR 0xEB)]), (CHR 0xBC, [CU (CHR 0x13) (CHR 0xEC)]),
      (CHR 0xBD, [CU (CHR 0x13) (CHR 0xED)]), (CHR 0xBE, [CU (CHR 0x13) (CHR 0xEE)]),
      (CHR 0xBF, [CU (CHR 0x13) (CHR 0xEF)])]"

definition upper_page_FB :: "(char \<times> jstring) list" where
  "upper_page_FB =
     [(CHR 0x00, [CU (CHR 0x00) (CHR 0x46), CU (CHR 0x00) (CHR 0x46)]), (CHR 0x01, [CU (CHR 0x00) (CHR 0x46), CU (CHR 0x00) (CHR 0x49)]),
      (CHR 0x02, [CU (CHR 0x00) (CHR 0x46), CU (CHR 0x00) (CHR 0x4C)]), (CHR 0x03, [CU (CHR 0x00) (CHR 0x46), CU (CHR 0x00) (CHR 0x46), CU (CHR 0x00) (CHR 0x49)]),
      (CHR 0x04, [CU (CHR 0x00) (CHR 0x46), CU (CHR 0x00) (CHR 0x46), CU (CHR 0x00) (CHR 0x4C)]), (CHR 0x05, [CU (CHR 0x00) (CHR 0x53), CU (CHR 0x00) (CHR 0x54)]),
      (CHR 0x06, [CU (CHR 0x00) (CHR 0x53), CU (CHR 0x00) (CHR 0x54)]), (CHR 0x13, [CU (CHR 0x05) (CHR 0x44), CU (CHR 0x05) (CHR 0x46)]),
      (CHR 0x14, [CU (CHR 0x05) (CHR 0x44), CU (CHR 0x05) (CHR 0x35)]), (CHR 0x15, [CU (CHR 0x05) (CHR 0x44), CU (CHR 0x05) (CHR 0x3B)]),
      (CHR 0x16, [CU (CHR 0x05) (CHR 0x4E), CU (CHR 0x05) (CHR 0x46)]), (CHR 0x17, [CU (CHR 0x05) (CHR 0x44), CU (CHR 0x05) (CHR 0x3D)])]"

definition upper_page_FF :: "(char \<times> jstring) list" where
  "upper_page_FF =
     [(CHR 0x41, [CU (CHR 0xFF) (CHR 0x21)]), (CHR 0x42, [CU (CHR 0xFF) (CHR 0x22)]),
      (CHR 0x43, [CU (CHR 0xFF) (CHR 0x23)]), (CHR 0x44, [CU (CHR 0xFF) (CHR 0x24)]),
      (CHR 0x45, [CU (CHR 0xFF) (CHR 0x25)]), (CHR 0x46, [CU (CHR 0xFF) (CHR 0x26)]),
      (CHR 0x47, [CU (CHR 0xFF) (CHR 0x27)]), (CHR 0x48, [CU (CHR 0xFF) (CHR 0x28)]),
      (CHR 0x49, [CU (CHR 0xFF) (CHR 0x29)]), (CHR 0x4A, [CU (CHR 0xFF) (CHR 0x2A)]),
      (CHR 0x4B, [CU (CHR 0xFF) (CHR 0x2B)]), (CHR 0x4C, [CU (CHR 0xFF) (CHR 0x2C)]),
      (CHR 0x4D, [CU (CHR 0xFF) (CHR 0x2D)]), (CHR 0x4E, [CU (CHR 0xFF) (CHR 0x2E)]),
      (CHR 0x4F, [CU (CHR 0xFF) (CHR 0x2F)]), (CHR 0x50, [CU (CHR 0xFF) (CHR 0x30)]),
      (CHR 0x51, [CU (CHR 0xFF) (CHR 0x31)]), (CHR 0x52, [CU (CHR 0xFF) (CHR 0x32)]),
      (CHR 0x53, [CU (CHR 0xFF) (CHR 0x33)]), (CHR 0x54, [CU (CHR 0xFF) (CHR 0x34)]),
      (CHR 0x55, [CU (CHR 0xFF) (CHR 0x35)]), (CHR 0x56, [CU (CHR 0xFF) (CHR 0x36)]),
      (CHR 0x57, [CU (CHR 0xFF) (CHR 0x37)]), (CHR 0x58, [CU (CHR 0xFF) (CHR 0x38)]),
      (CHR 0x59, [CU (CHR 0xFF) (CHR 0x39)]), (CHR 0x5A, [CU (CHR 0xFF) (CHR 0x3A)])]"

definition upper_bmp :: "char \<Rightarrow> (char \<times> jstring) list" where
  "upper_bmp h =
     (if h = CHR 0x00 then upper_page_00
      else if h = CHR 0x01 then upper_page_01
      else if h = CHR 0x02 then upper_page_02
      else if h = CHR 0x03 then upper_page_03
      else if h = CHR 0x04 then upper_page_04
      else if h = CHR 0x05 then upper_page_05
      else if h = CHR 0x10 then upper_page_10
      else if h = CHR 0x13 then upper_page_13
      else if h = CHR 0x1C then upper_page_1C
      else if h = CHR 0x1D then upper_page_1D
      else if h = CHR 0x1E then upper_page_1E
      else if h = CHR 0x1F then upper_page_1F
      else if h = CHR 0x21 then upper_page_21
      else if h = CHR 0x24 then upper_page_24
      else if h = CHR 0x2C then upper_page_2C
      else if h = CHR 0x2D then upper_page_2D
      else if h = CHR 0xA6 then upper_page_A6
      else if h = CHR 0xA7 then upper_page_A7
      else if h = CHR 0xAB then upper_page_AB
      else if h = CHR 0xFB then upper_page_FB
      else if h = CHR 0xFF then upper_page_FF
      else [])"

definition upper_pairs_D801 :: "(cu \<times> jstring) list" where
  "upper_pairs_D801 =
     [(CU (CHR 0xDC) (CHR 0x28), [CU (CHR 0xD8) (CHR 0x01), CU (CHR 0xDC) (CHR 0x00)]), (CU (CHR 0xDC) (CHR 0x29), [CU (CHR 0xD8) (CHR 0x01), CU (CHR 0xDC) (CHR 0x01)]),
      (CU (CHR 0xDC) (CHR 0x2A), [CU (CHR 0xD8) (CHR 0x01), CU (CHR 0xDC) (CHR 0x02)]), (CU (CHR 0xDC) (CHR 0x2B), [CU (CHR 0xD8) (CHR 0x01), CU (CHR 0xDC) (CHR 0x03)]),
      (CU (CHR 0xDC) (CHR 0x2C), [CU (CHR 0xD8) (CHR 0x01), CU (CHR 0xDC) (CHR 0x04)]), (CU (CHR 0xDC) (CHR 0x2D), [CU (CHR 0xD8) (CHR 0x01), CU (CHR 0xDC) (CHR 0x05)]),
      (CU (CHR 0xDC) (CHR 0x2E), [CU (CHR 0xD8) (CHR 0x01), CU (CHR 0xDC) (CHR 0x06)]), (CU (CHR 0xDC) (CHR 0x2F), [CU (CHR 0xD8) (CHR 0x01), CU (CHR 0xDC) (CHR 0x07)]),
      (CU (CHR 0xDC) (CHR 0x30), [CU (CHR 0xD8) (CHR 0x01), CU (CHR 0xDC) (CHR 0x08)]), (CU (CHR 0xDC) (CHR 0x31), [CU (CHR 0xD8) (CHR 0x01), CU (CHR 0xDC) (CHR 0x09)]),
      (CU (CHR 0xDC) (CHR 0x32), [CU (CHR 0xD8) (CHR 0x01), CU (CHR 0xDC) (CHR 0x0A)]), (CU (CHR 0xDC) (CHR 0x33), [CU (CHR 0xD8) (CHR 0x01), CU (CHR 0xDC) (CHR 0x0B)]),
      (CU (CHR 0xDC) (CHR 0x34), [CU (CHR 0xD8) (CHR 0x01), CU (CHR 0xDC) (CHR 0x0C)]), (CU (CHR 0xDC) (CHR 0x35), [CU (CHR 0xD8) (CHR 0x01), CU (CHR 0xDC) (CHR 0x0D)]),
      (CU (CHR 0xDC) (CHR 0x36), [CU (CHR 0xD8) (CHR 0x01), CU (CHR 0xDC) (CHR 0x0E)]), (CU (CHR 0xDC) (CHR 0x37), [CU (CHR 0xD8) (CHR 0x01), CU (CHR 0xDC) (CHR 0x0F)]),
      (CU (CHR 0xDC) (CHR 0x38), [CU (CHR 0xD8) (CHR 0x01), CU (CHR 0xDC) (CHR 0x10)]), (CU (CHR 0xDC) (CHR 0x39), [CU (CHR 0xD8) (CHR 0x01), CU (CHR 0xDC) (CHR 0x11)]),
      (CU (CHR 0xDC) (CHR 0x3A), [CU (CHR 0xD8) (CHR 0x01), CU (CHR 0xDC) (CHR 0x12)]), (CU (CHR 0xDC) (CHR 0x3B), [CU (CHR 0xD8) (CHR 0x01), CU (CHR 0xDC) (CHR 0x13)]),
      (CU (CHR 0xDC) (CHR 0x3C), [CU (CHR 0xD8) (CHR 0x01), CU (CHR 0xDC) (CHR 0x14)]), (CU (CHR 0xDC) (CHR 0x3D), [CU (CHR 0xD8) (CHR 0x01), CU (CHR 0xDC) (CHR 0x15)]),
      (CU (CHR 0xDC) (CHR 0x3E), [CU (CHR 0xD8) (CHR 0x01), CU (CHR 0xDC) (CHR 0x16)]), (CU (CHR 0xDC) (CHR 0x3F), [CU (CHR 0xD8) (CHR 0x01), CU (CHR 0xDC) (CHR 0x17)]),
      (CU (CHR 0xDC) (CHR 0x40), [CU (CHR 0xD8) (CHR 0x01), CU (CHR 0xDC) (CHR 0x18)]), (CU (CHR 0xDC) (CHR 0x41), [CU (CHR 0xD8) (CHR 0x01), CU (CHR 0xDC) (CHR 0x19)]),
      (CU (CHR 0xDC) (CHR 0x42), [CU (CHR 0xD8) (CHR 0x01), CU (CHR 0xDC) (CHR 0x1A)]), (CU (CHR 0xDC) (CHR 0x43), [CU (CHR 0xD8) (CHR 0x01), CU (CHR 0xDC) (CHR 0x1B)]),
      (CU (CHR 0xDC) (CHR 0x44), [CU (CHR 0xD8) (CHR 0x01), CU (CHR 0xDC) (CHR 0x1C)]), (CU (CHR 0xDC) (CHR 0x45), [CU (CHR 0xD8) (CHR 0x01), CU (CHR 0xDC) (CHR 0x1D)]),
      (CU (CHR 0xDC) (CHR 0x46), [CU (CHR 0xD8) (CHR 0x01), CU (CHR 0xDC) (CHR 0x1E)]), (CU (CHR 0xDC) (CHR 0x47), [CU (CHR 0xD8) (CHR 0x01), CU (CHR 0xDC) (CHR 0x1F)]),
      (CU (CHR 0xDC) (CHR 0x48), [CU (CHR 0xD8) (CHR 0x01), CU (CHR 0xDC) (CHR 0x20)]), (CU (CHR 0xDC) (CHR 0x49), [CU (CHR 0xD8) (CHR 0x01), CU (CHR 0xDC) (CHR 0x21)]),
      (CU (CHR 0xDC) (CHR 0x4A), [CU (CHR 0xD8) (CHR 0x01), CU (CHR 0xDC) (CHR 0x22)]), (CU (CHR 0xDC) (CHR 0x4B), [CU (CHR 0xD8) (CHR 0x01), CU (CHR 0xDC) (CHR 0x23)]),
      (CU (CHR 0xDC) (CHR 0x4C), [CU (CHR 0xD8) (CHR 0x01), CU (CHR 0xDC) (CHR 0x24)]), (CU (CHR 0xDC) (CHR 0x4D), [CU (CHR 0xD8) (CHR 0x01), CU (CHR 0xDC) (CHR 0x25)]),
      (CU (CHR 0xDC) (CHR 0x4E), [CU (CHR 0xD8) (CHR 0x01), CU (CHR 0xDC) (CHR 0x26)]), (CU (CHR 0xDC) (CHR 0x4F), [CU (CHR 0xD8) (CHR 0x01), CU (CHR 0xDC) (CHR 0x27)]),
      (CU (CHR 0xDC) (CHR 0xD8), [CU (CHR 0xD8) (CHR 0x01), CU (CHR 0xDC) (CHR 0xB0)]), (CU (CHR 0xDC) (CHR 0xD9), [CU (CHR 0xD8) (CHR 0x01), CU (CHR 0xDC) (CHR 0xB1)]),
      (CU (CHR 0xDC) (CHR 0xDA), [CU (CHR 0xD8) (CHR 0x01), CU (CHR 0xDC) (CHR 0xB2)]), (CU (CHR 0xDC) (CHR 0xDB), [CU (CHR 0xD8) (CHR 0x01), CU (CHR 0xDC) (CHR 0xB3)]),
      (CU (CHR 0xDC) (CHR 0xDC), [CU (CHR 0xD8) (CHR 0x01), CU (CHR 0xDC) (CHR 0xB4)]), (CU (CHR 0xDC) (CHR 0xDD), [CU (CHR 0xD8) (CHR 0x01), CU (CHR 0xDC) (CHR 0xB5)]),
      (CU (CHR 0xDC) (CHR 0xDE), [CU (CHR 0xD8) (CHR 0x01), CU (CHR 0xDC) (CHR 0xB6)]), (CU (CHR 0xDC) (CHR 0xDF), [CU (CHR 0xD8) (CHR 0x01), CU (CHR 0xDC) (CHR 0xB7)]),
      (CU (CHR 0xDC) (CHR 0xE0), [CU (CHR 0xD8) (CHR 0x01), CU (CHR 0xDC) (CHR 0xB8)]), (CU (CHR 0xDC) (CHR 0xE1), [CU (CHR 0xD8) (CHR 0x01), CU (CHR 0xDC) (CHR 0xB9)]),
      (CU (CHR 0xDC) (CHR 0xE2), [CU (CHR 0xD8) (CHR 0x01), CU (CHR 0xDC) (CHR 0xBA)]), (CU (CHR 0xDC) (CHR 0xE3), [CU (CHR 0xD8) (CHR 0x01), CU (CHR 0xDC) (CHR 0xBB)]),
      (CU (CHR 0xDC) (CHR 0xE4), [CU (CHR 0xD8) (CHR 0x01), CU (CHR 0xDC) (CHR 0xBC)]), (CU (CHR 0xDC) (CHR 0xE5), [CU (CHR 0xD8) (CHR 0x01), CU (CHR 0xDC) (CHR 0xBD)]),
      (CU (CHR 0xDC) (CHR 0xE6), [CU (CHR 0xD8) (CHR 0x01), CU (CHR 0xDC) (CHR 0xBE)]), (CU (CHR 0xDC) (CHR 0xE7), [CU (CHR 0xD8) (CHR 0x01), CU (CHR 0xDC) (CHR 0xBF)]),
      (CU (CHR 0xDC) (CHR 0xE8), [CU (CHR 0xD8) (CHR 0x01), CU (CHR 0xDC) (CHR 0xC0)]), (CU (CHR 0xDC) (CHR 0xE9), [CU (CHR 0xD8) (CHR 0x01), CU (CHR 0xDC) (CHR 0xC1)]),
      (CU (CHR 0xDC) (CHR 0xEA), [CU (CHR 0xD8) (CHR 0x01), CU (CHR 0xDC) (CHR 0xC2)]), (CU (CHR 0xDC) (CHR 0xEB), [CU (CHR 0xD8) (CHR 0x01), CU (CHR 0xDC) (CHR 0xC3)]),
      (CU (CHR 0xDC) (CHR 0xEC), [CU (CHR 0xD8) (CHR 0x01), CU (CHR 0xDC) (CHR 0xC4)]), (CU (CHR 0xDC) (CHR 0xED), [CU (CHR 0xD8) (CHR 0x01), CU (CHR 0xDC) (CHR 0xC5)]),
      (CU (CHR 0xDC) (CHR 0xEE), [CU (CHR 0xD8) (CHR 0x01), CU (CHR 0xDC) (CHR 0xC6)]), (CU (CHR 0xDC) (CHR 0xEF), [CU (CHR 0xD8) (CHR 0x01), CU (CHR 0xDC) (CHR 0xC7)]),
      (CU (CHR 0xDC) (CHR 0xF0), [CU (CHR 0xD8) (CHR 0x01), CU (CHR 0xDC) (CHR 0xC8)]), (CU (CHR 0xDC) (CHR 0xF1), [CU (CHR 0xD8) (CHR 0x01), CU (CHR 0xDC) (CHR 0xC9)]),
      (CU (CHR 0xDC) (CHR 0xF2), [CU (CHR 0xD8) (CHR 0x01), CU (CHR 0xDC) (CHR 0xCA)]), (CU (CHR 0xDC) (CHR 0xF3), [CU (CHR 0xD8) (CHR 0x01), CU (CHR 0xDC) (CHR 0xCB)]),
      (CU (CHR 0xDC) (CHR 0xF4), [CU (CHR 0xD8) (CHR 0x01), CU (CHR 0xDC) (CHR 0xCC)]), (CU (CHR 0xDC) (CHR 0xF5), [CU (CHR 0xD8) (CHR 0x01), CU (CHR 0xDC) (CHR 0xCD)]),
      (CU (CHR 0xDC) (CHR 0xF6), [CU (CHR 0xD8) (CHR 0x01), CU (CHR 0xDC) (CHR 0xCE)]), (CU (CHR 0xDC) (CHR 0xF7), [CU (CHR 0xD8) (CHR 0x01), CU (CHR 0xDC) (CHR 0xCF)]),
      (CU (CHR 0xDC) (CHR 0xF8), [CU (CHR 0xD8) (CHR 0x01), CU (CHR 0xDC) (CHR 0xD0)]), (CU (CHR 0xDC) (CHR 0xF9), [CU (CHR 0xD8) (CHR 0x01), CU (CHR 0xDC) (CHR 0xD1)]),
      (CU (CHR 0xDC) (CHR 0xFA), [CU (CHR 0xD8) (CHR 0x01), CU (CHR 0xDC) (CHR 0xD2)]), (CU (CHR 0xDC) (CHR 0xFB), [CU (CHR 0xD8) (CHR 0x01), CU (CHR 0xDC) (CHR 0xD3)]),
      (CU (CHR 0xDD) (CHR 0x97), [CU (CHR 0xD8) (CHR 0x01), CU (CHR 0xDD) (CHR 0x70)]), (CU (CHR 0xDD) (CHR 0x98), [CU (CHR 0xD8) (CHR 0x01), CU (CHR 0xDD) (CHR 0x71)]),
      (CU (CHR 0xDD) (CHR 0x99), [CU (CHR 0xD8) (CHR 0x01), CU (CHR 0xDD) (CHR 0x72)]), (CU (CHR 0xDD) (CHR 0x9A), [CU (CHR 0xD8) (CHR 0x01), CU (CHR 0xDD) (CHR 0x73)]),
      (CU (CHR 0xDD) (CHR 0x9B), [CU (CHR 0xD8) (CHR 0x01), CU (CHR 0xDD) (CHR 0x74)]), (CU (CHR 0xDD) (CHR 0x9C), [CU (CHR 0xD8) (CHR 0x01), CU (CHR 0xDD) (CHR 0x75)]),
      (CU (CHR 0xDD) (CHR 0x9D), [CU (CHR 0xD8) (CHR 0x01), CU (CHR 0xDD) (CHR 0x76)]), (CU (CHR 0xDD) (CHR 0x9E), [CU (CHR 0xD8) (CHR 0x01), CU (CHR 0xDD) (CHR 0x77)]),
      (CU (CHR 0xDD) (CHR 0x9F), [CU (CHR 0xD8) (CHR 0x01), CU (CHR 0xDD) (CHR 0x78)]), (CU (CHR 0xDD) (CHR 0xA0), [CU (CHR 0xD8) (CHR 0x01), CU (CHR 0xDD) (CHR 0x79)]),
      (CU (CHR 0xDD) (CHR 0xA1), [CU (CHR 0xD8) (CHR 0x01), CU (CHR 0xDD) (CHR 0x7A)]), (CU (CHR 0xDD) (CHR 0xA3), [CU (CHR 0xD8) (CHR 0x01), CU (CHR 0xDD) (CHR 0x7C)]),
      (CU (CHR 0xDD) (CHR 0xA4), [CU (CHR 0xD8) (CHR 0x01), CU (CHR 0xDD) (CHR 0x7D)]), (CU (CHR 0xDD) (CHR 0xA5), [CU (CHR 0xD8) (CHR 0x01), CU (CHR 0xDD) (CHR 0x7E)]),
      (CU (CHR 0xDD) (CHR 0xA6), [CU (CHR 0xD8) (CHR 0x01), CU (CHR 0xDD) (CHR 0x7F)]), (CU (CHR 0xDD) (CHR 0xA7), [CU (CHR 0xD8) (CHR 0x01), CU (CHR 0xDD) (CHR 0x80)]),
      (CU (CHR 0xDD) (CHR 0xA8), [CU (CHR 0xD8) (CHR 0x01), CU (CHR 0xDD) (CHR 0x81)]), (CU (CHR 0xDD) (CHR 0xA9), [CU (CHR 0xD8) (CHR 0x01), CU (CHR 0xDD) (CHR 0x82)]),
      (CU (CHR 0xDD) (CHR 0xAA), [CU (CHR 0xD8) (CHR 0x01), CU (CHR 0xDD) (CHR 0x83)]), (CU (CHR 0xDD) (CHR 0xAB), [CU (CHR 0xD8) (CHR 0x01), CU (CHR 0xDD) (CHR 0x84)]),
      (CU (CHR 0xDD) (CHR 0xAC), [CU (CHR 0xD8) (CHR 0x01), CU (CHR 0xDD) (CHR 0x85)]), (CU (CHR 0xDD) (CHR 0xAD), [CU (CHR 0xD8) (CHR 0x01), CU (CHR 0xDD) (CHR 0x86)]),
      (CU (CHR 0xDD) (CHR 0xAE), [CU (CHR 0xD8) (CHR 0x01), CU (CHR 0xDD) (CHR 0x87)]), (CU (CHR 0xDD) (CHR 0xAF), [CU (CHR 0xD8) (CHR 0x01), CU (CHR 0xDD) (CHR 0x88)]),
      (CU (CHR 0xDD) (CHR 0xB0), [CU (CHR 0xD8) (CHR 0x01), CU (CHR 0xDD) (CHR 0x89)]), (CU (CHR 0xDD) (CHR 0xB1), [CU (CHR 0xD8) (CHR 0x01), CU (CHR 0xDD) (CHR 0x8A)]),
      (CU (CHR 0xDD) (CHR 0xB3), [CU (CHR 0xD8) (CHR 0x01), CU (CHR 0xDD) (CHR 0x8C)]), (CU (CHR 0xDD) (CHR 0xB4), [CU (CHR 0xD8) (CHR 0x01), CU (CHR 0xDD) (CHR 0x8D)]),
      (CU (CHR 0xDD) (CHR 0xB5), [CU (CHR 0xD8) (CHR 0x01), CU (CHR 0xDD) (CHR 0x8E)]), (CU (CHR 0xDD) (CHR 0xB6), [CU (CHR 0xD8) (CHR 0x01), CU (CHR 0xDD) (CHR 0x8F)]),
      (CU (CHR 0xDD) (CHR 0xB7), [CU (CHR 0xD8) (CHR 0x01), CU (CHR 0xDD) (CHR 0x90)]), (CU (CHR 0xDD) (CHR 0xB8), [CU (CHR 0xD8) (CHR 0x01), CU (CHR 0xDD) (CHR 0x91)]),
      (CU (CHR 0xDD) (CHR 0xB9), [CU (CHR 0xD8) (CHR 0x01), CU (CHR 0xDD) (CHR 0x92)]), (CU (CHR 0xDD) (CHR 0xBB), [CU (CHR 0xD8) (CHR 0x01), CU (CHR 0xDD) (CHR 0x94)]),
      (CU (CHR 0xDD) (CHR 0xBC), [CU (CHR 0xD8) (CHR 0x01), CU (CHR 0xDD) (CHR 0x95)])]"

definition upper_pairs_D803 :: "(cu \<times> jstring) list" where
  "upper_pairs_D803 =
     [(CU (CHR 0xDC) (CHR 0xC0), [CU (CHR 0xD8) (CHR 0x03), CU (CHR 0xDC) (CHR 0x80)]), (CU (CHR 0xDC) (CHR 0xC1), [CU (CHR 0xD8) (CHR 0x03), CU (CHR 0xDC) (CHR 0x81)]),
      (CU (CHR 0xDC) (CHR 0xC2), [CU (CHR 0xD8) (CHR 0x03), CU (CHR 0xDC) (CHR 0x82)]), (CU (CHR 0xDC) (CHR 0xC3), [CU (CHR 0xD8) (CHR 0x03), CU (CHR 0xDC) (CHR 0x83)]),
      (CU (CHR 0xDC) (CHR 0xC4), [CU (CHR 0xD8) (CHR 0x03), CU (CHR 0xDC) (CHR 0x84)]), (CU (CHR 0xDC) (CHR 0xC5), [CU (CHR 0xD8) (CHR 0x03), CU (CHR 0xDC) (CHR 0x85)]),
      (CU (CHR 0xDC) (CHR 0xC6), [CU (CHR 0xD8) (CHR 0x03), CU (CHR 0xDC) (CHR 0x86)]), (CU (CHR 0xDC) (CHR 0xC7), [CU (CHR 0xD8) (CHR 0x03), CU (CHR 0xDC) (CHR 0x87)]),
      (CU (CHR 0xDC) (CHR 0xC8), [CU (CHR 0xD8) (CHR 0x03), CU (CHR 0xDC) (CHR 0x88)]), (CU (CHR 0xDC) (CHR 0xC9), [CU (CHR 0xD8) (CHR 0x03), CU (CHR 0xDC) (CHR 0x89)]),
      (CU (CHR 0xDC) (CHR 0xCA), [CU (CHR 0xD8) (CHR 0x03), CU (CHR 0xDC) (CHR 0x8A)]), (CU (CHR 0xDC) (CHR 0xCB), [CU (CHR 0xD8) (CHR 0x03), CU (CHR 0xDC) (CHR 0x8B)]),
      (CU (CHR 0xDC) (CHR 0xCC), [CU (CHR 0xD8) (CHR 0x03), CU (CHR 0xDC) (CHR 0x8C)]), (CU (CHR 0xDC) (CHR 0xCD), [CU (CHR 0xD8) (CHR 0x03), CU (CHR 0xDC) (CHR 0x8D)]),
      (CU (CHR 0xDC) (CHR 0xCE), [CU (CHR 0xD8) (CHR 0x03), CU (CHR 0xDC) (CHR 0x8E)]), (CU (CHR 0xDC) (CHR 0xCF), [CU (CHR 0xD8) (CHR 0x03), CU (CHR 0xDC) (CHR 0x8F)]),
      (CU (CHR 0xDC) (CHR 0xD0), [CU (CHR 0xD8) (CHR 0x03), CU (CHR 0xDC) (CHR 0x90)]), (CU (CHR 0xDC) (CHR 0xD1), [CU (CHR 0xD8) (CHR 0x03), CU (CHR 0xDC) (CHR 0x91)]),
      (CU (CHR 0xDC) (CHR 0xD2), [CU (CHR 0xD8) (CHR 0x03), CU (CHR 0xDC) (CHR 0x92)]), (CU (CHR 0xDC) (CHR 0xD3), [CU (CHR 0xD8) (CHR 0x03), CU (CHR 0xDC) (CHR 0x93)]),
      (CU (CHR 0xDC) (CHR 0xD4), [CU (CHR 0xD8) (CHR 0x03), CU (CHR 0xDC) (CHR 0x94)]), (CU (CHR 0xDC) (CHR 0xD5), [CU (CHR 0xD8) (CHR 0x03), CU (CHR 0xDC) (CHR 0x95)]),
      (CU (CHR 0xDC) (CHR 0xD6), [CU (CHR 0xD8) (CHR 0x03), CU (CHR 0xDC) (CHR 0x96)]), (CU (CHR 0xDC) (CHR 0xD7), [CU (CHR 0xD8) (CHR 0x03), CU (CHR 0xDC) (CHR 0x97)]),
      (CU (CHR 0xDC) (CHR 0xD8), [CU (CHR 0xD8) (CHR 0x03), CU (CHR 0xDC) (CHR 0x98)]), (CU (CHR 0xDC) (CHR 0xD9), [CU (CHR 0xD8) (CHR 0x03), CU (CHR 0xDC) (CHR 0x99)]),
      (CU (CHR 0xDC) (CHR 0xDA), [CU (CHR 0xD8) (CHR 0x03), CU (CHR 0xDC) (CHR 0x9A)]), (CU (CHR 0xDC) (CHR 0xDB), [CU (CHR 0xD8) (CHR 0x03), CU (CHR 0xDC) (CHR 0x9B)]),
      (CU (CHR 0xDC) (CHR 0xDC), [CU (CHR 0xD8) (CHR 0x03), CU (CHR 0xDC) (CHR 0x9C)]), (CU (CHR 0xDC) (CHR 0xDD), [CU (CHR 0xD8) (CHR 0x03), CU (CHR 0xDC) (CHR 0x9D)]),
      (CU (CHR 0xDC) (CHR 0xDE), [CU (CHR 0xD8) (CHR 0x03), CU (CHR 0xDC) (CHR 0x9E)]), (CU (CHR 0xDC) (CHR 0xDF), [CU (CHR 0xD8) (CHR 0x03), CU (CHR 0xDC) (CHR 0x9F)]),
      (CU (CHR 0xDC) (CHR 0xE0), [CU (CHR 0xD8) (CHR 0x03), CU (CHR 0xDC) (CHR 0xA0)]), (CU (CHR 0xDC) (CHR 0xE1), [CU (CHR 0xD8) (CHR 0x03), CU (CHR 0xDC) (CHR 0xA1)]),
      (CU (CHR 0xDC) (CHR 0xE2), [CU (CHR 0xD8) (CHR 0x03), CU (CHR 0xDC) (CHR 0xA2)]), (CU (CHR 0xDC) (CHR 0xE3), [CU (CHR 0xD8) (CHR 0x03), CU (CHR 0xDC) (CHR 0xA3)]),
      (CU (CHR 0xDC) (CHR 0xE4), [CU (CHR 0xD8) (CHR 0x03), CU (CHR 0xDC) (CHR 0xA4)]), (CU (CHR 0xDC) (CHR 0xE5), [CU (CHR 0xD8) (CHR 0x03), CU (CHR 0xDC) (CHR 0xA5)]),
      (CU (CHR 0xDC) (CHR 0xE6), [CU (CHR 0xD8) (CHR 0x03), CU (CHR 0xDC) (CHR 0xA6)]), (CU (CHR 0xDC) (CHR 0xE7), [CU (CHR 0xD8) (CHR 0x03), CU (CHR 0xDC) (CHR 0xA7)]),
      (CU (CHR 0xDC) (CHR 0xE8), [CU (CHR 0xD8) (CHR 0x03), CU (CHR 0xDC) (CHR 0xA8)]), (CU (CHR 0xDC) (CHR 0xE9), [CU (CHR 0xD8) (CHR 0x03), CU (CHR 0xDC) (CHR 0xA9)]),
      (CU (CHR 0xDC) (CHR 0xEA), [CU (CHR 0xD8) (CHR 0x03), CU (CHR 0xDC) (CHR 0xAA)]), (CU (CHR 0xDC) (CHR 0xEB), [CU (CHR 0xD8) (CHR 0x03), CU (CHR 0xDC) (CHR 0xAB)]),
      (CU (CHR 0xDC) (CHR 0xEC), [CU (CHR 0xD8) (CHR 0x03), CU (CHR 0xDC) (CHR 0xAC)]), (CU (CHR 0xDC) (CHR 0xED), [CU (CHR 0xD8) (CHR 0x03), CU (CHR 0xDC) (CHR 0xAD)]),
      (CU (CHR 0xDC) (CHR 0xEE), [CU (CHR 0xD8) (CHR 0x03), CU (CHR 0xDC) (CHR 0xAE)]), (CU (CHR 0xDC) (CHR 0xEF), [CU (CHR 0xD8) (CHR 0x03), CU (CHR 0xDC) (CHR 0xAF)]),
      (CU (CHR 0xDC) (CHR 0xF0), [CU (CHR 0xD8) (CHR 0x03), CU (CHR 0xDC) (CHR 0xB0)]), (CU (CHR 0xDC) (CHR 0xF1), [CU (CHR 0xD8) (CHR 0x03), CU (CHR 0xDC) (CHR 0xB1)]),
      (CU (CHR 0xDC) (CHR 0xF2), [CU (CHR 0xD8) (CHR 0x03), CU (CHR 0xDC) (CHR 0xB2)])]"

definition upper_pairs_D806 :: "(cu \<times> jstring) list" where
  "upper_pairs_D806 =
     [(CU (CHR 0xDC) (CHR 0xC0), [CU (CHR 0xD8) (CHR 0x06), CU (CHR 0xDC) (CHR 0xA0)]), (CU (CHR 0xDC) (CHR 0xC1), [CU (CHR 0xD8) (CHR 0x06), CU (CHR 0xDC) (CHR 0xA1)]),
      (CU (CHR 0xDC) (CHR 0xC2), [CU (CHR 0xD8) (CHR 0x06), CU (CHR 0xDC) (CHR 0xA2)]), (CU (CHR 0xDC) (CHR 0xC3), [CU (CHR 0xD8) (CHR 0x06), CU (CHR 0xDC) (CHR 0xA3)]),
      (CU (CHR 0xDC) (CHR 0xC4), [CU (CHR 0xD8) (CHR 0x06), CU (CHR 0xDC) (CHR 0xA4)]), (CU (CHR 0xDC) (CHR 0xC5), [CU (CHR 0xD8) (CHR 0x06), CU (CHR 0xDC) (CHR 0xA5)]),
      (CU (CHR 0xDC) (CHR 0xC6), [CU (CHR 0xD8) (CHR 0x06), CU (CHR 0xDC) (CHR 0xA6)]), (CU (CHR 0xDC) (CHR 0xC7), [CU (CHR 0xD8) (CHR 0x06), CU (CHR 0xDC) (CHR 0xA7)]),
      (CU (CHR 0xDC) (CHR 0xC8), [CU (CHR 0xD8) (CHR 0x06), CU (CHR 0xDC) (CHR 0xA8)]), (CU (CHR 0xDC) (CHR 0xC9), [CU (CHR 0xD8) (CHR 0x06), CU (CHR 0xDC) (CHR 0xA9)]),
      (CU (CHR 0xDC) (CHR 0xCA), [CU (CHR 0xD8) (CHR 0x06), CU (CHR 0xDC) (CHR 0xAA)]), (CU (CHR 0xDC) (CHR 0xCB), [CU (CHR 0xD8) (CHR 0x06), CU (CHR 0xDC) (CHR 0xAB)]),
      (CU (CHR 0xDC) (CHR 0xCC), [CU (CHR 0xD8) (CHR 0x06), CU (CHR 0xDC) (CHR 0xAC)]), (CU (CHR 0xDC) (CHR 0xCD), [CU (CHR 0xD8) (CHR 0x06), CU (CHR 0xDC) (CHR 0xAD)]),
      (CU (CHR 0xDC) (CHR 0xCE), [CU (CHR 0xD8) (CHR 0x06), CU (CHR 0xDC) (CHR 0xAE)]), (CU (CHR 0xDC) (CHR 0xCF), [CU (CHR 0xD8) (CHR 0x06), CU (CHR 0xDC) (CHR 0xAF)]),
      (CU (CHR 0xDC) (CHR 0xD0), [CU (CHR 0xD8) (CHR 0x06), CU (CHR 0xDC) (CHR 0xB0)]), (CU (CHR 0xDC) (CHR 0xD1), [CU (CHR 0xD8) (CHR 0x06), CU (CHR 0xDC) (CHR 0xB1)]),
      (CU (CHR 0xDC) (CHR 0xD2), [CU (CHR 0xD8) (CHR 0x06), CU (CHR 0xDC) (CHR 0xB2)]), (CU (CHR 0xDC) (CHR 0xD3), [CU (CHR 0xD8) (CHR 0x06), CU (CHR 0xDC) (CHR 0xB3)]),
      (CU (CHR 0xDC) (CHR 0xD4), [CU (CHR 0xD8) (CHR 0x06), CU (CHR 0xDC) (CHR 0xB4)]), (CU (CHR 0xDC) (CHR 0xD5), [CU (CHR 0xD8) (CHR 0x06), CU (CHR 0xDC) (CHR 0xB5)]),
      (CU (CHR 0xDC) (CHR 0xD6), [CU (CHR 0xD8) (CHR 0x06), CU (CHR 0xDC) (CHR 0xB6)]), (CU (CHR 0xDC) (CHR 0xD7), [CU (CHR 0xD8) (CHR 0x06), CU (CHR 0xDC) (CHR 0xB7)]),
      (CU (CHR 0xDC) (CHR 0xD8), [CU (CHR 0xD8) (CHR 0x06), CU (CHR 0xDC) (CHR 0xB8)]), (CU (CHR 0xDC) (CHR 0xD9), [CU (CHR 0xD8) (CHR 0x06), CU (CHR 0xDC) (CHR 0xB9)]),
      (CU (CHR 0xDC) (CHR 0xDA), [CU (CHR 0xD8) (CHR 0x06), CU (CHR 0xDC) (CHR 0xBA)]), (CU (CHR 0xDC) (CHR 0xDB), [CU (CHR 0xD8) (CHR 0x06), CU (CHR 0xDC) (CHR 0xBB)]),
      (CU (CHR 0xDC) (CHR 0xDC), [CU (CHR 0xD8) (CHR 0x06), CU (CHR 0xDC) (CHR 0xBC)]), (CU (CHR 0xDC) (CHR 0xDD), [CU (CHR 0xD8) (CHR 0x06), CU (CHR 0xDC) (CHR 0xBD)]),
      (CU (CHR 0xDC) (CHR 0xDE), [CU (CHR 0xD8) (CHR 0x06), CU (CHR 0xDC) (CHR 0xBE)]), (CU (CHR 0xDC) (CHR 0xDF), [CU (CHR 0xD8) (CHR 0x06), CU (CHR 0xDC) (CHR 0xBF)])]"

definition upper_pairs_D81B :: "(cu \<times> jstring) list" where
  "upper_pairs_D81B =
     [(CU (CHR 0xDE) (CHR 0x60), [CU (CHR 0xD8) (CHR 0x1B), CU (CHR 0xDE) (CHR 0x40)]), (CU (CHR 0xDE) (CHR 0x61), [CU (CHR 0xD8) (CHR 0x1B), CU (CHR 0xDE) (CHR 0x41)]),
      (CU (CHR 0xDE) (CHR 0x62), [CU (CHR 0xD8) (CHR 0x1B), CU (CHR 0xDE) (CHR 0x42)]), (CU (CHR 0xDE) (CHR 0x63), [CU (CHR 0xD8) (CHR 0x1B), CU (CHR 0xDE) (CHR 0x43)]),
      (CU (CHR 0xDE) (CHR 0x64), [CU (CHR 0xD8) (CHR 0x1B), CU (CHR 0xDE) (CHR 0x44)]), (CU (CHR 0xDE) (CHR 0x65), [CU (CHR 0xD8) (CHR 0x1B), CU (CHR 0xDE) (CHR 0x45)]),
      (CU (CHR 0xDE) (CHR 0x66), [CU (CHR 0xD8) (CHR 0x1B), CU (CHR 0xDE) (CHR 0x46)]), (CU (CHR 0xDE) (CHR 0x67), [CU (CHR 0xD8) (CHR 0x1B), CU (CHR 0xDE) (CHR 0x47)]),
      (CU (CHR 0xDE) (CHR 0x68), [CU (CHR 0xD8) (CHR 0x1B), CU (CHR 0xDE) (CHR 0x48)]), (CU (CHR 0xDE) (CHR 0x69), [CU (CHR 0xD8) (CHR 0x1B), CU (CHR 0xDE) (CHR 0x49)]),
      (CU (CHR 0xDE) (CHR 0x6A), [CU (CHR 0xD8) (CHR 0x1B), CU (CHR 0xDE) (CHR 0x4A)]), (CU (CHR 0xDE) (CHR 0x6B), [CU (CHR 0xD8) (CHR 0x1B), CU (CHR 0xDE) (CHR 0x4B)]),
      (CU (CHR 0xDE) (CHR 0x6C), [CU (CHR 0xD8) (CHR 0x1B), CU (CHR 0xDE) (CHR 0x4C)]), (CU (CHR 0xDE) (CHR 0x6D), [CU (CHR 0xD8) (CHR 0x1B), CU (CHR 0xDE) (CHR 0x4D)]),
      (CU (CHR 0xDE) (CHR 0x6E), [CU (CHR 0xD8) (CHR 0x1B), CU (CHR 0xDE) (CHR 0x4E)]), (CU (CHR 0xDE) (CHR 0x6F), [CU (CHR 0xD8) (CHR 0x1B), CU (CHR 0xDE) (CHR 0x4F)]),
      (CU (CHR 0xDE) (CHR 0x70), [CU (CHR 0xD8) (CHR 0x1B), CU (CHR 0xDE) (CHR 0x50)]), (CU (CHR 0xDE) (CHR 0x71), [CU (CHR 0xD8) (CHR 0x1B), CU (CHR 0xDE) (CHR 0x51)]),
      (CU (CHR 0xDE) (CHR 0x72), [CU (CHR 0xD8) (CHR 0x1B), CU (CHR 0xDE) (CHR 0x52)]), (CU (CHR 0xDE) (CHR 0x73), [CU (CHR 0xD8) (CHR 0x1B), CU (CHR 0xDE) (CHR 0x53)]),
      (CU (CHR 0xDE) (CHR 0x74), [CU (CHR 0xD8) (CHR 0x1B), CU (CHR 0xDE) (CHR 0x54)]), (CU (CHR 0xDE) (CHR 0x75), [CU (CHR 0xD8) (CHR 0x1B), CU (CHR 0xDE) (CHR 0x55)]),
      (CU (CHR 0xDE) (CHR 0x76), [CU (CHR 0xD8) (CHR 0x1B), CU (CHR 0xDE) (CHR 0x56)]), (CU (CHR 0xDE) (CHR 0x77), [CU (CHR 0xD8) (CHR 0x1B), CU (CHR 0xDE) (CHR 0x57)]),
      (CU (CHR 0xDE) (CHR 0x78), [CU (CHR 0xD8) (CHR 0x1B), CU (CHR 0xDE) (CHR 0x58)]), (CU (CHR 0xDE) (CHR 0x79), [CU (CHR 0xD8) (CHR 0x1B), CU (CHR 0xDE) (CHR 0x59)]),
      (CU (CHR 0xDE) (CHR 0x7A), [CU (CHR 0xD8) (CHR 0x1B), CU (CHR 0xDE) (CHR 0x5A)]), (CU (CHR 0xDE) (CHR 0x7B), [CU (CHR 0xD8) (CHR 0x1B), CU (CHR 0xDE) (CHR 0x5B)]),
      (CU (CHR 0xDE) (CHR 0x7C), [CU (CHR 0xD8) (CHR 0x1B), CU (CHR 0xDE) (CHR 0x5C)]), (CU (CHR 0xDE) (CHR 0x7D), [CU (CHR 0xD8) (CHR 0x1B), CU (CHR 0xDE) (CHR 0x5D)]),
      (CU (CHR 0xDE) (CHR 0x7E), [CU (CHR 0xD8) (CHR 0x1B), CU (CHR 0xDE) (CHR 0x5E)]), (CU (CHR 0xDE) (CHR 0x7F), [CU (CHR 0xD8) (CHR 0x1B), CU (CHR 0xDE) (CHR 0x5F)])]"

definition upper_pairs_D83A :: "(cu \<times> jstring) list" where
  "upper_pairs_D83A =
     [(CU (CHR 0xDD) (CHR 0x22), [CU (CHR 0xD8) (CHR 0x3A), CU (CHR 0xDD) (CHR 0x00)]), (CU (CHR 0xDD) (CHR 0x23), [CU (CHR 0xD8) (CHR 0x3A), CU (CHR 0xDD) (CHR 0x01)]),
      (CU (CHR 0xDD) (CHR 0x24), [CU (CHR 0xD8) (CHR 0x3A), CU (CHR 0xDD) (CHR 0x02)]), (CU (CHR 0xDD) (CHR 0x25), [CU (CHR 0xD8) (CHR 0x3A), CU (CHR 0xDD) (CHR 0x03)]),
      (CU (CHR 0xDD) (CHR 0x26), [CU (CHR 0xD8) (CHR 0x3A), CU (CHR 0xDD) (CHR 0x04)]), (CU (CHR 0xDD) (CHR 0x27), [CU (CHR 0xD8) (CHR 0x3A), CU (CHR 0xDD) (CHR 0x05)]),
      (CU (CHR 0xDD) (CHR 0x28), [CU (CHR 0xD8) (CHR 0x3A), CU (CHR 0xDD) (CHR 0x06)]), (CU (CHR 0xDD) (CHR 0x29), [CU (CHR 0xD8) (CHR 0x3A), CU (CHR 0xDD) (CHR 0x07)]),
      (CU (CHR 0xDD) (CHR 0x2A), [CU (CHR 0xD8) (CHR 0x3A), CU (CHR 0xDD) (CHR 0x08)]), (CU (CHR 0xDD) (CHR 0x2B), [CU (CHR 0xD8) (CHR 0x3A), CU (CHR 0xDD) (CHR 0x09)]),
      (CU (CHR 0xDD) (CHR 0x2C), [CU (CHR 0xD8) (CHR 0x3A), CU (CHR 0xDD) (CHR 0x0A)]), (CU (CHR 0xDD) (CHR 0x2D), [CU (CHR 0xD8) (CHR 0x3A), CU (CHR 0xDD) (CHR 0x0B)]),
      (CU (CHR 0xDD) (CHR 0x2E), [CU (CHR 0xD8) (CHR 0x3A), CU (CHR 0xDD) (CHR 0x0C)]), (CU (CHR 0xDD) (CHR 0x2F), [CU (CHR 0xD8) (CHR 0x3A), CU (CHR 0xDD) (CHR 0x0D)]),
      (CU (CHR 0xDD) (CHR 0x30), [CU (CHR 0xD8) (CHR 0x3A), CU (CHR 0xDD) (CHR 0x0E)]), (CU (CHR 0xDD) (CHR 0x31), [CU (CHR 0xD8) (CHR 0x3A), CU (CHR 0xDD) (CHR 0x0F)]),
      (CU (CHR 0xDD) (CHR 0x32), [CU (CHR 0xD8) (CHR 0x3A), CU (CHR 0xDD) (CHR 0x10)]), (CU (CHR 0xDD) (CHR 0x33), [CU (CHR 0xD8) (CHR 0x3A), CU (CHR 0xDD) (CHR 0x11)]),
      (CU (CHR 0xDD) (CHR 0x34), [CU (CHR 0xD8) (CHR 0x3A), CU (CHR 0xDD) (CHR 0x12)]), (CU (CHR 0xDD) (CHR 0x35), [CU (CHR 0xD8) (CHR 0x3A), CU (CHR 0xDD) (CHR 0x13)]),
      (CU (CHR 0xDD) (CHR 0x36), [CU (CHR 0xD8) (CHR 0x3A), CU (CHR 0xDD) (CHR 0x14)]), (CU (CHR 0xDD) (CHR 0x37), [CU (CHR 0xD8) (CHR 0x3A), CU (CHR 0xDD) (CHR 0x15)]),
      (CU (CHR 0xDD) (CHR 0x38), [CU (CHR 0xD8) (CHR 0x3A), CU (CHR 0xDD) (CHR 0x16)]), (CU (CHR 0xDD) (CHR 0x39), [CU (CHR 0xD8) (CHR 0x3A), CU (CHR 0xDD) (CHR 0x17)]),
      (CU (CHR 0xDD) (CHR 0x3A), [CU (CHR 0xD8) (CHR 0x3A), CU (CHR 0xDD) (CHR 0x18)]), (CU (CHR 0xDD) (CHR 0x3B), [CU (CHR 0xD8) (CHR 0x3A), CU (CHR 0xDD) (CHR 0x19)]),
      (CU (CHR 0xDD) (CHR 0x3C), [CU (CHR 0xD8) (CHR 0x3A), CU (CHR 0xDD) (CHR 0x1A)]), (CU (CHR 0xDD) (CHR 0x3D), [CU (CHR 0xD8) (CHR 0x3A), CU (CHR 0xDD) (CHR 0x1B)]),
      (CU (CHR 0xDD) (CHR 0x3E), [CU (CHR 0xD8) (CHR 0x3A), CU (CHR 0xDD) (CHR 0x1C)]), (CU (CHR 0xDD) (CHR 0x3F), [CU (CHR 0xD8) (CHR 0x3A), CU (CHR 0xDD) (CHR 0x1D)]),
      (CU (CHR 0xDD) (CHR 0x40), [CU (CHR 0xD8) (CHR 0x3A), CU (CHR 0xDD) (CHR 0x1E)]), (CU (CHR 0xDD) (CHR 0x41), [CU (CHR 0xD8) (CHR 0x3A), CU (CHR 0xDD) (CHR 0x1F)]),
      (CU (CHR 0xDD) (CHR 0x42), [CU (CHR 0xD8) (CHR 0x3A), CU (CHR 0xDD) (CHR 0x20)]), (CU (CHR 0xDD) (CHR 0x43), [CU (CHR 0xD8) (CHR 0x3A), CU (CHR 0xDD) (CHR 0x21)])]"

definition upper_astral :: "cu \<Rightarrow> (cu \<times> jstring) list" where
  "upper_astral h =
     (if h = CU (CHR 0xD8) (CHR 0x01) then upper_pairs_D801
      else if h = CU (CHR 0xD8) (CHR 0x03) then upper_pairs_D803
      else if h = CU (CHR 0xD8) (CHR 0x06) then upper_pairs_D806
      else if h = CU (CHR 0xD8) (CHR 0x1B) then upper_pairs_D81B
      else if h = CU (CHR 0xD8) (CHR 0x3A) then upper_pairs_D83A
      else [])"


fun is_ascii :: "cu \<Rightarrow> bool" where
  "is_ascii (CU h l) = (h = CHR 0x00 \<and> \<not> digit7 l)"

fun is_high_surrogate :: "cu \<Rightarrow> bool" where
  "is_high_surrogate (CU h l) = (h \<in> set [CHR 0xD8, CHR 0xD9, CHR 0xDA, CHR 0xDB])"

fun is_low_surrogate :: "cu \<Rightarrow> bool" where
  "is_low_surrogate (CU h l) = (h \<in> set [CHR 0xDC, CHR 0xDD, CHR 0xDE, CHR 0xDF])"

text \<open>The upper-case mapping of a code point below \<^verbatim>\<open>U+10000\<close>, given as its code unit.\<close>

fun upper_unit :: "cu \<Rightarrow> jstring" where
  "upper_unit (CU h l) =
     (if is_ascii (CU h l) then [CU h (ascii_upper l)]
      else case map_of (upper_bmp h) l of Some v \<Rightarrow> v | None \<Rightarrow> [CU h l])"

fun toUpperCase :: "jstring \<Rightarrow> jstring" where
  "toUpperCase [] = []"
| "toUpperCase [u] = upper_unit u"
| "toUpperCase (h # l # s) =
     (if is_high_surrogate h \<and> is_low_surrogate l
      then (case map_of (upper_astral h) l of Some v \<Rightarrow> v | None \<Rightarrow> [h, l]) @ toUpperCase s
      else upper_unit h @ toUpperCase (l # s))"

text \<open>
  The \<^verbatim>\<open>Canonicalize\<close> operation of a regular expression with the \<^verbatim>\<open>i\<close> flag (and without the
  \<^verbatim>\<open>u\<close> flag): a code unit is replaced by its upper-case mapping when that is a single code
  unit, except that a code unit outside ASCII is never replaced by an ASCII one. Two
  code units match when they have the same image.
\<close>

definition canon :: "cu \<Rightarrow> cu" where
  "canon ch =
     (case upper_unit ch of
        [u] \<Rightarrow> if \<not> is_ascii ch \<and> is_ascii u then ch else u
      | _ \<Rightarrow> ch)"

definition trim :: "jstring \<Rightarrow> jstring" where
  "trim s = rev (dropWhile is_space (rev (dropWhile is_space s)))"

definition startsWith :: "jstring \<Rightarrow> jstring \<Rightarrow> bool" where
  "startsWith s pre = prefix pre s"

text \<open>\<^verbatim>\<open>Array.prototype.join\<close> on an array of strings.\<close>

fun joinWith :: "jstring \<Rightarrow> jstring list \<Rightarrow> jstring" where
  "joinWith sep [] = []"
| "joinWith sep [x] = x"
| "joinWith sep (x # y # ys) = x @ sep @ joinWith sep (y # ys)"

text \<open>The glyphs of the output: \<^verbatim>\<open>U+00D7\<close>, \<^verbatim>\<open>U+03B3\<close>, \<^verbatim>\<open>U+03C0\<close>, \<^verbatim>\<open>U+03C3\<close>, \<^verbatim>\<open>U+03C4\<close>, \<^verbatim>\<open>U+2227\<close>,
  \<^verbatim>\<open>U+22C8\<close>, \<^verbatim>\<open>U+27D5\<close>, \<^verbatim>\<open>U+27D6\<close> and \<^verbatim>\<open>U+27D7\<close>.\<close>

definition sym_times :: jstring where "sym_times = [CU (CHR 0x00) (CHR 0xD7)]"
definition sym_gamma :: jstring where "sym_gamma = [CU (CHR 0x03) (CHR 0xB3)]"
definition sym_pi :: jstring where "sym_pi = [CU (CHR 0x03) (CHR 0xC0)]"
definition sym_sigma :: jstring where "sym_sigma = [CU (CHR 0x03) (CHR 0xC3)]"
definition sym_tau :: jstring where "sym_tau = [CU (CHR 0x03) (CHR 0xC4)]"
definition sym_and :: jstring where "sym_and = [CU (CHR 0x22) (CHR 0x27)]"
definition sym_join :: jstring where "sym_join = [CU (CHR 0x22) (CHR 0xC8)]"
definition sym_left_join :: jstring where "sym_left_join = [CU (CHR 0x27) (CHR 0xD5)]"
definition sym_right_join :: jstring where "sym_right_join = [CU (CHR 0x27) (CHR 0xD6)]"
definition sym_full_join :: jstring where "sym_full_join = [CU (CHR 0x27) (CHR 0xD7)]"

section \<open>Regular expressions with backtracking\<close>

text \<open>
  The extractor is written with JavaScript regular expressions, whose result depends on
  the order in which a backtracking matcher tries its choices (greedy and lazy
  quantifiers, the order of alternatives). The patterns are therefore kept as syntax
  trees, and \<open>ms\<close> returns every way a pattern matches at the current position, in the
  order in which the backtracking matcher would find them: the head of the list is the
  match JavaScript reports. Quantifiers occur in the source only on character classes
  (\<^verbatim>\<open>\s+\<close>, \<^verbatim>\<open>\w+\<close>, \<^verbatim>\<open>.+\<close>, \<^verbatim>\<open>.+?\<close>, \<^verbatim>\<open>.*\<close>, \<^verbatim>\<open>[^;]+?\<close>) and as \<^verbatim>\<open>(?:...)?\<close>.
\<close>

datatype cclass = Space | Word | Dot | NotSemi

fun in_class :: "cclass \<Rightarrow> cu \<Rightarrow> bool" where
  "in_class Space c = is_space c"
| "in_class Word c = is_word c"
| "in_class Dot c = (\<not> is_line_terminator c)"
| "in_class NotSemi c = (c \<noteq> semi)"

datatype regex =
    Eps
  | Lit jstring
  | Plus cclass
  | PlusLazy cclass
  | Star cclass
  | Seq regex regex
  | Alt regex regex
  | Opt regex
  | Cap nat regex
  | Ahead regex
  | Eos
  | Bos

text \<open>
  A matcher state: the index reached in the subject string, the capture groups bound
  so far, and the rest of the subject from that index on.
\<close>

type_synonym caps = "nat \<Rightarrow> jstring option"
type_synonym mstate = "nat \<times> caps \<times> jstring"

text \<open>A literal at the head of the subject; with the \<^verbatim>\<open>i\<close> flag two code units match when
  \<open>canon\<close> gives them the same image.\<close>

fun lit_prefix :: "bool \<Rightarrow> jstring \<Rightarrow> jstring \<Rightarrow> bool" where
  "lit_prefix ic [] s = True"
| "lit_prefix ic (a # l) [] = False"
| "lit_prefix ic (a # l) (b # s) =
     ((if ic then canon a = canon b else a = b) \<and> lit_prefix ic l s)"

definition advance :: "mstate \<Rightarrow> nat \<Rightarrow> mstate" where
  "advance st n = (case st of (p, c, s) \<Rightarrow> (p + n, c, drop n s))"

definition run :: "cclass \<Rightarrow> jstring \<Rightarrow> nat" where
  "run k s = length (takeWhile (in_class k) s)"

fun ms :: "bool \<Rightarrow> regex \<Rightarrow> mstate \<Rightarrow> mstate list" where
  "ms ic Eps st = [st]"
| "ms ic (Lit l) (p, c, s) =
     (if lit_prefix ic l s then [advance (p, c, s) (length l)] else [])"
| "ms ic (Plus k) (p, c, s) = map (advance (p, c, s)) (rev [1 ..< Suc (run k s)])"
| "ms ic (PlusLazy k) (p, c, s) = map (advance (p, c, s)) [1 ..< Suc (run k s)]"
| "ms ic (Star k) (p, c, s) = map (advance (p, c, s)) (rev [0 ..< Suc (run k s)])"
| "ms ic (Seq a b) st = concat (map (ms ic b) (ms ic a st))"
| "ms ic (Alt a b) st = ms ic a st @ ms ic b st"
| "ms ic (Opt a) st = ms ic a st @ [st]"
| "ms ic (Cap n a) (p, c, s) =
     map (\<lambda>(p', c', s'). (p', c'(n \<mapsto> take (p' - p) s), s')) (ms ic a (p, c, s))"
| "ms ic (Ahead a) (p, c, s) =
     (case ms ic a (p, c, s) of [] \<Rightarrow> [] | (p', c', s') # _ \<Rightarrow> [(p, c', s)])"
| "ms ic Eos (p, c, s) = (if s = [] then [(p, c, s)] else [])"
| "ms ic Bos (p, c, s) = (if p = 0 then [(p, c, s)] else [])"

text \<open>Concatenation and alternation of several patterns, in the order written.\<close>

fun cat :: "regex list \<Rightarrow> regex" where
  "cat [] = Eps"
| "cat [r] = r"
| "cat (r # rs) = Seq r (cat rs)"

fun alt :: "regex list \<Rightarrow> regex" where
  "alt [] = Eps"
| "alt [r] = r"
| "alt (r # rs) = Alt r (alt rs)"

text \<open>
  The result of \<^verbatim>\<open>String.prototype.match\<close> without the \<^verbatim>\<open>g\<close> flag: the index of the match,
  the matched text (element 0), the capture groups (elements 1, 2, ...; a group that
  did not take part is \<^verbatim>\<open>undefined\<close>, here \<open>None\<close>), and the subject after the match.
\<close>

record rmatch =
  m_index :: nat
  m_text :: jstring
  m_caps :: caps
  m_rest :: jstring

text \<open>The leftmost match from index \<open>p\<close> on, where \<open>s\<close> is the subject from \<open>p\<close>.\<close>

fun search_from :: "bool \<Rightarrow> regex \<Rightarrow> nat \<Rightarrow> jstring \<Rightarrow> rmatch option" where
  "search_from ic r p s =
     (case ms ic r (p, Map.empty, s) of
        (e, c, rest) # _ \<Rightarrow>
          Some \<lparr>m_index = p, m_text = take (e - p) s, m_caps = c, m_rest = rest\<rparr>
      | [] \<Rightarrow> (case s of [] \<Rightarrow> None | _ # s' \<Rightarrow> search_from ic r (Suc p) s'))"

definition re_match :: "bool \<Rightarrow> regex \<Rightarrow> jstring \<Rightarrow> rmatch option" where
  "re_match ic r s = search_from ic r 0 s"

text \<open>\<^verbatim>\<open>String.prototype.replace\<close> with a pattern without the \<^verbatim>\<open>g\<close> flag.\<close>

definition re_replace :: "bool \<Rightarrow> regex \<Rightarrow> jstring \<Rightarrow> jstring \<Rightarrow> jstring" where
  "re_replace ic r rep s =
     (case re_match ic r s of
        None \<Rightarrow> s
      | Some m \<Rightarrow> take (m_index m) s @ rep @ m_rest m)"

text \<open>
  \<^verbatim>\<open>String.prototype.match\<close> with the \<^verbatim>\<open>g\<close> flag: the texts of all matches, left to
  right, each search starting where the previous match ended (one character further
  after an empty match). JavaScript returns \<^verbatim>\<open>null\<close> where this list is empty.
\<close>

fun match_all :: "bool \<Rightarrow> regex \<Rightarrow> nat \<Rightarrow> jstring \<Rightarrow> jstring list" where
  "match_all ic r p [] = (case ms ic r (p, Map.empty, []) of [] \<Rightarrow> [] | _ # _ \<Rightarrow> [[]])"
| "match_all ic r p (x # s) =
     (case ms ic r (p, Map.empty, x # s) of
        [] \<Rightarrow> match_all ic r (Suc p) s
      | (e, c, rest) # _ \<Rightarrow>
          if p < e then take (e - p) (x # s) # match_all ic r e (drop (e - p) (x # s))
          else [] # match_all ic r (Suc p) s)"

text \<open>\<^verbatim>\<open>String.prototype.replace\<close> with the \<^verbatim>\<open>g\<close> flag and a replacement text without
  \<^verbatim>\<open>$\<close>.\<close>

fun replace_all :: "bool \<Rightarrow> regex \<Rightarrow> jstring \<Rightarrow> nat \<Rightarrow> jstring \<Rightarrow> jstring" where
  "replace_all ic r rep p [] = (case ms ic r (p, Map.empty, []) of [] \<Rightarrow> [] | _ # _ \<Rightarrow> rep)"
| "replace_all ic r rep p (x # s) =
     (case ms ic r (p, Map.empty, x # s) of
        [] \<Rightarrow> x # replace_all ic r rep (Suc p) s
      | (e, c, rest) # _ \<Rightarrow>
          if p < e then rep @ replace_all ic r rep e (drop (e - p) (x # s))
          else rep @ x # replace_all ic r rep (Suc p) s)"

text \<open>
  \<^verbatim>\<open>String.prototype.split\<close> with a separator pattern without capture groups (and, for
  a separator string such as \<^verbatim>\<open>","\<close>, with its literal). \<open>q\<close> is the index tried, \<open>cur\<close>
  the text since the last cut; a separator found at \<open>q\<close> cuts unless it is empty and
  \<open>cur\<close> is empty too.
\<close>

fun split_loop :: "bool \<Rightarrow> regex \<Rightarrow> nat \<Rightarrow> jstring \<Rightarrow> jstring \<Rightarrow> jstring list" where
  "split_loop ic r q cur [] = [cur]"
| "split_loop ic r q cur (x # s) =
     (case ms ic r (q, Map.empty, x # s) of
        [] \<Rightarrow> split_loop ic r (Suc q) (cur @ [x]) s
      | (e, c, rest) # _ \<Rightarrow>
          if q < e then cur # split_loop ic r e [] (drop (e - q) (x # s))
          else if cur = [] then split_loop ic r (Suc q) (cur @ [x]) s
          else cur # split_loop ic r q [] (x # s))"

definition split :: "bool \<Rightarrow> regex \<Rightarrow> jstring \<Rightarrow> jstring list" where
  "split ic r s =
     (if s = [] then (if ms ic r (0, Map.empty, []) = [] then [[]] else [])
      else split_loop ic r 0 [] s)"


section \<open>The patterns of the extractor\<close>

text \<open>\<^verbatim>\<open>\s+\<close> and the clause keywords made of two words.\<close>

definition ws :: regex where
  "ws = Plus Space"

definition groupByKw :: regex where
  "groupByKw = cat [Lit (str ''GROUP''), ws, Lit (str ''BY'')]"

definition orderByKw :: regex where
  "orderByKw = cat [Lit (str ''ORDER''), ws, Lit (str ''BY'')]"

text \<open>\<^verbatim>\<open>INNER\s+JOIN|LEFT\s+OUTER\s+JOIN|RIGHT\s+OUTER\s+JOIN|FULL\s+OUTER\s+JOIN|LEFT\s+JOIN|RIGHT\s+JOIN|FULL\s+JOIN|JOIN\<close>\<close>

definition joinKeywords :: "regex list" where
  "joinKeywords =
     [cat [Lit (str ''INNER''), ws, Lit (str ''JOIN'')],
      cat [Lit (str ''LEFT''), ws, Lit (str ''OUTER''), ws, Lit (str ''JOIN'')],
      cat [Lit (str ''RIGHT''), ws, Lit (str ''OUTER''), ws, Lit (str ''JOIN'')],
      cat [Lit (str ''FULL''), ws, Lit (str ''OUTER''), ws, Lit (str ''JOIN'')],
      cat [Lit (str ''LEFT''), ws, Lit (str ''JOIN'')],
      cat [Lit (str ''RIGHT''), ws, Lit (str ''JOIN'')],
      cat [Lit (str ''FULL''), ws, Lit (str ''JOIN'')],
      Lit (str ''JOIN'')]"

text \<open>\<^verbatim>\<open>/SELECT\s+(?:DISTINCT\s+)?(.+?)\s+FROM/i\<close>\<close>

definition selectRegex :: regex where
  "selectRegex =
     cat [Lit (str ''SELECT''), ws, Opt (cat [Lit (str ''DISTINCT''), ws]), Cap 1 (PlusLazy Dot), ws,
          Lit (str ''FROM'')]"

text \<open>\<^verbatim>\<open>/FROM\s+(.+?)(?:\s+WHERE|\s+JOIN|\s+GROUP\s+BY|\s+ORDER\s+BY|\s+HAVING|$)/i\<close>\<close>

definition fromRegex :: regex where
  "fromRegex =
     cat [Lit (str ''FROM''), ws, Cap 1 (PlusLazy Dot),
          alt [cat [ws, Lit (str ''WHERE'')], cat [ws, Lit (str ''JOIN'')], cat [ws, groupByKw],
               cat [ws, orderByKw], cat [ws, Lit (str ''HAVING'')], Eos]]"

text \<open>\<^verbatim>\<open>/WHERE\s+(.+?)(?:\s+GROUP\s+BY|\s+ORDER\s+BY|\s+HAVING|$)/i\<close>\<close>

definition whereRegex :: regex where
  "whereRegex =
     cat [Lit (str ''WHERE''), ws, Cap 1 (PlusLazy Dot),
          alt [cat [ws, groupByKw], cat [ws, orderByKw], cat [ws, Lit (str ''HAVING'')], Eos]]"

text \<open>The pattern \<^verbatim>\<open>joinRegex\<close> (flags \<^verbatim>\<open>gi\<close>): a join keyword, \<^verbatim>\<open>\s+(\w+)(?:\s+\w+)?\s+ON\s+([^;]+?)\<close>
  and the lookahead \<^verbatim>\<open>(?=\s+(?:\<close>join keyword\<^verbatim>\<open>|WHERE|GROUP\s+BY|ORDER\s+BY|HAVING|$))\<close>.\<close>

definition joinRegex :: regex where
  "joinRegex =
     cat [alt joinKeywords, ws, Cap 1 (Plus Word), Opt (cat [ws, Plus Word]), ws, Lit (str ''ON''), ws,
          Cap 2 (PlusLazy NotSemi),
          Ahead (cat [ws, alt (joinKeywords @ [Lit (str ''WHERE''), groupByKw, orderByKw, Lit (str ''HAVING''), Eos])])]"

text \<open>The pattern applied to each join match (flag \<^verbatim>\<open>i\<close>): a join keyword and
  \<^verbatim>\<open>\s+(\w+)(?:\s+\w+)?\s+ON\s+(.+)\<close>.\<close>

definition joinPartsRegex :: regex where
  "joinPartsRegex =
     cat [alt joinKeywords, ws, Cap 1 (Plus Word), Opt (cat [ws, Plus Word]), ws, Lit (str ''ON''), ws,
          Cap 2 (Plus Dot)]"

text \<open>The join keywords as one capture group (flag \<^verbatim>\<open>i\<close>).\<close>

definition joinTypeRegex :: regex where
  "joinTypeRegex = Cap 1 (alt joinKeywords)"

text \<open>\<^verbatim>\<open>/GROUP\s+BY\s+(.+?)(?:\s+HAVING|\s+ORDER\s+BY|$)/i\<close>\<close>

definition groupByRegex :: regex where
  "groupByRegex =
     cat [Lit (str ''GROUP''), ws, Lit (str ''BY''), ws, Cap 1 (PlusLazy Dot),
          alt [cat [ws, Lit (str ''HAVING'')], cat [ws, orderByKw], Eos]]"

text \<open>\<^verbatim>\<open>/ORDER\s+BY\s+(.+?)(?:;|$)/i\<close>\<close>

definition orderByRegex :: regex where
  "orderByRegex =
     cat [Lit (str ''ORDER''), ws, Lit (str ''BY''), ws, Cap 1 (PlusLazy Dot), alt [Lit (str '';''), Eos]]"

text \<open>\<^verbatim>\<open>/HAVING\s+(.+?)(?:\s+ORDER\s+BY|$)/i\<close>\<close>

definition havingRegex :: regex where
  "havingRegex =
     cat [Lit (str ''HAVING''), ws, Cap 1 (PlusLazy Dot), alt [cat [ws, orderByKw], Eos]]"

text \<open>\<^verbatim>\<open>/^.*\./\<close>, the table prefix of a column.\<close>

definition tablePrefixRegex :: regex where
  "tablePrefixRegex = cat [Bos, Star Dot, Lit (str ''.'')]"


section \<open>The clause extractor \<^verbatim>\<open>parseSQL\<close>\<close>

record join =
  type :: jstring
  table :: jstring
  condition :: jstring

record order_item =
  column :: jstring
  direction :: jstring

record ParsedQuery =
  operation :: jstring
  tables :: "jstring list"
  columns :: "jstring list"
  conditions :: "jstring list"
  joins :: "join list"
  groupBy :: "jstring list"
  orderBy :: "order_item list"
  having :: "jstring list"

text \<open>
  The body of \<^verbatim>\<open>parseSQL\<close> runs inside \<^verbatim>\<open>try { ... } catch (err) { return null; }\<close>.
  Its only possible exception is the \<^verbatim>\<open>TypeError\<close> of calling a method on a capture
  group that is \<^verbatim>\<open>undefined\<close>; in the option monad below, reading a group that is not
  bound gives \<open>None\<close>, which is the \<^verbatim>\<open>null\<close> the \<^verbatim>\<open>catch\<close> returns.
\<close>

text \<open>The callbacks of the \<^verbatim>\<open>map\<close> calls, in the order of the source.\<close>

definition parseColumn :: "jstring \<Rightarrow> jstring" where
  "parseColumn col =
     (let trimmed = trim col
      in hd (split False ws (re_replace False tablePrefixRegex [] trimmed)))"

definition parseTable :: "jstring \<Rightarrow> jstring" where
  "parseTable tab = (let trimmed = trim tab in hd (split False ws trimmed))"

text \<open>The outer option is the exception, the inner one the \<^verbatim>\<open>null\<close> that
  \<^verbatim>\<open>filter(Boolean)\<close> removes.\<close>

definition parseJoin :: "jstring \<Rightarrow> join option option" where
  "parseJoin match =
     (case re_match True joinPartsRegex match of
        None \<Rightarrow> Some None
      | Some parts \<Rightarrow>
          (let type0 =
             (case re_match True joinTypeRegex match of
                None \<Rightarrow> str ''JOIN''
              | Some t \<Rightarrow>
                  (case m_caps t 1 of
                     None \<Rightarrow> str ''JOIN''
                   | Some g \<Rightarrow> if g = [] then str ''JOIN'' else g))
           in do {
             tab \<leftarrow> m_caps parts 1;
             cond \<leftarrow> m_caps parts 2;
             Some (Some \<lparr>type = toUpperCase type0, table = tab, condition = trim cond\<rparr>)
           }))"

definition parseOrderItem :: "jstring \<Rightarrow> order_item" where
  "parseOrderItem col =
     (let trimmed = trim col;
          parts = split False ws trimmed;
          column0 = hd parts;
          direction0 =
            (case parts of
               _ # d # _ \<Rightarrow> if toUpperCase d = str ''DESC'' then str ''DESC'' else str ''ASC''
             | _ \<Rightarrow> str ''ASC'')
      in \<lparr>column = column0, direction = direction0\<rparr>)"

definition parseSQL :: "jstring \<Rightarrow> ParsedQuery option" where
  "parseSQL query =
     (let trimmedQuery = trim query;
          upperQuery = toUpperCase trimmedQuery
      in if \<not> startsWith upperQuery (str ''SELECT'') then None
         else do {
           selectMatch \<leftarrow> re_match True selectRegex trimmedQuery;
           columnsStr \<leftarrow> m_caps selectMatch 1;
           let columns0 =
             (if columnsStr = str ''*'' then [str ''*'']
              else map parseColumn (split False (Lit (str '','')) columnsStr));
           fromMatch \<leftarrow> re_match True fromRegex trimmedQuery;
           tablesStr \<leftarrow> m_caps fromMatch 1;
           let tables0 = map parseTable (split False (Lit (str '','')) tablesStr);
           conditions0 \<leftarrow>
             (case re_match True whereRegex trimmedQuery of
                None \<Rightarrow> Some []
              | Some whereMatch \<Rightarrow> map_option (\<lambda>w. [trim w]) (m_caps whereMatch 1));
           let joinMatches = match_all True joinRegex 0 trimmedQuery;
           joins0 \<leftarrow> map_option (List.map_filter id) (those (map parseJoin joinMatches));
           groupBy0 \<leftarrow>
             (case re_match True groupByRegex trimmedQuery of
                None \<Rightarrow> Some []
              | Some groupByMatch \<Rightarrow>
                  map_option (\<lambda>g. map trim (split False (Lit (str '','')) g)) (m_caps groupByMatch 1));
           orderBy0 \<leftarrow>
             (case re_match True orderByRegex trimmedQuery of
                None \<Rightarrow> Some []
              | Some orderByMatch \<Rightarrow>
                  map_option (\<lambda>ob. map parseOrderItem (split False (Lit (str '','')) ob))
                    (m_caps orderByMatch 1));
           having0 \<leftarrow>
             (case re_match True havingRegex trimmedQuery of
                None \<Rightarrow> Some []
              | Some havingMatch \<Rightarrow> map_option (\<lambda>h. [trim h]) (m_caps havingMatch 1));
           Some \<lparr>operation = str ''SELECT'', tables = tables0, columns = columns0,
                 conditions = conditions0, joins = joins0, groupBy = groupBy0,
                 orderBy = orderBy0, having = having0\<rparr>
         })"


section \<open>The renderer \<^verbatim>\<open>convertToRelationalAlgebra\<close>\<close>

definition joinSymbol :: "join \<Rightarrow> jstring" where
  "joinSymbol j =
     (if type j = str ''LEFT JOIN'' \<or> type j = str ''LEFT OUTER JOIN'' then sym_left_join
      else if type j = str ''RIGHT JOIN'' \<or> type j = str ''RIGHT OUTER JOIN'' then sym_right_join
      else if type j = str ''FULL JOIN'' \<or> type j = str ''FULL OUTER JOIN'' then sym_full_join
      else sym_join)"

definition joinCondition :: "join \<Rightarrow> jstring" where
  "joinCondition j =
     replace_all False ws (str '' '') 0 (replace_all False (Lit (str ''='')) (str ''='') 0 (condition j))"

text \<open>One round of the loop \<^verbatim>\<open>for (const join of parsed.joins)\<close>.\<close>

definition applyJoin :: "jstring \<Rightarrow> join \<Rightarrow> jstring" where
  "applyJoin result j =
     str ''('' @ result @ str '' '' @ joinSymbol j @ str ''['' @ joinCondition j @ str ''] '' @ table j @ str '')''"

definition convertToRelationalAlgebra :: "ParsedQuery \<Rightarrow> jstring" where
  "convertToRelationalAlgebra parsed =
     (let result =
            (if length (tables parsed) = 1 then hd (tables parsed)
             else str ''('' @ joinWith (str '' '' @ sym_times @ str '' '') (tables parsed) @ str '')'');
          result = foldl applyJoin result (joins parsed);
          result =
            (if 0 < length (conditions parsed)
             then sym_sigma @ str ''['' @ joinWith (str '' '' @ sym_and @ str '' '') (conditions parsed)
                    @ str '']('' @ result @ str '')''
             else result);
          result =
            (if 0 < length (groupBy parsed)
             then sym_gamma @ str ''['' @ joinWith (str '', '') (groupBy parsed) @ str '']('' @ result @ str '')''
             else result);
          result =
            (if 0 < length (having parsed)
             then sym_sigma @ str ''['' @ joinWith (str '' '' @ sym_and @ str '' '') (having parsed)
                    @ str '']('' @ result @ str '')''
             else result);
          result =
            (if 0 < length (columns parsed) \<and> str ''*'' \<notin> set (columns parsed)
             then sym_pi @ str ''['' @ joinWith (str '', '') (columns parsed) @ str '']('' @ result @ str '')''
             else result);
          result =
            (if 0 < length (orderBy parsed)
             then sym_tau @ str ''['' @ joinWith (str '', '')
                    (map (\<lambda>ob. column ob @ str '' '' @ direction ob) (orderBy parsed))
                    @ str '']('' @ result @ str '')''
             else result)
      in result)"


section \<open>Capture groups that take part in every match\<close>

text \<open>\<open>binds r n\<close>: group \<open>n\<close> lies on every path through the pattern \<open>r\<close>.\<close>

fun binds :: "regex \<Rightarrow> nat \<Rightarrow> bool" where
  "binds (Cap m a) n = (m = n \<or> binds a n)"
| "binds (Seq a b) n = (binds a n \<or> binds b n)"
| "binds (Alt a b) n = (binds a n \<and> binds b n)"
| "binds _ n = False"


text \<open>
  The record \<^verbatim>\<open>parseSQL\<close> returns once the SELECT list (match \<open>sm\<close>) and the FROM list
  (match \<open>fm\<close>) are located in the trimmed text \<open>t\<close>; lemma \<open>parseSQL_cases\<close> shows it.
\<close>

definition extracted :: "jstring \<Rightarrow> rmatch \<Rightarrow> rmatch \<Rightarrow> ParsedQuery" where
  "extracted t sm fm =
     \<lparr>operation = str ''SELECT'',
        tables = map parseTable (split False (Lit (str '','')) (the (m_caps fm 1))),
        columns = (if the (m_caps sm 1) = str ''*'' then [str ''*'']
                   else map parseColumn (split False (Lit (str '','')) (the (m_caps sm 1)))),
        conditions = (case re_match True whereRegex t of None \<Rightarrow> []
                      | Some m \<Rightarrow> [trim (the (m_caps m 1))]),
        joins = List.map_filter id (map (the \<circ> parseJoin) (match_all True joinRegex 0 t)),
        groupBy = (case re_match True groupByRegex t of None \<Rightarrow> []
                      | Some m \<Rightarrow> map trim (split False (Lit (str '','')) (the (m_caps m 1)))),
        orderBy = (case re_match True orderByRegex t of None \<Rightarrow> []
                      | Some m \<Rightarrow> map parseOrderItem (split False (Lit (str '','')) (the (m_caps m 1)))),
        having = (case re_match True havingRegex t of None \<Rightarrow> []
                      | Some m \<Rightarrow> [trim (the (m_caps m 1))])\<rparr>"


text \<open>
  Definitions that follow the words of the spec, to compare the code with: the text of a
  join condition with every run of white space collapsed to one space, and the first
  and second white-space-delimited token of an ORDER BY item.
\<close>

function collapse_ws :: "jstring \<Rightarrow> jstring" where
  "collapse_ws [] = []"
| "collapse_ws (x # s) =
     (if is_space x then CU (CHR 0x00) CHR '' '' # collapse_ws (dropWhile is_space s) else x # collapse_ws s)"
  by pat_completeness auto
termination
  by (relation "measure length") (auto simp: length_dropWhile_le less_Suc_eq_le)

definition first_token :: "jstring \<Rightarrow> jstring" where
  "first_token s = takeWhile (\<lambda>c. \<not> is_space c) (dropWhile is_space s)"

definition second_token :: "jstring \<Rightarrow> jstring" where
  "second_token s = first_token (dropWhile (\<lambda>c. \<not> is_space c) (dropWhile is_space s))"



section \<open>Properties of the matcher\<close>

declare search_from.simps [simp del]

subsection \<open>Matches consume a prefix of the subject\<close>

text \<open>Every state \<open>ms\<close> returns lies further on in the same subject.\<close>

lemma lit_prefix_length: "lit_prefix ic l s \<Longrightarrow> length l \<le> length s"
  by (induction ic l s rule: lit_prefix.induct) auto

lemma run_le: "run k s \<le> length s"
  by (simp add: run_def length_takeWhile_le)

lemma ms_sound:
  "(e, c', rest) \<in> set (ms ic r (p, c, s)) \<Longrightarrow> p \<le> e \<and> e - p \<le> length s \<and> rest = drop (e - p) s"
proof (induction r arbitrary: p c s e c' rest)
  case (Lit l)
  then show ?case by (auto simp: advance_def split: if_splits dest: lit_prefix_length)
next
  case (Plus k)
  then show ?case using run_le[of k s] by (auto simp: advance_def)
next
  case (PlusLazy k)
  then show ?case using run_le[of k s] by (auto simp: advance_def)
next
  case (Star k)
  then show ?case using run_le[of k s] by (auto simp: advance_def)
next
  case (Seq a b)
  then obtain p1 c1 s1 where m: "(p1, c1, s1) \<in> set (ms ic a (p, c, s))"
      and r: "(e, c', rest) \<in> set (ms ic b (p1, c1, s1))"
    by auto
  from Seq.IH(1)[OF m] Seq.IH(2)[OF r] show ?case
    by (auto simp: drop_drop)
next
  case (Ahead a)
  then show ?case by (auto split: list.splits)
qed (auto split: if_splits)

subsection \<open>Capture groups\<close>

text \<open>A group on every path of a pattern is bound in every match of it.\<close>

lemma ms_caps_mono:
  "(e, c', rest) \<in> set (ms ic r (p, c, s)) \<Longrightarrow> c n \<noteq> None \<Longrightarrow> c' n \<noteq> None"
proof (induction r arbitrary: p c s e c' rest)
  case (Seq a b)
  then obtain p1 c1 s1 where m: "(p1, c1, s1) \<in> set (ms ic a (p, c, s))"
      and r: "(e, c', rest) \<in> set (ms ic b (p1, c1, s1))"
    by auto
  from Seq.IH(1)[OF m Seq.prems(2)] Seq.IH(2)[OF r] show ?case by blast
next
  case (Ahead a)
  then show ?case by (auto split: list.splits) (metis list.set_intros(1))
next
  case (Cap m a)
  then show ?case by (auto split: if_splits)
qed (auto simp: advance_def split: if_splits)

lemma ms_binds:
  "(e, c', rest) \<in> set (ms ic r (p, c, s)) \<Longrightarrow> binds r n \<Longrightarrow> c' n \<noteq> None"
proof (induction r arbitrary: p c s e c' rest)
  case (Seq a b)
  then obtain p1 c1 s1 where m: "(p1, c1, s1) \<in> set (ms ic a (p, c, s))"
      and r: "(e, c', rest) \<in> set (ms ic b (p1, c1, s1))"
    by auto
  show ?case
  proof (cases "binds a n")
    case True
    from Seq.IH(1)[OF m True] ms_caps_mono[OF r] show ?thesis by blast
  next
    case False
    with Seq.prems(2) have "binds b n" by simp
    from Seq.IH(2)[OF r this] show ?thesis .
  qed
next
  case (Cap m a)
  then show ?case by (auto split: if_splits)
qed auto

lemma search_from_Some:
  "search_from ic r p s = Some m \<Longrightarrow>
     \<exists>k e c rest tl. k \<le> length s \<and>
       ms ic r (p + k, Map.empty, drop k s) = (e, c, rest) # tl \<and>
       m = \<lparr>m_index = p + k, m_text = take (e - (p + k)) (drop k s), m_caps = c, m_rest = rest\<rparr>"
proof (induction s arbitrary: p)
  case Nil
  then show ?case by (auto simp: search_from.simps split: list.splits)
next
  case (Cons x s)
  show ?case
  proof (cases "ms ic r (p, Map.empty, x # s)")
    case Nil
    with Cons.prems have "search_from ic r (Suc p) s = Some m"
      by (simp add: search_from.simps)
    from Cons.IH[OF this] obtain k e c rest tl where
      "k \<le> length s"
      "ms ic r (Suc p + k, Map.empty, drop k s) = (e, c, rest) # tl"
      "m = \<lparr>m_index = Suc p + k, m_text = take (e - (Suc p + k)) (drop k s), m_caps = c, m_rest = rest\<rparr>"
      by blast
    then show ?thesis
      by (intro exI[of _ "Suc k"] exI[of _ e] exI[of _ c] exI[of _ rest] exI[of _ tl]) simp
  next
    case (Cons a list)
    obtain e c rest where a: "a = (e, c, rest)" by (cases a)
    with Cons Cons.prems show ?thesis
      by (intro exI[of _ 0] exI[of _ e] exI[of _ c] exI[of _ rest] exI[of _ list])
         (simp add: search_from.simps)
  qed
qed

lemma re_match_Some:
  assumes "re_match ic r s = Some m"
  obtains k e c rest tl where "k \<le> length s"
    "ms ic r (k, Map.empty, drop k s) = (e, c, rest) # tl"
    "m = \<lparr>m_index = k, m_text = take (e - k) (drop k s), m_caps = c, m_rest = rest\<rparr>"
  using search_from_Some[of ic r 0 s m] assms unfolding re_match_def by auto

lemma re_match_binds:
  assumes "re_match ic r s = Some m" "binds r n"
  shows "m_caps m n \<noteq> None"
proof -
  from assms(1) obtain k e c rest tl where
    h: "ms ic r (k, Map.empty, drop k s) = (e, c, rest) # tl"
    and m: "m = \<lparr>m_index = k, m_text = take (e - k) (drop k s), m_caps = c, m_rest = rest\<rparr>"
    by (rule re_match_Some)
  from h have "(e, c, rest) \<in> set (ms ic r (k, Map.empty, drop k s))" by simp
  from ms_binds[OF this assms(2)] m show ?thesis by simp
qed

subsection \<open>Trimming and splitting\<close>

lemma trim_prefix: "prefix (trim s) (dropWhile is_space s)"
proof -
  let ?t = "dropWhile is_space s"
  have "rev ?t = takeWhile is_space (rev ?t) @ dropWhile is_space (rev ?t)" by simp
  then have "?t = rev (dropWhile is_space (rev ?t)) @ rev (takeWhile is_space (rev ?t))"
    by (metis rev_append rev_rev_ident)
  then show ?thesis unfolding trim_def by (metis prefixI)
qed

lemma split_loop_nonempty: "split_loop ic r q cur s \<noteq> []"
proof (induction ic r q cur s rule: split_loop.induct)
  case (1 ic r q cur)
  show ?case by simp
next
  case (2 ic r q cur x s)
  show ?case
  proof (cases "ms ic r (q, Map.empty, x # s)")
    case Nil
    with 2(1) show ?thesis by simp
  next
    case (Cons a list)
    obtain e c rest where a: "a = (e, c, rest)" by (cases a)
    show ?thesis
    proof (cases "\<not> q < e \<and> cur = []")
      case True
      with 2(3)[OF Cons a[symmetric] refl] Cons a show ?thesis by simp
    next
      case False
      with Cons a show ?thesis by auto
    qed
  qed
qed

lemma split_comma_nonempty: "split False (Lit (str '','')) s \<noteq> []"
  by (simp add: split_def split_loop_nonempty str_def)

lemma split_ws_nonempty: "split False ws s \<noteq> []"
  by (simp add: split_def split_loop_nonempty ws_def advance_def run_def)

subsection \<open>The extractor raises no exception\<close>

text \<open>Every group the extractor reads is bound, so \<^verbatim>\<open>parseSQL\<close> is a case distinction on the SELECT and FROM matches.\<close>

lemma binds_patterns:
  "binds selectRegex 1" "binds fromRegex 1" "binds whereRegex 1" "binds groupByRegex 1"
  "binds orderByRegex 1" "binds havingRegex 1" "binds joinPartsRegex 1" "binds joinPartsRegex 2"
  by (simp_all add: selectRegex_def fromRegex_def whereRegex_def groupByRegex_def
      orderByRegex_def havingRegex_def joinPartsRegex_def)

lemma group_bound:
  assumes "re_match ic r s = Some m" "binds r n"
  obtains g where "m_caps m n = Some g"
  using re_match_binds[OF assms] by auto

lemma parseJoin_no_exception: "parseJoin x \<noteq> None"
proof (cases "re_match True joinPartsRegex x")
  case None
  then show ?thesis by (simp add: parseJoin_def)
next
  case (Some parts)
  from group_bound[OF Some binds_patterns(7)] obtain t where t: "m_caps parts 1 = Some t" .
  from group_bound[OF Some binds_patterns(8)] obtain c where c: "m_caps parts 2 = Some c" .
  from Some t c show ?thesis by (simp add: parseJoin_def Let_def)
qed

lemma those_Some: "(\<forall>x \<in> set xs. x \<noteq> None) \<Longrightarrow> those xs = Some (map the xs)"
  by (induction xs) auto

lemma joins_no_exception: "those (map parseJoin xs) = Some (map (the \<circ> parseJoin) xs)"
  using those_Some[of "map parseJoin xs"] parseJoin_no_exception by simp


lemma parseSQL_located:
  assumes sw: "startsWith (toUpperCase (trim query)) (str ''SELECT'')"
    and sel: "re_match True selectRegex (trim query) = Some sm"
    and frm: "re_match True fromRegex (trim query) = Some fm"
  shows "parseSQL query = Some (extracted (trim query) sm fm)"
proof -
  let ?t = "trim query"
  from group_bound[OF sel binds_patterns(1)] obtain cs where cs: "m_caps sm 1 = Some cs" .
  from group_bound[OF frm binds_patterns(2)] obtain ts where ts: "m_caps fm 1 = Some ts" .
  have w: "(case re_match True whereRegex ?t of None \<Rightarrow> Some []
            | Some whereMatch \<Rightarrow> map_option (\<lambda>w. [trim w]) (m_caps whereMatch 1))
          = Some (case re_match True whereRegex ?t of None \<Rightarrow> []
                      | Some m \<Rightarrow> [trim (the (m_caps m 1))])"
    by (auto split: option.splits elim: group_bound[OF _ binds_patterns(3)])
  have g: "(case re_match True groupByRegex ?t of None \<Rightarrow> Some []
            | Some groupByMatch \<Rightarrow>
                  map_option (\<lambda>g. map trim (split False (Lit (str '','')) g)) (m_caps groupByMatch 1))
          = Some (case re_match True groupByRegex ?t of None \<Rightarrow> []
                      | Some m \<Rightarrow> map trim (split False (Lit (str '','')) (the (m_caps m 1))))"
    by (auto split: option.splits elim: group_bound[OF _ binds_patterns(4)])
  have ob: "(case re_match True orderByRegex ?t of None \<Rightarrow> Some []
            | Some orderByMatch \<Rightarrow>
                  map_option (\<lambda>ob. map parseOrderItem (split False (Lit (str '','')) ob))
                    (m_caps orderByMatch 1))
          = Some (case re_match True orderByRegex ?t of None \<Rightarrow> []
                      | Some m \<Rightarrow> map parseOrderItem (split False (Lit (str '','')) (the (m_caps m 1))))"
    by (auto split: option.splits elim: group_bound[OF _ binds_patterns(5)])
  have h: "(case re_match True havingRegex ?t of None \<Rightarrow> Some []
            | Some havingMatch \<Rightarrow> map_option (\<lambda>h. [trim h]) (m_caps havingMatch 1))
          = Some (case re_match True havingRegex ?t of None \<Rightarrow> []
                      | Some m \<Rightarrow> [trim (the (m_caps m 1))])"
    by (auto split: option.splits elim: group_bound[OF _ binds_patterns(6)])
  show ?thesis
    unfolding parseSQL_def Let_def extracted_def
    by (simp only: sw sel frm cs ts w g ob h joins_no_exception
        not_True_eq_False if_False Option.bind.simps option.map option.sel)
qed

lemma parseSQL_cases:
  "parseSQL query =
     (if \<not> startsWith (toUpperCase (trim query)) (str ''SELECT'') then None
      else case re_match True selectRegex (trim query) of
             None \<Rightarrow> None
           | Some sm \<Rightarrow>
               (case re_match True fromRegex (trim query) of
                  None \<Rightarrow> None
                | Some fm \<Rightarrow> Some (extracted (trim query) sm fm)))"
proof (cases "startsWith (toUpperCase (trim query)) (str ''SELECT'')")
  case False
  then show ?thesis by (simp add: parseSQL_def Let_def)
next
  case sw: True
  show ?thesis
  proof (cases "re_match True selectRegex (trim query)")
    case None
    with sw show ?thesis by (simp add: parseSQL_def Let_def)
  next
    case (Some sm)
    note sel = this
    from group_bound[OF sel binds_patterns(1)] obtain cs where "m_caps sm 1 = Some cs" .
    then have cs: "m_caps sm (Suc 0) = Some cs" by simp
    show ?thesis
    proof (cases "re_match True fromRegex (trim query)")
      case None
      with sw sel cs show ?thesis by (simp add: parseSQL_def Let_def)
    next
      case (Some fm)
      from parseSQL_located[OF sw sel Some] sw sel Some show ?thesis
        by simp
    qed
  qed
qed


lemma parseSQL_SomeD:
  assumes "parseSQL query = Some p"
  obtains sm fm where "startsWith (toUpperCase (trim query)) (str ''SELECT'')"
    "re_match True selectRegex (trim query) = Some sm"
    "re_match True fromRegex (trim query) = Some fm"
    "p = extracted (trim query) sm fm"
  using assms unfolding parseSQL_cases[of query]
  by (auto split: if_splits option.splits)


subsection \<open>Splitting on white space and the tokens of an item\<close>

lemma run_Cons: "run k (x # s) = (if in_class k x then Suc (run k s) else 0)"
  by (simp add: run_def)

lemma drop_run: "drop (run k s) s = dropWhile (in_class k) s"
  unfolding run_def by (induction s) auto

lemma drop_run_space: "drop (run Space s) s = dropWhile is_space s"
  using drop_run[of Space s] by (simp add: o_def cong: dropWhile_cong)

lemma ms_ws_space:
  assumes "is_space x"
  shows "\<exists>tl. ms ic ws (p, c, x # s) = (p + Suc (run Space s), c, dropWhile is_space s) # tl"
proof -
  have "rev [1 ..< Suc (Suc (run Space s))] = Suc (run Space s) # rev [1 ..< Suc (run Space s)]"
    by simp
  then show ?thesis using assms drop_run_space[of s]
    by (simp add: ws_def run_Cons advance_def del: upt_Suc)
qed

lemma ms_ws_nonspace: "\<not> is_space x \<Longrightarrow> ms ic ws (p, c, x # s) = []"
  by (simp add: ws_def run_Cons)

lemma ms_ws_Nil: "ms ic ws (p, c, []) = []"
  by (simp add: ws_def run_def)

lemma split_loop_ws_Cons:
  "split_loop False ws q cur (x # s) =
     (if is_space x then cur # split_loop False ws (q + Suc (run Space s)) [] (dropWhile is_space s)
      else split_loop False ws (Suc q) (cur @ [x]) s)"
proof (cases "is_space x")
  case True
  from ms_ws_space[OF True, of False q Map.empty s] obtain tl where
    "ms False ws (q, Map.empty, x # s) = (q + Suc (run Space s), Map.empty, dropWhile is_space s) # tl"
    by blast
  with True drop_run_space[of s] show ?thesis by simp
next
  case False
  with ms_ws_nonspace[OF False] show ?thesis by simp
qed

lemma split_loop_ws:
  "\<exists>q'. split_loop False ws q cur s =
     (cur @ takeWhile (\<lambda>c. \<not> is_space c) s) #
       (if dropWhile (\<lambda>c. \<not> is_space c) s = [] then []
        else split_loop False ws q' []
               (dropWhile is_space (dropWhile (\<lambda>c. \<not> is_space c) s)))"
proof (induction s arbitrary: q cur)
  case Nil
  show ?case by simp
next
  case (Cons x s)
  show ?case
  proof (cases "is_space x")
    case True
    then show ?thesis by (auto simp: split_loop_ws_Cons simp del: split_loop.simps)
  next
    case False
    from Cons.IH[of "Suc q" "cur @ [x]"] False show ?thesis
      by (auto simp: split_loop_ws_Cons simp del: split_loop.simps)
  qed
qed

lemma hd_split_loop_ws:
  "hd (split_loop False ws q cur s) = cur @ takeWhile (\<lambda>c. \<not> is_space c) s"
  using split_loop_ws[of q cur s] by auto

lemma split_ws_parts:
  "\<exists>rest. split False ws t = takeWhile (\<lambda>c. \<not> is_space c) t # rest
     \<and> (case rest of [] \<Rightarrow> [] | d # _ \<Rightarrow> d) =
         takeWhile (\<lambda>c. \<not> is_space c) (dropWhile is_space (dropWhile (\<lambda>c. \<not> is_space c) t))"
proof (cases "t = []")
  case True
  then show ?thesis by (simp add: split_def ms_ws_Nil)
next
  case False
  from split_loop_ws[of 0 "[]" t] obtain q' where
    e: "split_loop False ws 0 [] t =
     (takeWhile (\<lambda>c. \<not> is_space c) t) #
       (if dropWhile (\<lambda>c. \<not> is_space c) t = [] then []
        else split_loop False ws q' []
               (dropWhile is_space (dropWhile (\<lambda>c. \<not> is_space c) t)))"
    by auto
  show ?thesis
  proof (cases "dropWhile (\<lambda>c. \<not> is_space c) t = []")
    case True
    then have "dropWhile is_space (dropWhile (\<lambda>c. \<not> is_space c) t) = []"
      by (simp only: dropWhile.simps)
    with e False True show ?thesis by (simp add: split_def del: dropWhile_eq_Nil_conv)
  next
    case nz: False
    let ?u = "dropWhile is_space (dropWhile (\<lambda>c. \<not> is_space c) t)"
    have "split_loop False ws q' [] ?u \<noteq> []" by (rule split_loop_nonempty)
    then obtain d ds where d: "split_loop False ws q' [] ?u = d # ds"
      by (cases "split_loop False ws q' [] ?u") auto
    with hd_split_loop_ws[of q' "[]" ?u] have "d = takeWhile (\<lambda>c. \<not> is_space c) ?u" by simp
    with e nz False d show ?thesis by (auto simp: split_def)
  qed
qed

lemma all_space:
  assumes "\<forall>c \<in> set z. is_space c"
  shows "takeWhile (\<lambda>c. \<not> is_space c) z = []" "dropWhile (\<lambda>c. \<not> is_space c) z = z"
    "dropWhile is_space z = []"
  using assms by (cases z; simp)+

lemma takeWhile_nonspace_append:
  "(\<forall>c \<in> set z. is_space c) \<Longrightarrow>
     takeWhile (\<lambda>c. \<not> is_space c) (a @ z) = takeWhile (\<lambda>c. \<not> is_space c) a"
  by (induction a) (simp_all add: all_space)

lemma dropWhile_nonspace_append:
  "(\<forall>c \<in> set z. is_space c) \<Longrightarrow>
     dropWhile (\<lambda>c. \<not> is_space c) (a @ z) = dropWhile (\<lambda>c. \<not> is_space c) a @ z"
  by (induction a) (simp_all add: all_space)

lemma dropWhile_space_append:
  assumes "\<forall>c \<in> set z. is_space c"
  shows "dropWhile is_space (a @ z) =
           (if dropWhile is_space a = [] then [] else dropWhile is_space a @ z)"
  using assms by (induction a) (simp_all add: all_space)

lemma first_token_append:
  assumes "\<forall>c \<in> set z. is_space c"
  shows "first_token (a @ z) = first_token a"
  unfolding first_token_def dropWhile_space_append[OF assms]
  by (simp add: takeWhile_nonspace_append[OF assms] del: dropWhile_eq_Nil_conv)

lemma second_token_append:
  assumes "\<forall>c \<in> set z. is_space c"
  shows "second_token (a @ z) = second_token a"
  unfolding second_token_def dropWhile_space_append[OF assms]
  by (simp add: dropWhile_nonspace_append[OF assms] first_token_append[OF assms]
      del: dropWhile_eq_Nil_conv)

lemma ltrim_trim:
  "\<exists>z. (\<forall>c \<in> set z. is_space c) \<and> dropWhile is_space s = trim s @ z"
proof -
  let ?t = "dropWhile is_space s"
  have "rev ?t = takeWhile is_space (rev ?t) @ dropWhile is_space (rev ?t)" by simp
  then have "?t = rev (dropWhile is_space (rev ?t)) @ rev (takeWhile is_space (rev ?t))"
    by (metis rev_append rev_rev_ident)
  moreover have "\<forall>c \<in> set (rev (takeWhile is_space (rev ?t))). is_space c"
    by (auto dest: set_takeWhileD)
  ultimately show ?thesis unfolding trim_def by blast
qed

text \<open>Upper-casing works on code points; a text can be cut before any code unit that
  is not the second half of a surrogate pair, in particular before white space.\<close>

lemma space_not_low_surrogate: "is_space c \<Longrightarrow> \<not> is_low_surrogate c"
  by (auto simp: is_space_def is_line_terminator_def)

lemma toUpperCase_append:
  "z = [] \<or> \<not> is_low_surrogate (hd z) \<Longrightarrow>
     toUpperCase (a @ z) = toUpperCase a @ toUpperCase z"
proof (induction a rule: toUpperCase.induct)
  case 1
  show ?case by simp
next
  case (2 u)
  then show ?case by (cases z) auto
next
  case (3 h l s)
  then show ?case by auto
qed

lemma upper_trim_prefix: "prefix (toUpperCase (trim s)) (toUpperCase (dropWhile is_space s))"
proof -
  from ltrim_trim[of s] obtain z where
    z: "\<forall>c \<in> set z. is_space c" "dropWhile is_space s = trim s @ z" by blast
  from z(1) have "z = [] \<or> \<not> is_low_surrogate (hd z)"
    by (cases z) (auto dest: space_not_low_surrogate)
  from toUpperCase_append[OF this, of "trim s"] z(2) show ?thesis by simp
qed

lemma trim_no_leading_space: "dropWhile is_space (trim s) = trim s"
proof (cases "trim s")
  case Nil
  then show ?thesis by simp
next
  case (Cons x xs)
  from ltrim_trim[of s] obtain z where z: "dropWhile is_space s = trim s @ z" by blast
  with Cons have "hd (dropWhile is_space s) = x" "dropWhile is_space s \<noteq> []" by auto
  then have "\<not> is_space x" using hd_dropWhile by metis
  with Cons show ?thesis by simp
qed

lemma tokens_trim: "first_token (trim s) = first_token s" "second_token (trim s) = second_token s"
proof -
  from ltrim_trim[of s] obtain z where
    z: "\<forall>c \<in> set z. is_space c" "dropWhile is_space s = trim s @ z" by blast
  have a: "first_token s = first_token (dropWhile is_space s)"
    by (simp add: first_token_def dropWhile_idem)
  have b: "second_token s = second_token (dropWhile is_space s)"
    by (simp add: second_token_def dropWhile_idem)
  from a z first_token_append[OF z(1)] show "first_token (trim s) = first_token s" by simp
  from b z second_token_append[OF z(1)] show "second_token (trim s) = second_token s" by simp
qed

lemma parseOrderItem_tokens:
  "parseOrderItem item =
     \<lparr>column = first_token item,
      direction = (if toUpperCase (second_token item) = str ''DESC'' then str ''DESC'' else str ''ASC'')\<rparr>"
proof -
  let ?t = "trim item"
  from split_ws_parts[of ?t] obtain rest where
    s: "split False ws ?t = takeWhile (\<lambda>c. \<not> is_space c) ?t # rest"
    and r: "(case rest of [] \<Rightarrow> [] | d # _ \<Rightarrow> d) =
         takeWhile (\<lambda>c. \<not> is_space c) (dropWhile is_space (dropWhile (\<lambda>c. \<not> is_space c) ?t))"
    by blast
  have f: "takeWhile (\<lambda>c. \<not> is_space c) ?t = first_token item"
    using tokens_trim(1)[of item] by (simp add: first_token_def trim_no_leading_space)
  have g: "takeWhile (\<lambda>c. \<not> is_space c) (dropWhile is_space (dropWhile (\<lambda>c. \<not> is_space c) ?t))
           = second_token item"
    using tokens_trim(2)[of item] by (simp add: second_token_def first_token_def trim_no_leading_space)
  have u: "toUpperCase [] \<noteq> str ''DESC''" by (simp add: str_def)
  show ?thesis
  proof (cases rest)
    case Nil
    with s r f g u show ?thesis by (simp add: parseOrderItem_def Let_def)
  next
    case (Cons d ds)
    with s r f g show ?thesis by (simp add: parseOrderItem_def Let_def)
  qed
qed

subsection \<open>The two replacements of the join condition\<close>

lemma replace_eq_id: "replace_all False (Lit (str ''='')) (str ''='') p s = s"
  by (induction s arbitrary: p) (auto simp: advance_def str_def)

lemma replace_ws_collapse: "replace_all False ws (str '' '') p s = collapse_ws s"
proof (induction s arbitrary: p rule: collapse_ws.induct)
  case 1
  show ?case by (simp add: ms_ws_Nil)
next
  case (2 x s)
  show ?case
  proof (cases "is_space x")
    case True
    from ms_ws_space[OF True, of False p Map.empty s] obtain tl where
      m: "ms False ws (p, Map.empty, x # s) = (p + Suc (run Space s), Map.empty, dropWhile is_space s) # tl"
      by blast
    have d: "drop (run Space s) s = dropWhile is_space s"
      using drop_run[of Space s] by (simp add: o_def cong: dropWhile_cong)
    from True 2(1)[OF True] m d show ?thesis by (simp add: str_def)
  next
    case False
    with 2(2)[OF False] ms_ws_nonspace[OF False] show ?thesis by simp
  qed
qed


subsection \<open>The order of the operators\<close>

text \<open>
  When the extractor finds the WHERE, GROUP BY, HAVING and ORDER BY clauses of a query,
  the rendering is nested in the order of the renderer's steps, whatever the order of the
  clauses in the text: joins on the base relation, WHERE selection, grouping, HAVING
  selection, projection (unless a column is the wildcard) and sort.
\<close>

lemma render_order:
  assumes p: "parseSQL query = Some p"
    and w: "re_match True whereRegex (trim query) \<noteq> None"
    and g: "re_match True groupByRegex (trim query) \<noteq> None"
    and h: "re_match True havingRegex (trim query) \<noteq> None"
    and ob: "re_match True orderByRegex (trim query) \<noteq> None"
  shows "\<exists>cond hav. conditions p = [cond] \<and> having p = [hav] \<and> groupBy p \<noteq> [] \<and> orderBy p \<noteq> []
    \<and> convertToRelationalAlgebra p =
       (let base = (if length (tables p) = 1 then hd (tables p)
                    else str ''('' @ joinWith (str '' '' @ sym_times @ str '' '') (tables p) @ str '')'');
            joined = foldl applyJoin base (joins p);
            selected = sym_sigma @ str ''['' @ cond @ str '']('' @ joined @ str '')'';
            grouped = sym_gamma @ str ''['' @ joinWith (str '', '') (groupBy p) @ str '']('' @ selected @ str '')'';
            filtered = sym_sigma @ str ''['' @ hav @ str '']('' @ grouped @ str '')'';
            projected = (if str ''*'' \<in> set (columns p) then filtered
                         else sym_pi @ str ''['' @ joinWith (str '', '') (columns p) @ str '']('' @ filtered @ str '')'')
        in sym_tau @ str ''[''
             @ joinWith (str '', '') (map (\<lambda>ob. column ob @ str '' '' @ direction ob) (orderBy p))
             @ str '']('' @ projected @ str '')'')"
proof -
  from p obtain sm fm where px: "p = extracted (trim query) sm fm" by (rule parseSQL_SomeD)
  from w obtain wm where wm: "re_match True whereRegex (trim query) = Some wm" by blast
  from g obtain gm where gm: "re_match True groupByRegex (trim query) = Some gm" by blast
  from h obtain hm where hm: "re_match True havingRegex (trim query) = Some hm" by blast
  from ob obtain om where om: "re_match True orderByRegex (trim query) = Some om" by blast
  have c: "conditions p = [trim (the (m_caps wm 1))]" by (simp add: px extracted_def wm)
  have v: "having p = [trim (the (m_caps hm 1))]" by (simp add: px extracted_def hm)
  have gb: "groupBy p \<noteq> []" by (simp add: px extracted_def gm split_comma_nonempty)
  have o: "orderBy p \<noteq> []" by (simp add: px extracted_def om split_comma_nonempty)
  have cl: "columns p \<noteq> []" by (simp add: px extracted_def split_comma_nonempty)
  have "convertToRelationalAlgebra p =
       (let base = (if length (tables p) = 1 then hd (tables p)
                    else str ''('' @ joinWith (str '' '' @ sym_times @ str '' '') (tables p) @ str '')'');
            joined = foldl applyJoin base (joins p);
            selected = sym_sigma @ str ''['' @ trim (the (m_caps wm 1)) @ str '']('' @ joined @ str '')'';
            grouped = sym_gamma @ str ''['' @ joinWith (str '', '') (groupBy p) @ str '']('' @ selected @ str '')'';
            filtered = sym_sigma @ str ''['' @ trim (the (m_caps hm 1)) @ str '']('' @ grouped @ str '')'';
            projected = (if str ''*'' \<in> set (columns p) then filtered
                         else sym_pi @ str ''['' @ joinWith (str '', '') (columns p) @ str '']('' @ filtered @ str '')'')
        in sym_tau @ str ''[''
             @ joinWith (str '', '') (map (\<lambda>ob. column ob @ str '' '' @ direction ob) (orderBy p))
             @ str '']('' @ projected @ str '')'')"
    using gb o cl by (simp add: convertToRelationalAlgebra_def Let_def c v)
  with c v gb o show ?thesis by blast
qed

subsection \<open>The fold of the joins\<close>

text \<open>
  The joins are folded onto the base relation from left to right, each as
  \<^verbatim>\<open>(<acc> <symbol>[<condition>] <table>)\<close>, the condition with every run of white space
  collapsed to one space and nothing else changed.
\<close>

lemma joins_fold:
  "convertToRelationalAlgebra
     (p\<lparr>conditions := [], groupBy := [], having := [], columns := [], orderBy := []\<rparr>)
   = foldl (\<lambda>acc j. str ''('' @ acc @ str '' '' @ joinSymbol j @ str ''['' @ collapse_ws (condition j)
                        @ str ''] '' @ table j @ str '')'')
       (convertToRelationalAlgebra
          (p\<lparr>joins := [], conditions := [], groupBy := [], having := [], columns := [], orderBy := []\<rparr>))
       (joins p)"
proof -
  have a: "applyJoin = (\<lambda>acc j. str ''('' @ acc @ str '' '' @ joinSymbol j @ str ''['' @ collapse_ws (condition j)
                        @ str ''] '' @ table j @ str '')'')"
    by (intro ext) (simp add: applyJoin_def joinCondition_def replace_eq_id replace_ws_collapse)
  show ?thesis
    by (simp add: convertToRelationalAlgebra_def Let_def a)
qed

subsection \<open>Examples outside ASCII\<close>

text \<open>
  A no-break space before the query is trimmed; a long s (\<^verbatim>\<open>U+017F\<close>) becomes \<^verbatim>\<open>S\<close> under
  \<^verbatim>\<open>toUpperCase\<close>, so that a text beginning with it and \<^verbatim>\<open>elect\<close> passes the first test of the
  extractor, but it does not match the \<^verbatim>\<open>S\<close> of a pattern with the \<^verbatim>\<open>i\<close> flag; in an ORDER BY
  item a no-break space separates the tokens and \<^verbatim>\<open>de\<close>, long s, \<^verbatim>\<open>c\<close> is a direction.
\<close>

lemma examples_outside_ascii:
  "toUpperCase (CU (CHR 0x01) (CHR 0x7F) # str ''elect'') = str ''SELECT''"
  "toUpperCase (str ''stra'' @ [CU (CHR 0x00) (CHR 0xDF)] @ str ''e'') = str ''STRASSE''"
  "canon (CU (CHR 0x01) (CHR 0x7F)) = CU (CHR 0x01) (CHR 0x7F)"
  "map_option columns (parseSQL (CU (CHR 0x00) (CHR 0xA0) # str ''SELECT a FROM t'')) = Some [str ''a'']"
  "map_option columns (parseSQL (CU (CHR 0x01) (CHR 0x7F) # str ''elect x select a from t''))
     = Some [str ''a'']"
  "parseOrderItem (str ''a de'' @ [CU (CHR 0x01) (CHR 0x7F)] @ str ''c'')
     = \<lparr>column = str ''a'', direction = str ''DESC''\<rparr>"
  "parseOrderItem (str ''a'' @ [CU (CHR 0x00) (CHR 0xA0)] @ str ''DESC'')
     = \<lparr>column = str ''a'', direction = str ''DESC''\<rparr>"
  by code_simp+


section \<open>The claims\<close>

text \<open>
  C1. The spec promises the nesting \<^verbatim>\<open>\<tau>(\<pi>(\<sigma>(\<gamma>(\<sigma>(joins(base))))))\<close> for every query that contains
  WHERE, GROUP BY, HAVING and ORDER BY. The renderer keeps this order (lemma
  \<open>render_order\<close>), but the extractor loses a WHERE clause that is written over two lines:
  the group \<^verbatim>\<open>(.+?)\<close> of its pattern matches no line terminator, and the boundary
  \<^verbatim>\<open>\s+GROUP\s+BY\<close>, \<^verbatim>\<open>\s+ORDER\s+BY\<close>, \<^verbatim>\<open>\s+HAVING\<close> or \<^verbatim>\<open>$\<close> does not follow the first line.
  The query below contains the four clauses and renders without the WHERE selection; the
  same query on one line renders with it.
\<close>

theorem C1_where_over_two_lines_is_dropped:
  "map_option conditions
     (parseSQL (str ''SELECT a FROM t WHERE x = 1'' @ lf
                 @ str ''AND y = 2 GROUP BY g HAVING n > 1 ORDER BY o'')) = Some []
   \<and> map_option convertToRelationalAlgebra
     (parseSQL (str ''SELECT a FROM t WHERE x = 1'' @ lf
                 @ str ''AND y = 2 GROUP BY g HAVING n > 1 ORDER BY o''))
     = Some (sym_tau @ str ''[o ASC]('' @ sym_pi @ str ''[a]('' @ sym_sigma @ str ''[n > 1](''
             @ sym_gamma @ str ''[g](t))))'')
   \<and> map_option convertToRelationalAlgebra
     (parseSQL (str ''SELECT a FROM t WHERE x = 1 AND y = 2 GROUP BY g HAVING n > 1 ORDER BY o''))
     = Some (sym_tau @ str ''[o ASC]('' @ sym_pi @ str ''[a]('' @ sym_sigma @ str ''[n > 1](''
             @ sym_gamma @ str ''[g]('' @ sym_sigma @ str ''[x = 1 AND y = 2](t)))))'')"
  by code_simp

text \<open>
  C2. The spec gives \<^verbatim>\<open>"SELECT e.Name, d.DepartmentName FROM EMPLOYEE e JOIN DEPARTMENT d ON
  e.DepartmentID = d.ID"\<close> as rendering with one inner join. In \<^verbatim>\<open>joinRegex\<close> the end of
  the text is an alternative \<^emph>\<open>inside\<close> the lookahead \<^verbatim>\<open>(?=\s+(?:...|$))\<close>, so it is only
  accepted after white space, and the trimmed query has none at its end: the pattern
  finds no join, and the query renders as a projection of the bare table.
\<close>

theorem C2_join_at_end_is_dropped:
  "match_all True joinRegex 0
     (trim (str ''SELECT e.Name, d.DepartmentName FROM EMPLOYEE e JOIN DEPARTMENT d ON e.DepartmentID = d.ID'')) = []
   \<and> map_option convertToRelationalAlgebra
     (parseSQL (str ''SELECT e.Name, d.DepartmentName FROM EMPLOYEE e JOIN DEPARTMENT d ON e.DepartmentID = d.ID''))
     = Some (sym_pi @ str ''[Name, DepartmentName](EMPLOYEE)'')"
  by code_simp

text \<open>
  C3. An input that, after its leading white space, does not begin with \<^verbatim>\<open>SELECT\<close> in any
  letter case is not parseable: \<^verbatim>\<open>parseSQL\<close> returns \<^verbatim>\<open>null\<close>. White space and letter case
  are those of JavaScript: the text without its leading white space, upper-cased by
  \<^verbatim>\<open>toUpperCase\<close>, does not start with \<^verbatim>\<open>SELECT\<close>.
\<close>

theorem C3_not_select_is_null:
  assumes "\<not> prefix (str ''SELECT'') (toUpperCase (dropWhile is_space query))"
  shows "parseSQL query = None"
proof -
  have "\<not> prefix (str ''SELECT'') (toUpperCase (trim query))"
    using assms upper_trim_prefix[of query] prefix_order.trans by blast
  then show ?thesis
    by (simp add: parseSQL_def startsWith_def Let_def)
qed

theorem C3_witness:
  "\<not> prefix (str ''SELECT'') (toUpperCase (dropWhile is_space (str ''  update T set a = 1'')))
   \<and> parseSQL (str ''  update T set a = 1'') = None
   \<and> \<not> prefix (str ''SELECT'')
         (toUpperCase (dropWhile is_space (CU (CHR 0xFE) (CHR 0xFF) # str ''delete from t'')))
   \<and> parseSQL (CU (CHR 0xFE) (CHR 0xFF) # str ''delete from t'') = None"
proof -
  have h: "\<not> prefix (str ''SELECT'') (toUpperCase (dropWhile is_space (str ''  update T set a = 1'')))"
    by code_simp
  have k: "\<not> prefix (str ''SELECT'')
         (toUpperCase (dropWhile is_space (CU (CHR 0xFE) (CHR 0xFF) # str ''delete from t'')))"
    by code_simp
  from h k C3_not_select_is_null[OF h] C3_not_select_is_null[OF k] show ?thesis by simp
qed

text \<open>
  C4. The spec promises \<^verbatim>\<open>null\<close> exactly when the SELECT list or the FROM list cannot be
  located. The extractor also returns \<^verbatim>\<open>null\<close> for a query whose lists are there but go
  over two lines: the groups \<^verbatim>\<open>(.+?)\<close> of the SELECT and FROM patterns match no line
  terminator (the defect of C1), so a SELECT list with a line feed in it is not found,
  and neither is a FROM list that is followed by a line feed and a word that is no
  boundary keyword. The same queries on one line are extracted.
\<close>

theorem C4_list_over_two_lines_is_null:
  "parseSQL (str ''SELECT a,'' @ lf @ str '' b FROM t'') = None
   \<and> parseSQL (str ''SELECT a FROM t'' @ lf @ str ''LEFT JOIN u ON t.x = u.x WHERE k'') = None
   \<and> map_option (\<lambda>p. (columns p, tables p)) (parseSQL (str ''SELECT a, b FROM t''))
       = Some ([str ''a'', str ''b''], [str ''t''])
   \<and> map_option (\<lambda>p. (columns p, tables p))
        (parseSQL (str ''SELECT a FROM t LEFT JOIN u ON t.x = u.x WHERE k''))
       = Some ([str ''a''], [str ''t''])"
  by code_simp

text \<open>
  C5. The spec says that the projection is emitted if and only if \<^verbatim>\<open>columns\<close> is non-empty
  and is not exactly \<^verbatim>\<open>["*"]\<close>. The code tests \<^verbatim>\<open>!parsed.columns.includes("*")\<close>: a column
  list that contains the wildcard among other columns is rendered without projection.
\<close>

theorem C5_counterexample:
  "map_option columns (parseSQL (str ''SELECT *, a FROM t'')) = Some [str ''*'', str ''a'']
   \<and> map_option convertToRelationalAlgebra (parseSQL (str ''SELECT *, a FROM t'')) = Some (str ''t'')"
  by code_simp

text \<open>
  C5, as the code has it. The renderer wraps the accumulator (the rendering of the same
  query without columns and without ORDER BY) in \<^verbatim>\<open>\<pi>[columns joined by ", "](...)\<close> if and
  only if \<^verbatim>\<open>columns\<close> is non-empty and no column is \<^verbatim>\<open>"*"\<close>; the sort, when there is one,
  goes around it. \<^verbatim>\<open>"SELECT * FROM EMPLOYEE"\<close> renders as \<^verbatim>\<open>"EMPLOYEE"\<close>.
\<close>

theorem C5_projection_unless_wildcard:
  "convertToRelationalAlgebra p =
     (let acc = convertToRelationalAlgebra (p\<lparr>columns := [], orderBy := []\<rparr>);
          proj = (if columns p \<noteq> [] \<and> str ''*'' \<notin> set (columns p)
                  then sym_pi @ str ''['' @ joinWith (str '', '') (columns p) @ str '']('' @ acc @ str '')''
                  else acc)
      in if orderBy p = [] then proj
         else sym_tau @ str ''['' @ joinWith (str '', '') (map (\<lambda>ob. column ob @ str '' '' @ direction ob) (orderBy p))
                @ str '']('' @ proj @ str '')'')
   \<and> map_option convertToRelationalAlgebra (parseSQL (str ''SELECT * FROM EMPLOYEE'')) = Some (str ''EMPLOYEE'')"
proof
  show "convertToRelationalAlgebra p =
     (let acc = convertToRelationalAlgebra (p\<lparr>columns := [], orderBy := []\<rparr>);
          proj = (if columns p \<noteq> [] \<and> str ''*'' \<notin> set (columns p)
                  then sym_pi @ str ''['' @ joinWith (str '', '') (columns p) @ str '']('' @ acc @ str '')''
                  else acc)
      in if orderBy p = [] then proj
         else sym_tau @ str ''['' @ joinWith (str '', '') (map (\<lambda>ob. column ob @ str '' '' @ direction ob) (orderBy p))
                @ str '']('' @ proj @ str '')'')"
    by (simp add: convertToRelationalAlgebra_def Let_def)
  show "map_option convertToRelationalAlgebra (parseSQL (str ''SELECT * FROM EMPLOYEE'')) = Some (str ''EMPLOYEE'')"
    by code_simp
qed

text \<open>
  C6. The spec promises the left outer join symbol for every LEFT join (and likewise for
  RIGHT and FULL). The extractor accepts any white space between the words of a join
  keyword (\<^verbatim>\<open>LEFT\s+JOIN\<close>) and stores the matched text, upper-cased, as the type of the
  join; the renderer compares the type with \<^verbatim>\<open>"LEFT JOIN"\<close>, \<^verbatim>\<open>"LEFT OUTER JOIN"\<close> and so on,
  written with one space. With two spaces between \<^verbatim>\<open>LEFT\<close> and \<^verbatim>\<open>JOIN\<close> the type is none of
  them, and the join is rendered with the symbol of the inner join; with one space it is
  rendered as a left outer join. (The fold itself, and the collapsing of white space in
  the condition, are lemma \<open>joins_fold\<close>.)
\<close>

theorem C6_spaced_left_join_renders_as_inner:
  "map_option joins (parseSQL (str ''SELECT * FROM t LEFT  JOIN u ON t.x = u.x WHERE k''))
     = Some [\<lparr>type = str ''LEFT  JOIN'', table = str ''u'', condition = str ''t.x = u.x''\<rparr>]
   \<and> map_option convertToRelationalAlgebra
       (parseSQL (str ''SELECT * FROM t LEFT  JOIN u ON t.x = u.x WHERE k''))
     = Some (sym_sigma @ str ''[k]((t '' @ sym_join @ str ''[t.x = u.x] u))'')
   \<and> map_option convertToRelationalAlgebra
       (parseSQL (str ''SELECT * FROM t LEFT JOIN u ON t.x = u.x WHERE k''))
     = Some (sym_sigma @ str ''[k]((t '' @ sym_left_join @ str ''[t.x = u.x] u))'')"
  by code_simp


text \<open>
  C8. For every ORDER BY item the column is the first white-space-delimited token, and
  the direction is \<^verbatim>\<open>DESC\<close> when the second token is \<^verbatim>\<open>DESC\<close> in any letter case (its
  \<^verbatim>\<open>toUpperCase\<close> is \<^verbatim>\<open>DESC\<close>) and \<^verbatim>\<open>ASC\<close> otherwise (so also when there is no second token:
  \<open>second_token\<close> is then empty). The renderer prints the items inside the sort operator
  as column, space, direction, separated by \<^verbatim>\<open>", "\<close> in the order of the list, around the
  rendering of the rest of the query.
\<close>

theorem C8_order_items:
  "parseOrderItem item =
     \<lparr>column = first_token item,
      direction = (if toUpperCase (second_token item) = str ''DESC'' then str ''DESC'' else str ''ASC'')\<rparr>
   \<and> convertToRelationalAlgebra p =
       (if orderBy p = [] then convertToRelationalAlgebra (p\<lparr>orderBy := []\<rparr>)
        else sym_tau @ str ''[''
               @ joinWith (str '', '') (map (\<lambda>ob. column ob @ str '' '' @ direction ob) (orderBy p))
               @ str '']('' @ convertToRelationalAlgebra (p\<lparr>orderBy := []\<rparr>) @ str '')'')"
  by (simp add: parseOrderItem_tokens convertToRelationalAlgebra_def Let_def)

text \<open>
  C9. Only the ORDER BY pattern has the semicolon as a boundary, so the final semicolon of
  a query whose last clause is WHERE, GROUP BY or HAVING should be part of that clause's
  text and show inside the brackets of its operator. For a WHERE clause written over two
  lines it does not: the group \<^verbatim>\<open>(.+?)\<close> of the WHERE pattern matches no line terminator
  (the defect of C1 and C4), so the clause is not extracted at all, and the rendering has
  no selection and no semicolon. The same query on one line renders the selection with
  the semicolon before the closing bracket.
\<close>

theorem C9_where_over_two_lines_has_no_semicolon:
  "map_option convertToRelationalAlgebra
     (parseSQL (str ''SELECT a FROM t WHERE x = 1'' @ lf @ str ''AND y = 2;''))
     = Some (sym_pi @ str ''[a](t)'')
   \<and> map_option convertToRelationalAlgebra
     (parseSQL (str ''SELECT a FROM t WHERE x = 1 AND y = 2;''))
     = Some (sym_pi @ str ''[a]('' @ sym_sigma @ str ''[x = 1 AND y = 2;](t))'')"
  by code_simp

text \<open>
  C10. A record returned by \<^verbatim>\<open>parseSQL\<close> has the operation \<^verbatim>\<open>SELECT\<close>, at least one table,
  at least one column, and at most one WHERE and one HAVING text; the base-relation step
  of the renderer therefore always has a first table to read.
\<close>

theorem C10_extracted_invariants:
  assumes "parseSQL query = Some p"
  shows "operation p = str ''SELECT'' \<and> tables p \<noteq> [] \<and> columns p \<noteq> []
         \<and> length (conditions p) \<le> 1 \<and> length (having p) \<le> 1"
proof -
  from assms obtain sm fm where p: "p = extracted (trim query) sm fm"
    by (rule parseSQL_SomeD)
  show ?thesis unfolding p extracted_def
    by (simp add: split_comma_nonempty split: option.splits)
qed

theorem C10_witness:
  "map_option (\<lambda>p. (operation p, tables p, columns p, conditions p, having p))
     (parseSQL (str ''SELECT a, b FROM t, u WHERE a = 1''))
   = Some (str ''SELECT'', [str ''t'', str ''u''], [str ''a'', str ''b''], [str ''a = 1''], [])"
proof -
  have e: "map_option (\<lambda>p. (tables p, columns p, conditions p, having p))
     (parseSQL (str ''SELECT a, b FROM t, u WHERE a = 1''))
   = Some ([str ''t'', str ''u''], [str ''a'', str ''b''], [str ''a = 1''], [])"
    by code_simp
  then obtain p where p: "parseSQL (str ''SELECT a, b FROM t, u WHERE a = 1'') = Some p" by blast
  from C10_extracted_invariants[OF p] p e show ?thesis by simp
qed

end
